theory Spec2Isabelle
  imports Main "HOL-Library.Word"
begin

unbundle bit_operations_syntax

section \<open>Registers and bit-fields\<close>

text \<open>
  A shallow embedding of \<^verbatim>\<open>src/gs/gs_interface.cpp\<close> (class \<^verbatim>\<open>GSInterface\<close>) and of the
  declarations of \<^verbatim>\<open>src/gs/page_tracker.hpp\<close>.

  Every GS register is a 64-bit word (\<^verbatim>\<open>Reg64<T>::bits\<close>) viewed through a C++ bit-field
  struct (\<^verbatim>\<open>Reg64<T>::desc\<close>).  The bit-field structs are declared in
  \<^verbatim>\<open>gs_registers.hpp\<close>, which is not among the sources at hand; the offsets and widths
  used below are those of the GS register set.  Reading a bit-field is \<open>get_field\<close>,
  assigning to one is \<open>set_field\<close> (the value is truncated to the width of the field and
  all other bits of the register are kept).
\<close>

type_synonym u64 = "64 word"
type_synonym u32 = "32 word"
type_synonym u16 = "16 word"
type_synonym ivec4 = "int \<times> int \<times> int \<times> int"

definition get_field :: "nat \<Rightarrow> nat \<Rightarrow> u64 \<Rightarrow> u64" where
  "get_field off w r = take_bit w (drop_bit off r)"

definition set_field :: "nat \<Rightarrow> nat \<Rightarrow> u64 \<Rightarrow> u64 \<Rightarrow> u64" where
  "set_field off w v r = (r AND NOT (push_bit off (mask w))) OR push_bit off (take_bit w v)"

text \<open>PRIMBits.\<close>

definition PRIM_PRIM :: "u64 \<Rightarrow> u64" where "PRIM_PRIM = get_field 0 3"
definition PRIM_IIP :: "u64 \<Rightarrow> u64" where "PRIM_IIP = get_field 3 1"
definition PRIM_TME :: "u64 \<Rightarrow> u64" where "PRIM_TME = get_field 4 1"
definition PRIM_FGE :: "u64 \<Rightarrow> u64" where "PRIM_FGE = get_field 5 1"
definition PRIM_ABE :: "u64 \<Rightarrow> u64" where "PRIM_ABE = get_field 6 1"
definition PRIM_AA1 :: "u64 \<Rightarrow> u64" where "PRIM_AA1 = get_field 7 1"
definition PRIM_FST :: "u64 \<Rightarrow> u64" where "PRIM_FST = get_field 8 1"
definition PRIM_CTXT :: "u64 \<Rightarrow> u64" where "PRIM_CTXT = get_field 9 1"
definition PRIM_FIX :: "u64 \<Rightarrow> u64" where "PRIM_FIX = get_field 10 1"

text \<open>FRAMEBits, ZBUFBits, TESTBits, SCISSORBits, XYOFFSETBits, ALPHABits.\<close>

definition FRAME_FBP :: "u64 \<Rightarrow> u64" where "FRAME_FBP = get_field 0 9"
definition FRAME_FBW :: "u64 \<Rightarrow> u64" where "FRAME_FBW = get_field 16 6"
definition FRAME_PSM :: "u64 \<Rightarrow> u64" where "FRAME_PSM = get_field 24 6"
definition FRAME_FBMSK :: "u64 \<Rightarrow> u64" where "FRAME_FBMSK = get_field 32 32"

definition ZBUF_ZBP :: "u64 \<Rightarrow> u64" where "ZBUF_ZBP = get_field 0 9"
definition ZBUF_PSM :: "u64 \<Rightarrow> u64" where "ZBUF_PSM = get_field 24 4"
definition ZBUF_ZMSK :: "u64 \<Rightarrow> u64" where "ZBUF_ZMSK = get_field 32 1"

definition TEST_ATE :: "u64 \<Rightarrow> u64" where "TEST_ATE = get_field 0 1"
definition TEST_ATST :: "u64 \<Rightarrow> u64" where "TEST_ATST = get_field 1 3"
definition TEST_AREF :: "u64 \<Rightarrow> u64" where "TEST_AREF = get_field 4 8"
definition TEST_AFAIL :: "u64 \<Rightarrow> u64" where "TEST_AFAIL = get_field 12 2"
definition TEST_DATE :: "u64 \<Rightarrow> u64" where "TEST_DATE = get_field 14 1"
definition TEST_DATM :: "u64 \<Rightarrow> u64" where "TEST_DATM = get_field 15 1"
definition TEST_ZTE :: "u64 \<Rightarrow> u64" where "TEST_ZTE = get_field 16 1"
definition TEST_ZTST :: "u64 \<Rightarrow> u64" where "TEST_ZTST = get_field 17 2"

definition ZTE_UNDEFINED :: u64 where "ZTE_UNDEFINED = 0"
definition ZTE_ENABLED :: u64 where "ZTE_ENABLED = 1"
definition ZTST_NEVER :: u64 where "ZTST_NEVER = 0"
definition ZTST_ALWAYS :: u64 where "ZTST_ALWAYS = 1"
definition ZTST_GREATER :: u64 where "ZTST_GREATER = 3"
definition ATST_NEVER :: u64 where "ATST_NEVER = 0"
definition ATST_ALWAYS :: u64 where "ATST_ALWAYS = 1"
definition AFAIL_KEEP :: u64 where "AFAIL_KEEP = 0"

definition has_z_test :: "u64 \<Rightarrow> bool" where
  \<comment> \<open>\<^verbatim>\<open>TESTBits::has_z_test()\<close>: a depth comparison other than ALWAYS.\<close>
  "has_z_test test = (TEST_ZTST test \<noteq> ZTST_ALWAYS)"

definition SCISSOR_SCAX0 :: "u64 \<Rightarrow> u64" where "SCISSOR_SCAX0 = get_field 0 11"
definition SCISSOR_SCAX1 :: "u64 \<Rightarrow> u64" where "SCISSOR_SCAX1 = get_field 16 11"
definition SCISSOR_SCAY0 :: "u64 \<Rightarrow> u64" where "SCISSOR_SCAY0 = get_field 32 11"
definition SCISSOR_SCAY1 :: "u64 \<Rightarrow> u64" where "SCISSOR_SCAY1 = get_field 48 11"

definition XYOFFSET_OFX :: "u64 \<Rightarrow> u64" where "XYOFFSET_OFX = get_field 0 16"
definition XYOFFSET_OFY :: "u64 \<Rightarrow> u64" where "XYOFFSET_OFY = get_field 32 16"

definition ALPHA_A :: "u64 \<Rightarrow> u64" where "ALPHA_A = get_field 0 2"
definition ALPHA_B :: "u64 \<Rightarrow> u64" where "ALPHA_B = get_field 2 2"
definition ALPHA_C :: "u64 \<Rightarrow> u64" where "ALPHA_C = get_field 4 2"
definition ALPHA_D :: "u64 \<Rightarrow> u64" where "ALPHA_D = get_field 6 2"
definition ALPHA_FIX :: "u64 \<Rightarrow> u64" where "ALPHA_FIX = get_field 32 8"

definition BLEND_RGB_DEST :: u64 where "BLEND_RGB_DEST = 1"
definition BLEND_ALPHA_DEST :: u64 where "BLEND_ALPHA_DEST = 1"

text \<open>XYZBits, XYZFBits, RGBAQBits, STBits, UVBits, FOGBits.\<close>

definition XYZ_X :: "u64 \<Rightarrow> u64" where "XYZ_X = get_field 0 16"
definition XYZ_Y :: "u64 \<Rightarrow> u64" where "XYZ_Y = get_field 16 16"
definition XYZ_Z :: "u64 \<Rightarrow> u64" where "XYZ_Z = get_field 32 32"
definition XYZF_Z :: "u64 \<Rightarrow> u64" where "XYZF_Z = get_field 32 24"
definition XYZF_F :: "u64 \<Rightarrow> u64" where "XYZF_F = get_field 56 8"

definition RGBAQ_Q :: "u64 \<Rightarrow> u64" where "RGBAQ_Q = get_field 32 32"
definition ST_S :: "u64 \<Rightarrow> u64" where "ST_S = get_field 0 32"
definition ST_T :: "u64 \<Rightarrow> u64" where "ST_T = get_field 32 32"
definition UV_U :: "u64 \<Rightarrow> u64" where "UV_U = get_field 0 14"
definition UV_V :: "u64 \<Rightarrow> u64" where "UV_V = get_field 16 14"
definition FOG_FOG :: "u64 \<Rightarrow> u64" where "FOG_FOG = get_field 56 8"

text \<open>TEX0Bits, TEX1Bits, CLAMPBits, TEXCLUTBits and the one-bit mode registers.\<close>

definition TEX0_TBP0 :: "u64 \<Rightarrow> u64" where "TEX0_TBP0 = get_field 0 14"
definition TEX0_TBW :: "u64 \<Rightarrow> u64" where "TEX0_TBW = get_field 14 6"
definition TEX0_PSM :: "u64 \<Rightarrow> u64" where "TEX0_PSM = get_field 20 6"
definition TEX0_TW :: "u64 \<Rightarrow> u64" where "TEX0_TW = get_field 26 4"
definition TEX0_TH :: "u64 \<Rightarrow> u64" where "TEX0_TH = get_field 30 4"
definition TEX0_TCC :: "u64 \<Rightarrow> u64" where "TEX0_TCC = get_field 34 1"
definition TEX0_TFX :: "u64 \<Rightarrow> u64" where "TEX0_TFX = get_field 35 2"
definition TEX0_CBP :: "u64 \<Rightarrow> u64" where "TEX0_CBP = get_field 37 14"
definition TEX0_CPSM :: "u64 \<Rightarrow> u64" where "TEX0_CPSM = get_field 51 4"
definition TEX0_CSM :: "u64 \<Rightarrow> u64" where "TEX0_CSM = get_field 55 1"
definition TEX0_CSA :: "u64 \<Rightarrow> u64" where "TEX0_CSA = get_field 56 5"
definition TEX0_CLD :: "u64 \<Rightarrow> u64" where "TEX0_CLD = get_field 61 3"

definition CSM_LAYOUT_RECT :: u64 where "CSM_LAYOUT_RECT = 0"
definition CSM_LAYOUT_LINE :: u64 where "CSM_LAYOUT_LINE = 1"
definition COU_SCALE :: nat where "COU_SCALE = 16"

definition PSMCT32 :: u64 where "PSMCT32 = 0"
definition PSMT8 :: u64 where "PSMT8 = 19"
definition PSMT8H :: u64 where "PSMT8H = 27"

definition TEX1_LCM :: "u64 \<Rightarrow> u64" where "TEX1_LCM = get_field 0 1"
definition TEX1_MXL :: "u64 \<Rightarrow> u64" where "TEX1_MXL = get_field 2 3"
definition TEX1_MMAG :: "u64 \<Rightarrow> u64" where "TEX1_MMAG = get_field 5 1"
definition TEX1_MMIN :: "u64 \<Rightarrow> u64" where "TEX1_MMIN = get_field 6 3"
definition TEX1_MTBA :: "u64 \<Rightarrow> u64" where "TEX1_MTBA = get_field 9 1"
definition TEX1_L :: "u64 \<Rightarrow> u64" where "TEX1_L = get_field 19 2"
definition TEX1_K :: "u64 \<Rightarrow> u64" where "TEX1_K = get_field 32 12"

definition mmin_has_mipmap :: "u64 \<Rightarrow> bool" where
  \<comment> \<open>\<^verbatim>\<open>TEX1Bits::mmin_has_mipmap()\<close>: MMIN selects one of the four MIPMAP filters (2..5).\<close>
  "mmin_has_mipmap tex1 = (2 \<le> TEX1_MMIN tex1 \<and> TEX1_MMIN tex1 \<le> 5)"

definition CLAMP_WMS :: "u64 \<Rightarrow> u64" where "CLAMP_WMS = get_field 0 2"
definition CLAMP_WMT :: "u64 \<Rightarrow> u64" where "CLAMP_WMT = get_field 2 2"

definition has_horizontal_clamp :: "u64 \<Rightarrow> bool" where
  \<comment> \<open>\<^verbatim>\<open>CLAMPBits::has_horizontal_clamp()\<close>: WMS is CLAMP (1) or REGION_CLAMP (2).\<close>
  "has_horizontal_clamp c = (CLAMP_WMS c = 1 \<or> CLAMP_WMS c = 2)"

definition has_vertical_clamp :: "u64 \<Rightarrow> bool" where
  "has_vertical_clamp c = (CLAMP_WMT c = 1 \<or> CLAMP_WMT c = 2)"

definition TEXCLUT_CBW :: "u64 \<Rightarrow> u64" where "TEXCLUT_CBW = get_field 0 6"
definition TEXCLUT_COU :: "u64 \<Rightarrow> u64" where "TEXCLUT_COU = get_field 6 6"
definition TEXCLUT_COV :: "u64 \<Rightarrow> u64" where "TEXCLUT_COV = get_field 12 10"

definition PRMODECONT_AC :: "u64 \<Rightarrow> u64" where "PRMODECONT_AC = get_field 0 1"
definition AC_DEFAULT :: u64 where "AC_DEFAULT = 1"
definition DTHE_DTHE :: "u64 \<Rightarrow> u64" where "DTHE_DTHE = get_field 0 1"
definition PABE_PABE :: "u64 \<Rightarrow> u64" where "PABE_PABE = get_field 0 1"
definition COLCLAMP_CLAMP :: "u64 \<Rightarrow> u64" where "COLCLAMP_CLAMP = get_field 0 1"
definition FBA_FBA :: "u64 \<Rightarrow> u64" where "FBA_FBA = get_field 0 1"
definition SCANMSK_MSK :: "u64 \<Rightarrow> u64" where "SCANMSK_MSK = get_field 0 2"
definition MSK_SKIP_EVEN :: u64 where "MSK_SKIP_EVEN = 2"

definition has_mask :: "u64 \<Rightarrow> bool" where
  \<comment> \<open>\<^verbatim>\<open>SCANMSKBits::has_mask()\<close>: MSK is SKIP_EVEN (2) or SKIP_ODD (3).\<close>
  "has_mask r = (SCANMSK_MSK r = 2 \<or> SCANMSK_MSK r = 3)"

text \<open>TRXDIRBits, TRXREGBits, TRXPOSBits, BITBLTBUFBits.\<close>

definition TRXDIR_XDIR :: "u64 \<Rightarrow> u64" where "TRXDIR_XDIR = get_field 0 2"
definition HOST_TO_LOCAL :: u64 where "HOST_TO_LOCAL = 0"
definition LOCAL_TO_HOST :: u64 where "LOCAL_TO_HOST = 1"
definition LOCAL_TO_LOCAL :: u64 where "LOCAL_TO_LOCAL = 2"
definition TRXREG_RRW :: "u64 \<Rightarrow> u64" where "TRXREG_RRW = get_field 0 12"
definition TRXREG_RRH :: "u64 \<Rightarrow> u64" where "TRXREG_RRH = get_field 32 12"
definition BITBLTBUF_DPSM :: "u64 \<Rightarrow> u64" where "BITBLTBUF_DPSM = get_field 56 6"


section \<open>Data model\<close>

text \<open>
  \<^verbatim>\<open>StateDirtyFlagBits\<close> are declared in \<^verbatim>\<open>gs_interface.hpp\<close> (not among the sources at
  hand).  The code only ever sets, clears and tests the named bits, so all that matters is
  that they are distinct single bits and that \<^verbatim>\<open>STATE_DIRTY_ALL_BITS\<close> contains them all.
\<close>

definition STATE_DIRTY_FB_BIT :: u32 where "STATE_DIRTY_FB_BIT = 1"
definition STATE_DIRTY_TEX_BIT :: u32 where "STATE_DIRTY_TEX_BIT = 2"
definition STATE_DIRTY_STATE_BIT :: u32 where "STATE_DIRTY_STATE_BIT = 4"
definition STATE_DIRTY_PRIM_TEMPLATE_BIT :: u32 where "STATE_DIRTY_PRIM_TEMPLATE_BIT = 8"
definition STATE_DIRTY_FEEDBACK_BIT :: u32 where "STATE_DIRTY_FEEDBACK_BIT = 16"
definition STATE_DIRTY_DEGENERATE_BIT :: u32 where "STATE_DIRTY_DEGENERATE_BIT = 32"
definition STATE_DIRTY_ALL_BITS :: u32 where "STATE_DIRTY_ALL_BITS = 0x7fffffff"

text \<open>\<^verbatim>\<open>PageTrackerFlushFlagBits\<close> and \<^verbatim>\<open>FlushReason\<close> (page_tracker.hpp).\<close>

definition PAGE_TRACKER_FLUSH_HOST_VRAM_SYNC_BIT :: u32 where
  "PAGE_TRACKER_FLUSH_HOST_VRAM_SYNC_BIT = push_bit 0 1"
definition PAGE_TRACKER_FLUSH_COPY_BIT :: u32 where
  "PAGE_TRACKER_FLUSH_COPY_BIT = push_bit 1 1"
definition PAGE_TRACKER_FLUSH_CACHE_BIT :: u32 where
  "PAGE_TRACKER_FLUSH_CACHE_BIT = push_bit 2 1"
definition PAGE_TRACKER_FLUSH_FB_BIT :: u32 where
  "PAGE_TRACKER_FLUSH_FB_BIT = push_bit 3 1"
definition PAGE_TRACKER_FLUSH_WRITE_BACK_BIT :: u32 where
  "PAGE_TRACKER_FLUSH_WRITE_BACK_BIT = push_bit 4 1"
definition PAGE_TRACKER_FLUSH_FB_ALL :: u32 where
  "PAGE_TRACKER_FLUSH_FB_ALL =
     PAGE_TRACKER_FLUSH_HOST_VRAM_SYNC_BIT OR PAGE_TRACKER_FLUSH_CACHE_BIT OR
     PAGE_TRACKER_FLUSH_COPY_BIT OR PAGE_TRACKER_FLUSH_FB_BIT"
definition PAGE_TRACKER_FLUSH_COPY_ALL :: u32 where
  "PAGE_TRACKER_FLUSH_COPY_ALL =
     PAGE_TRACKER_FLUSH_HOST_VRAM_SYNC_BIT OR PAGE_TRACKER_FLUSH_COPY_BIT"
definition PAGE_TRACKER_FLUSH_CACHE_ALL :: u32 where
  "PAGE_TRACKER_FLUSH_CACHE_ALL =
     PAGE_TRACKER_FLUSH_HOST_VRAM_SYNC_BIT OR PAGE_TRACKER_FLUSH_COPY_BIT OR
     PAGE_TRACKER_FLUSH_CACHE_BIT"

datatype FlushReason = FBPointer | Overflow | TextureHazard | CopyHazard | SubmissionFlush

record PageRect =
  base_page :: int
  page_width :: int
  page_height :: int
  page_stride :: int
  block_mask :: u32
  write_mask :: u32

datatype PRIMType =
  Point | LineList | LineStrip | TriangleList | TriangleStrip | TriangleFan | Sprite | Invalid

definition PRIMType_of :: "u64 \<Rightarrow> PRIMType" where
  "PRIMType_of v =
     (if v = 0 then Point else if v = 1 then LineList else if v = 2 then LineStrip
      else if v = 3 then TriangleList else if v = 4 then TriangleStrip
      else if v = 5 then TriangleFan else if v = 6 then Sprite else Invalid)"

text \<open>
  The member-function pointers \<^verbatim>\<open>draw_handler\<close> and \<^verbatim>\<open>optimized_draw_handler[path]\<close> are
  values naming the template instance they point to.
\<close>

datatype ColorFeedbackMode = FeedbackNone | FeedbackPixel | FeedbackSliced

datatype DrawHandler =
  Drawing_kick_primitive bool bool bool nat  \<comment> \<open>list_primitive, fan_primitive, quad, num_vertices\<close>
| Drawing_kick_invalid

datatype OptimizedPacketHandler =
  Packed_STQRGBAXYZ bool PRIMType nat   \<comment> \<open>FOG, PRIM, factor\<close>
| Packed_UVRGBAXYZ bool PRIMType nat
| Packed_STXYZSTRGBAXYZ_sprite bool
| Packed_ADONLY nat

text \<open>
  Floating-point members (\<^verbatim>\<open>pos.z\<close>, \<^verbatim>\<open>attr.q\<close>, \<^verbatim>\<open>attr.fog\<close>, \<^verbatim>\<open>internal_q\<close>) are only
  ever copied by the code modelled here; they are carried as the register bits they were
  converted from (\<^verbatim>\<open>1.0f\<close> is \<open>0x3f800000\<close>).
\<close>

record VertexPosition =
  pos_x :: int
  pos_y :: int
  pos_z :: u64

record VertexAttribute =
  attr_s :: u64
  attr_t :: u64
  attr_q :: u64
  attr_rgba :: u64
  attr_fog :: u64
  attr_u :: u64
  attr_v :: u64

record VertexQueue =
  vq_pos :: "VertexPosition list"
  vq_attr :: "VertexAttribute list"
  vq_count :: nat

text \<open>
  \<^verbatim>\<open>StateVector\<close> packs its fields into the words \<^verbatim>\<open>blend_mode\<close> and \<^verbatim>\<open>combiner\<close> at
  offsets declared with the shaders (\<^verbatim>\<open>BLEND_MODE_*\<close>, \<^verbatim>\<open>COMBINER_*\<close>), which are not among
  the sources at hand.  The fields are kept apart here; two state vectors are equal iff all
  their fields are.  The same holds for the words \<^verbatim>\<open>tex\<close>, \<^verbatim>\<open>tex2\<close> and \<^verbatim>\<open>state\<close> of a
  primitive (\<^verbatim>\<open>TEX_*\<close>, \<^verbatim>\<open>TEX2_*\<close>, \<^verbatim>\<open>STATE_BIT_*\<close>).
\<close>

record StateVector =
  bm_dthe :: bool
  bm_ate :: bool
  bm_ate_mode :: u64
  bm_afail_mode :: u64
  bm_date :: bool
  bm_datm :: bool
  bm_abcd :: "u64 \<times> u64 \<times> u64 \<times> u64"
  bm_abe :: bool
  bm_pabe :: bool
  bm_colclamp :: bool
  bm_fb_alpha :: bool
  cb_tme :: bool
  cb_tcc :: bool
  cb_mode :: u64
  cb_fog :: bool
  dimx_x :: u64
  dimx_y :: u64

record TexWord =
  tex_index :: u32
  tex_mag_linear :: bool
  tex_min_linear :: bool
  tex_mipmap_linear :: bool
  tex_clamp_s :: bool
  tex_clamp_t :: bool
  tex_max_mip_level :: u64
  tex2_fixed_lod :: u64
  tex2_L :: u64
  tex2_K :: u64

record StateWord =
  state_index :: nat
  sb_z_test :: bool
  sb_z_test_greater :: bool
  sb_z_write :: bool
  sb_opaque :: bool
  sb_multisample :: bool
  sb_scanmsk_even :: bool
  sb_scanmsk_odd :: bool
  sb_perspective :: bool
  sb_iip :: bool
  sb_fix :: bool
  sb_parallelogram :: bool
  sb_sprite :: bool
  sb_snap_raster :: bool
  sb_line :: bool

record PrimitiveAttribute =
  pa_tex :: TexWord
  pa_state :: StateWord
  pa_fbmsk :: u64
  pa_fogcol :: u64
  pa_afix :: u64
  pa_aref :: u64
  pa_bb :: "ivec4"

record PaletteUploadDescriptor =
  pud_texclut :: u64
  pud_tex0 :: u64

record MemoizedPalette =
  mp_upload :: PaletteUploadDescriptor
  mp_csa_mask :: u32
  mp_clut_instance :: u32


record ContextState =
  tex0 :: u64
  tex1 :: u64
  clamp :: u64
  xyoffset :: u64
  miptbl_1_3 :: u64
  miptbl_4_6 :: u64
  scissor :: u64
  alpha :: u64
  test :: u64
  fba :: u64
  frame :: u64
  zbuf :: u64

record RegisterState =
  ctx0 :: ContextState
  ctx1 :: ContextState
  prim :: u64
  rgbaq :: u64
  st :: u64
  uv :: u64
  fog :: u64
  prmodecont :: u64
  texclut :: u64
  scanmsk :: u64
  texa :: u64
  fogcol :: u64
  dimx :: u64
  dthe :: u64
  colclamp :: u64
  pabe :: u64
  bitbltbuf :: u64
  trxpos :: u64
  trxreg :: u64
  trxdir :: u64
  internal_q :: u64
  cached_cbp0 :: u64
  cached_cbp1 :: u64

text \<open>\<^verbatim>\<open>registers.ctx[i]\<close>, for the one-bit index \<^verbatim>\<open>PRIM.CTXT\<close> or a template argument.\<close>

definition ctx_of :: "RegisterState \<Rightarrow> u64 \<Rightarrow> ContextState" where
  "ctx_of r i = (if i = 0 then ctx0 r else ctx1 r)"

definition ctx_upd :: "u64 \<Rightarrow> (ContextState \<Rightarrow> ContextState) \<Rightarrow> RegisterState \<Rightarrow> RegisterState" where
  "ctx_upd i f r = (if i = 0 then r\<lparr>ctx0 := f (ctx0 r)\<rparr> else r\<lparr>ctx1 := f (ctx1 r)\<rparr>)"

record StateTracker =
  dirty_flags :: u32
  degenerate_draw :: bool
  last_state_vector :: StateVector
  last_state_index :: nat
  last_texture_index :: u32
  prim_template_tex :: TexWord
  prim_template_state :: StateWord

text \<open>
  The render-pass accumulator \<^verbatim>\<open>render_pass\<close>.  The vectors \<^verbatim>\<open>positions\<close>,
  \<^verbatim>\<open>attributes\<close> and \<^verbatim>\<open>prim\<close> are written at index \<^verbatim>\<open>primitive_count\<close>; the lists
  hold their first \<^verbatim>\<open>primitive_count\<close> entries.  \<^verbatim>\<open>memoized_palettes\<close> with
  \<^verbatim>\<open>num_memoized_palettes\<close> is the list of its valid entries, oldest first.
  \<^verbatim>\<open>state_vector_map\<close> is keyed by a hash of the state vector; the hasher is not among the
  sources at hand and is taken to be free of collisions, so the map is keyed by the state
  vector.  Textures are named by the index the texture commit hands out.
  \<^verbatim>\<open>texture_map\<close> takes the hash of a texture descriptor to the index of the texture in
  the pass and to its \<^verbatim>\<open>valid\<close> flag; \<^verbatim>\<open>held_images\<close> are the image handles the pass keeps
  alive, by number.
\<close>

record RenderPassState =
  rp_positions :: "VertexPosition list list"
  rp_attributes :: "VertexAttribute list list"
  rp_prim :: "PrimitiveAttribute list"
  primitive_count :: nat
  state_vectors :: "StateVector list"
  state_vector_map :: "(StateVector \<times> nat) list"
  tex_infos :: "nat list"
  texture_map :: "nat \<rightharpoonup> u32 \<times> bool"
  held_images :: "nat list"
  rp_frame :: u64
  rp_zbuf :: u64
  fb_page_width_log2 :: nat
  fb_page_height_log2 :: nat
  z_page_width_log2 :: nat
  z_page_height_log2 :: nat
  rp_bb :: "ivec4"
  color_write_mask :: u32
  z_sensitive :: bool
  z_write :: bool
  has_color_feedback :: bool
  has_aa1 :: bool
  has_scanmsk :: bool
  is_color_feedback :: bool
  is_potential_color_feedback :: bool
  is_potential_depth_feedback :: bool
  clut_instance :: u32
  latest_clut_instance :: u32
  pending_palette_updates :: nat
  memoized_palettes :: "MemoizedPalette list"
  label_key :: nat

text \<open>
  \<^verbatim>\<open>transfer_state.copy\<close>, the descriptor handed to \<^verbatim>\<open>renderer.copy_vram\<close>.  The pointer
  \<^verbatim>\<open>host_data\<close> is the payload it points to at the time; sizes are in bytes.
\<close>

record VRAMCopy =
  copy_trxdir :: u64
  copy_trxreg :: u64
  copy_trxpos :: u64
  copy_bitbltbuf :: u64
  host_data :: "u64 list"
  host_data_size :: nat
  host_data_size_offset :: nat
  host_data_size_required :: nat

record TransferState =
  host_to_local_active :: bool
  host_to_local_payload :: "u64 list"
  last_flushed_qwords :: nat
  required_qwords :: nat
  copy :: VRAMCopy

text \<open>
  A GIF quad-word is the pair of its low and high 64-bit halves (\<^verbatim>\<open>word64[2 * i]\<close>,
  \<^verbatim>\<open>word64[2 * i + 1]\<close>).  \<^verbatim>\<open>GIFTagBits\<close> (gs_registers.hpp): NLOOP bits 0..14, PRE 46,
  PRIM 47..57, FLG 58..59, NREG 60..63, REGS 64..127.
\<close>

type_synonym qword = "u64 \<times> u64"

definition tag_NLOOP :: "qword \<Rightarrow> nat" where "tag_NLOOP t = unat (get_field 0 15 (fst t))"
definition tag_PRE :: "qword \<Rightarrow> u64" where "tag_PRE t = get_field 46 1 (fst t)"
definition tag_PRIM :: "qword \<Rightarrow> u64" where "tag_PRIM t = get_field 47 11 (fst t)"
definition tag_FLG :: "qword \<Rightarrow> u64" where "tag_FLG t = get_field 58 2 (fst t)"
definition tag_NREG :: "qword \<Rightarrow> nat" where "tag_NREG t = unat (get_field 60 4 (fst t))"
definition tag_REGS :: "qword \<Rightarrow> u64" where "tag_REGS t = snd t"

definition PACKED :: u64 where "PACKED = 0"
definition REGLIST :: u64 where "REGLIST = 1"

record GIFPath =
  tag :: qword
  loop :: nat
  reg :: nat

text \<open>The RenderPass handed to \<^verbatim>\<open>renderer.flush_rendering\<close> (debug members left out).\<close>

record RenderPass =
  num_primitives :: nat
  out_prims :: "PrimitiveAttribute list"
  out_positions :: "VertexPosition list list"
  out_attributes :: "VertexAttribute list list"
  out_frame :: u64
  out_z :: u64
  out_states :: "StateVector list"
  num_textures :: nat
  coarse_tile_size_log2 :: nat
  base_x :: int
  base_y :: int
  coarse_tiles_width :: int
  coarse_tiles_height :: int
  feedback_texture :: bool
  out_z_sensitive :: bool
  out_has_aa1 :: bool
  out_has_scanmsk :: bool
  out_sampling_rate_x_log2 :: nat
  out_sampling_rate_y_log2 :: nat
  out_label_key :: nat
  flush_reason :: FlushReason

text \<open>
  Calls that leave \<^verbatim>\<open>GSInterface\<close>: to the back-end (\<^verbatim>\<open>renderer.*\<close>) and to the page
  tracker (\<^verbatim>\<open>tracker.*\<close>), in the order they are made.  The arguments of
  \<^verbatim>\<open>compute_page_rect\<close> (gs_util.hpp, not among the sources at hand) stand for the
  page rectangle it computes.
\<close>

datatype PageRectSource =
  Rect PageRect
| Compute_page_rect u64 nat nat nat nat u64 u64

datatype Call =
  Flush_host_vram_copy "nat list"
| Flush_transfer
| Transfer_overlap_barrier
| Flush_cache_upload
| Flush_rendering RenderPass
| Flush_readback "nat list"
| Update_palette_cache PaletteUploadDescriptor
| Copy_vram VRAMCopy
| Mark_fb_write PageRect
| Mark_fb_read PageRect
| Mark_texture_read PageRectSource u32
| Register_cached_clut_clobber PageRectSource u32
| Mark_transfer_write PageRectSource
| Mark_transfer_copy PageRectSource PageRectSource
| Invalidate_texture_cache u32
| Tracker_flush_render_pass FlushReason

text \<open>
  \<^verbatim>\<open>PageTrackerCallback\<close> (page_tracker.hpp, lines 127-135): what the tracker may call on
  the interface while it serves a call.
\<close>

datatype TrackerCallback =
  Cb_flush u32 FlushReason
| Cb_sync_host_vram_page nat
| Cb_sync_vram_host_page nat
| Cb_invalidate_texture_hash nat bool
| Cb_forget_in_render_pass_memoization

record GSInterface =
  registers :: RegisterState
  state_tracker :: StateTracker
  vertex_queue :: VertexQueue
  render_pass :: RenderPassState
  transfer_state :: TransferState
  paths :: "GIFPath list"
  optimized_draw_handler :: "OptimizedPacketHandler option list"
  draw_handler :: DrawHandler
  sync_host_vram_pages :: "u32 list"
  sync_vram_host_pages :: "u32 list"
  page_buffer :: "nat list"
  sampling_rate_x_log2 :: nat
  sampling_rate_y_log2 :: nat
  vram_size :: nat
  calls :: "Call list"

text \<open>
  Constants and helpers that \<^verbatim>\<open>gs_interface.cpp\<close> uses and other files declare
  (\<^verbatim>\<open>gs_renderer.hpp\<close>, \<^verbatim>\<open>gs_util.hpp\<close>, \<^verbatim>\<open>shaders/swizzle_utils.h\<close>) are parameters of
  the model.  So is what a textured primitive triggers with the texture cache
  (\<^verbatim>\<open>update_color_feedback_state\<close> past its test of \<^verbatim>\<open>PRIM.TME\<close>,
  \<^verbatim>\<open>deduce_color_feedback_mode\<close>, \<^verbatim>\<open>texture_page_rects_read\<close> and
  \<^verbatim>\<open>drawing_kick_update_texture\<close>): it rests on the renderer, on floating point and on the
  tracker's cache of textures.  The palette instance returned by
  \<^verbatim>\<open>renderer.update_palette_cache\<close> is \<open>palette_instance\<close> of the descriptor and of the
  calls made so far.  \<^verbatim>\<open>a_d_RGBAQUndocumented\<close> is registered by \<^verbatim>\<open>gs_register_addr.hpp\<close>
  at an address outside the documented register map, \<open>RGBAQUndocumented_addr\<close>.

  Modelled from the spec: the page tracker (\<^verbatim>\<open>page_tracker.cpp\<close>) is not among the sources
  at hand.  It ``accepts reads and writes, raises flushes through a callback when hazards
  are detected''.  What it does with a call is decided by the calls it has seen, so its
  reaction is a function of the calls made so far and of the call it serves:
  \<open>tracker_callbacks\<close> is the list of callbacks it makes before it returns, and
  \<open>tracker_invalidates\<close> is the value \<^verbatim>\<open>invalidate_texture_cache\<close> returns, ``true iff any
  invalidation happened''.
\<close>

record Config =
  MaxPrimitivesPerFlush :: nat
  MaxTextures :: nat
  MaxStateVectors :: nat
  CLUTInstances :: nat
  NumMemoizedPalettes :: nat
  psm_page_width_log2 :: "u64 \<Rightarrow> nat"
  psm_page_height_log2 :: "u64 \<Rightarrow> nat"
  psm_block_width_log2 :: "u64 \<Rightarrow> nat"
  psm_block_height_log2 :: "u64 \<Rightarrow> nat"
  psm_word_write_mask :: "u64 \<Rightarrow> u32"
  get_bits_per_pixel :: "u64 \<Rightarrow> nat"
  palette_instance :: "PaletteUploadDescriptor \<Rightarrow> Call list \<Rightarrow> u32"
  textured_feedback_state :: "GSInterface \<Rightarrow> GSInterface"
  textured_feedback_mode :: "VertexPosition list \<Rightarrow> VertexAttribute list \<Rightarrow> ivec4 \<Rightarrow>
                             GSInterface \<Rightarrow> ColorFeedbackMode \<times> ivec4"
  textured_page_rects_read :: "GSInterface \<Rightarrow> GSInterface"
  textured_update_texture :: "ColorFeedbackMode \<Rightarrow> ivec4 \<Rightarrow> ivec4 \<Rightarrow>
                              GSInterface \<Rightarrow> u32 \<times> GSInterface"
  RGBAQUndocumented_addr :: u64
  tracker_callbacks :: "Call list \<Rightarrow> Call \<Rightarrow> TrackerCallback list"
  tracker_invalidates :: "Call list \<Rightarrow> u32 \<Rightarrow> bool"


section \<open>Flushing\<close>

definition INT32_MAX :: int where "INT32_MAX = 2147483647"
definition INT32_MIN :: int where "INT32_MIN = - 2147483648"

text \<open>A bounding box \<^verbatim>\<open>ivec4 bb\<close> is \<open>(x, y, z, w)\<close>: lowest and highest pixel covered.\<close>

definition bb_x :: "ivec4 \<Rightarrow> int" where "bb_x bb = fst bb"
definition bb_y :: "ivec4 \<Rightarrow> int" where "bb_y bb = fst (snd bb)"
definition bb_z :: "ivec4 \<Rightarrow> int" where "bb_z bb = fst (snd (snd bb))"
definition bb_w :: "ivec4 \<Rightarrow> int" where "bb_w bb = snd (snd (snd bb))"

text \<open>
  \<^verbatim>\<open>FB_SWIZZLE_WIDTH_LOG2\<close> and \<^verbatim>\<open>FB_SWIZZLE_HEIGHT_LOG2\<close> (declared with the shaders) are 3:
  the coarse tiles of the cost estimate are 8 by 8 pixels.  \<^verbatim>\<open>x >> n\<close> on an \<^verbatim>\<open>int\<close> is
  the arithmetic shift, \<open>x div 2 ^ n\<close>.
\<close>

definition FB_SWIZZLE_WIDTH_LOG2 :: nat where "FB_SWIZZLE_WIDTH_LOG2 = 3"
definition FB_SWIZZLE_HEIGHT_LOG2 :: nat where "FB_SWIZZLE_HEIGHT_LOG2 = 3"

definition binning_cost :: "ivec4 \<Rightarrow> nat \<Rightarrow> u32" where
  \<comment> \<open>lines 97-99; all three factors and the product are \<^verbatim>\<open>uint32_t\<close>\<close>
  "binning_cost bb n =
     (case bb of (x, y, z, w) \<Rightarrow>
        let tile_width = (word_of_int ((z - x) div 2 ^ FB_SWIZZLE_WIDTH_LOG2 + 1) :: u32);
            tile_height = (word_of_int ((w - y) div 2 ^ FB_SWIZZLE_HEIGHT_LOG2 + 1) :: u32)
        in tile_width * tile_height * word_of_nat n)"

definition choose_coarse_tile_size_log2 :: "ivec4 \<Rightarrow> nat \<Rightarrow> nat \<Rightarrow> nat" where
  \<comment> \<open>lines 96-110 of \<^verbatim>\<open>flush_render_pass\<close>\<close>
  "choose_coarse_tile_size_log2 bb n ss_y_log2 =
     (let cost = binning_cost bb n;
          l = (if cost < 10 * 1000 then 3
               else if cost < 10 * 1000 * 1000 then 4
               else if cost < 100 * 1000 * 1000 then 5
               else (6 :: nat))
      in if ss_y_log2 \<noteq> 0 \<and> l > 3 then l - 1 else l)"

definition make_render_pass :: "FlushReason \<Rightarrow> GSInterface \<Rightarrow> RenderPass" where
  "make_render_pass reason s =
     (let rp = render_pass s; bb = rp_bb rp;
          l = choose_coarse_tile_size_log2 bb (primitive_count rp) (sampling_rate_y_log2 s)
      in \<lparr> num_primitives = primitive_count rp,
           out_prims = rp_prim rp,
           out_positions = rp_positions rp,
           out_attributes = rp_attributes rp,
           out_frame = rp_frame rp,
           out_z = rp_zbuf rp,
           out_states = state_vectors rp,
           num_textures = length (tex_infos rp),
           coarse_tile_size_log2 = l,
           base_x = bb_x bb,
           base_y = bb_y bb,
           coarse_tiles_width = (bb_z bb - bb_x bb) div 2 ^ l + 1,
           coarse_tiles_height = (bb_w bb - bb_y bb) div 2 ^ l + 1,
           feedback_texture = has_color_feedback rp,
           out_z_sensitive = z_sensitive rp,
           out_has_aa1 = has_aa1 rp,
           out_has_scanmsk = has_scanmsk rp,
           out_sampling_rate_x_log2 = sampling_rate_x_log2 s,
           out_sampling_rate_y_log2 = sampling_rate_y_log2 s,
           out_label_key = label_key rp,
           flush_reason = reason \<rparr>)"

definition emit :: "Call \<Rightarrow> GSInterface \<Rightarrow> GSInterface" where
  "emit c s = s\<lparr>calls := calls s @ [c]\<rparr>"

definition flush_render_pass :: "FlushReason \<Rightarrow> GSInterface \<Rightarrow> GSInterface" where
  "flush_render_pass reason s =
     (let s1 = (if primitive_count (render_pass s) \<noteq> 0
                then (emit (Flush_rendering (make_render_pass reason s)) s)
                       \<lparr>render_pass := (render_pass s)\<lparr>label_key := label_key (render_pass s) + 1\<rparr>\<rparr>
                else s)
      in s1\<lparr>render_pass := (render_pass s1)
               \<lparr>rp_positions := [], rp_attributes := [], rp_prim := [],
                held_images := [], texture_map := Map.empty,
                tex_infos := [], state_vector_map := [], state_vectors := [],
                primitive_count := 0, pending_palette_updates := 0,
                rp_bb := (INT32_MAX, INT32_MAX, INT32_MIN, INT32_MIN),
                color_write_mask := 0, z_sensitive := False, z_write := False,
                has_color_feedback := False, has_aa1 := False, has_scanmsk := False\<rparr>,
             state_tracker := (state_tracker s1)\<lparr>dirty_flags := STATE_DIRTY_ALL_BITS\<rparr>\<rparr>)"

text \<open>\<^verbatim>\<open>Util::for_each_bit\<close> visits the set bits of a word from the lowest up.\<close>

definition for_each_bit :: "u32 \<Rightarrow> nat list" where
  "for_each_bit w = filter (bit w) [0..<32]"

definition collect_pages :: "u32 list \<Rightarrow> nat list" where
  "collect_pages ws = concat (map (\<lambda>i. map (\<lambda>b. i * 32 + b) (for_each_bit (ws ! i))) [0..<length ws])"

definition flush_host_vram_sync :: "GSInterface \<Rightarrow> GSInterface" where
  \<comment> \<open>lines 181-196\<close>
  "flush_host_vram_sync s =
     (let pb = collect_pages (sync_host_vram_pages s);
          s1 = s\<lparr>page_buffer := pb, sync_host_vram_pages := map (\<lambda>_. 0) (sync_host_vram_pages s)\<rparr>
      in if pb \<noteq> [] then emit (Flush_host_vram_copy pb) s1 else s1)"

definition flush_copy :: "u32 \<Rightarrow> GSInterface \<Rightarrow> GSInterface" where
  \<comment> \<open>lines 198-211\<close>
  "flush_copy flags s =
     (if flags AND (PAGE_TRACKER_FLUSH_CACHE_BIT OR PAGE_TRACKER_FLUSH_FB_BIT OR
                    PAGE_TRACKER_FLUSH_WRITE_BACK_BIT) \<noteq> 0
      then emit Flush_transfer s
      else emit Transfer_overlap_barrier s)"

definition flush_cache :: "GSInterface \<Rightarrow> GSInterface" where
  \<comment> \<open>lines 213-219\<close>
  "flush_cache s =
     (let s1 = emit Flush_cache_upload s
      in s1\<lparr>render_pass := (render_pass s1)\<lparr>memoized_palettes := []\<rparr>\<rparr>)"

definition flush_write_back :: "GSInterface \<Rightarrow> GSInterface" where
  \<comment> \<open>lines 224-238\<close>
  "flush_write_back s =
     (let pb = collect_pages (sync_vram_host_pages s);
          s1 = s\<lparr>page_buffer := pb, sync_vram_host_pages := map (\<lambda>_. 0) (sync_vram_host_pages s)\<rparr>
      in if pb \<noteq> [] then emit (Flush_readback pb) s1 else s1)"

definition flush :: "u32 \<Rightarrow> FlushReason \<Rightarrow> GSInterface \<Rightarrow> GSInterface" where
  \<comment> \<open>\<^verbatim>\<open>GSInterface::flush(PageTrackerFlushFlags, FlushReason)\<close>, the tracker's callback\<close>
  "flush flags reason s =
     (let s1 = (if flags AND PAGE_TRACKER_FLUSH_HOST_VRAM_SYNC_BIT \<noteq> 0
                then flush_host_vram_sync s else s);
          s2 = (if flags AND PAGE_TRACKER_FLUSH_COPY_BIT \<noteq> 0 then flush_copy flags s1 else s1);
          s3 = (if flags AND PAGE_TRACKER_FLUSH_CACHE_BIT \<noteq> 0 then flush_cache s2 else s2);
          s4 = (if flags AND PAGE_TRACKER_FLUSH_FB_BIT \<noteq> 0 then flush_render_pass reason s3 else s3)
      in if flags AND PAGE_TRACKER_FLUSH_WRITE_BACK_BIT \<noteq> 0 then flush_write_back s4 else s4)"

section \<open>The page tracker and its callbacks\<close>

definition mark_texture_state_dirty :: "GSInterface \<Rightarrow> GSInterface" where
  "mark_texture_state_dirty s =
     s\<lparr>state_tracker := (state_tracker s)
          \<lparr>last_texture_index := - 1,
           dirty_flags := dirty_flags (state_tracker s) OR
                          (STATE_DIRTY_PRIM_TEMPLATE_BIT OR STATE_DIRTY_TEX_BIT)\<rparr>\<rparr>"

text \<open>
  \<^verbatim>\<open>sync_host_vram_page\<close> and \<^verbatim>\<open>sync_vram_host_page\<close> set the bit of a page; the tracker
  names pages below the number it was given by \<^verbatim>\<open>set_num_pages\<close>, and a word index past the
  vector changes nothing here.
\<close>

definition set_page_bit :: "nat \<Rightarrow> u32 list \<Rightarrow> u32 list" where
  "set_page_bit page_index ws =
     ws[page_index div 32 := (ws ! (page_index div 32)) OR push_bit (page_index mod 32) 1]"

definition sync_host_vram_page :: "nat \<Rightarrow> GSInterface \<Rightarrow> GSInterface" where
  "sync_host_vram_page page_index s =
     s\<lparr>sync_host_vram_pages := set_page_bit page_index (sync_host_vram_pages s)\<rparr>"

definition sync_vram_host_page :: "nat \<Rightarrow> GSInterface \<Rightarrow> GSInterface" where
  "sync_vram_host_page page_index s =
     s\<lparr>sync_vram_host_pages := set_page_bit page_index (sync_vram_host_pages s)\<rparr>"

definition invalidate_texture_hash :: "nat \<Rightarrow> bool \<Rightarrow> GSInterface \<Rightarrow> GSInterface" where
  \<comment> \<open>lines 772-783\<close>
  "invalidate_texture_hash hash is_clut s =
     mark_texture_state_dirty
       (if \<not> is_clut
        then (case texture_map (render_pass s) hash of
                Some e \<Rightarrow> s\<lparr>render_pass := (render_pass s)
                                \<lparr>texture_map := (texture_map (render_pass s))(hash \<mapsto> (fst e, False))\<rparr>\<rparr>
              | None \<Rightarrow> s)
        else s)"

definition forget_in_render_pass_memoization :: "GSInterface \<Rightarrow> GSInterface" where
  \<comment> \<open>lines 785-790\<close>
  "forget_in_render_pass_memoization s =
     mark_texture_state_dirty (s\<lparr>render_pass := (render_pass s)\<lparr>memoized_palettes := []\<rparr>\<rparr>)"

definition run_callback :: "TrackerCallback \<Rightarrow> GSInterface \<Rightarrow> GSInterface" where
  "run_callback cb s =
     (case cb of
        Cb_flush flags reason \<Rightarrow> flush flags reason s
      | Cb_sync_host_vram_page i \<Rightarrow> sync_host_vram_page i s
      | Cb_sync_vram_host_page i \<Rightarrow> sync_vram_host_page i s
      | Cb_invalidate_texture_hash h c \<Rightarrow> invalidate_texture_hash h c s
      | Cb_forget_in_render_pass_memoization \<Rightarrow> forget_in_render_pass_memoization s)"

definition run_callbacks :: "TrackerCallback list \<Rightarrow> GSInterface \<Rightarrow> GSInterface" where
  "run_callbacks cbs s = fold run_callback cbs s"

definition tracker_call :: "Config \<Rightarrow> Call \<Rightarrow> GSInterface \<Rightarrow> GSInterface" where
  \<comment> \<open>a call of the tracker: the call is recorded, then the callbacks it makes are run\<close>
  "tracker_call cfg c s = run_callbacks (tracker_callbacks cfg (calls s) c) (emit c s)"

text \<open>
  Modelled from the spec: \<^verbatim>\<open>PageTracker::flush_render_pass(reason)\<close> is ``an unconditional
  flush request to the callback''; by the lattice of the spec a flush of the render pass
  comes with the phases before it, \<^verbatim>\<open>PAGE_TRACKER_FLUSH_FB_ALL\<close>.
\<close>

definition tracker_flush_render_pass :: "FlushReason \<Rightarrow> GSInterface \<Rightarrow> GSInterface" where
  "tracker_flush_render_pass reason s =
     flush PAGE_TRACKER_FLUSH_FB_ALL reason (emit (Tracker_flush_render_pass reason) s)"


section \<open>Transfers\<close>

definition transfer_dst_rect :: "VRAMCopy \<Rightarrow> PageRectSource" where
  \<comment> \<open>DBP, DSAX, DSAY, RRW, RRH, DBW, DPSM\<close>
  "transfer_dst_rect c =
     Compute_page_rect (get_field 32 14 (copy_bitbltbuf c))
       (unat (get_field 32 11 (copy_trxpos c))) (unat (get_field 48 11 (copy_trxpos c)))
       (unat (TRXREG_RRW (copy_trxreg c))) (unat (TRXREG_RRH (copy_trxreg c)))
       (get_field 48 6 (copy_bitbltbuf c)) (BITBLTBUF_DPSM (copy_bitbltbuf c))"

definition transfer_src_rect :: "VRAMCopy \<Rightarrow> PageRectSource" where
  \<comment> \<open>SBP, SSAX, SSAY, RRW, RRH, SBW, SPSM\<close>
  "transfer_src_rect c =
     Compute_page_rect (get_field 0 14 (copy_bitbltbuf c))
       (unat (get_field 0 11 (copy_trxpos c))) (unat (get_field 16 11 (copy_trxpos c)))
       (unat (TRXREG_RRW (copy_trxreg c))) (unat (TRXREG_RRH (copy_trxreg c)))
       (get_field 16 6 (copy_bitbltbuf c)) (get_field 24 6 (copy_bitbltbuf c))"

definition flush_pending_transfer :: "Config \<Rightarrow> bool \<Rightarrow> GSInterface \<Rightarrow> GSInterface" where
  \<comment> \<open>lines 1903-1948\<close>
  "flush_pending_transfer cfg keep_alive s =
     (let t = transfer_state s;
          s1 = (if host_to_local_active t \<and> length (host_to_local_payload t) > last_flushed_qwords t
                then (let sa = tracker_call cfg (Mark_transfer_write (transfer_dst_rect (copy t))) s;
                          instance = clut_instance (render_pass sa);
                          invalidated = tracker_invalidates cfg (calls sa) instance;
                          sb = tracker_call cfg (Invalidate_texture_cache instance) sa;
                          sc = (if invalidated then mark_texture_state_dirty sb else sb);
                          tc = transfer_state sc;
                          c = (copy tc)\<lparr>host_data := host_to_local_payload tc,
                                         host_data_size := length (host_to_local_payload tc) * 8,
                                         host_data_size_offset := last_flushed_qwords tc * 8,
                                         host_data_size_required := required_qwords tc * 8\<rparr>
                      in (emit (Copy_vram c) sc)
                         \<lparr>transfer_state :=
                            tc\<lparr>copy := c, last_flushed_qwords := length (host_to_local_payload tc)\<rparr>\<rparr>)
                else s)
      in if \<not> keep_alive
         then s1\<lparr>transfer_state := (transfer_state s1)
                   \<lparr>host_to_local_payload := [], last_flushed_qwords := 0,
                    host_to_local_active := False\<rparr>\<rparr>
         else s1)"

definition check_pending_transfer :: "Config \<Rightarrow> GSInterface \<Rightarrow> GSInterface" where
  "check_pending_transfer cfg s =
     (let t = transfer_state s
      in if host_to_local_active t \<and> length (host_to_local_payload t) \<ge> required_qwords t
         then flush_pending_transfer cfg False s else s)"

definition init_transfer :: "Config \<Rightarrow> GSInterface \<Rightarrow> GSInterface" where
  "init_transfer cfg s0 =
     (let s = flush_pending_transfer cfg False s0;
          r = registers s;
          c = (copy (transfer_state s))\<lparr>copy_trxdir := trxdir r, copy_trxreg := trxreg r,
                                         copy_trxpos := trxpos r, copy_bitbltbuf := bitbltbuf r\<rparr>;
          t = (transfer_state s)\<lparr>copy := c\<rparr>;
          s1 = s\<lparr>transfer_state := t\<rparr>;
          XDIR = TRXDIR_XDIR (copy_trxdir c)
      in if XDIR = LOCAL_TO_LOCAL
         then emit (Copy_vram c)
                (tracker_call cfg (Mark_transfer_copy (transfer_dst_rect c) (transfer_src_rect c)) s1)
         else if XDIR = HOST_TO_LOCAL
         then (let rq = (unat (TRXREG_RRW (copy_trxreg c)) * unat (TRXREG_RRH (copy_trxreg c)) *
                         get_bits_per_pixel cfg (BITBLTBUF_DPSM (copy_bitbltbuf c))) div 64
               in s1\<lparr>transfer_state := t\<lparr>required_qwords := rq, host_to_local_active := (rq \<noteq> 0)\<rparr>\<rparr>)
         else s1)"

section \<open>Palette upload\<close>

definition clut_load :: "u64 \<Rightarrow> RegisterState \<Rightarrow> bool \<times> RegisterState" where
  \<comment> \<open>the \<^verbatim>\<open>switch (CLD)\<close> of \<^verbatim>\<open>handle_clut_upload\<close>: whether to load, and \<^verbatim>\<open>cached_cbp\<close>\<close>
  "clut_load t0 r =
     (let CLD = TEX0_CLD t0; CBP = TEX0_CBP t0;
          cached = (if CLD AND 1 = 0 then cached_cbp0 r else cached_cbp1 r);
          r' = (if CLD AND 1 = 0 then r\<lparr>cached_cbp0 := CBP\<rparr> else r\<lparr>cached_cbp1 := CBP\<rparr>)
      in if CLD = 1 then (True, r)
         else if CLD = 2 \<or> CLD = 3 then (True, r')
         else if CLD = 4 \<or> CLD = 5 then (cached \<noteq> CBP, r')
         else (False, r))"

definition clut_csa_mask :: "u64 \<Rightarrow> u32" where
  \<comment> \<open>\<^verbatim>\<open>page.csa_mask\<close>, lines 301-336\<close>
  "clut_csa_mask t0 =
     (let m = (if TEX0_PSM t0 = PSMT8 \<or> TEX0_PSM t0 = PSMT8H then 0xffff
               else push_bit (unat (TEX0_CSA t0)) 1)
      in if TEX0_CPSM t0 = PSMCT32 then m OR push_bit 16 m else m)"

definition clut_page :: "u64 \<Rightarrow> u64 \<Rightarrow> PageRectSource" where
  \<comment> \<open>the arguments of \<^verbatim>\<open>compute_page_rect\<close>, lines 296-344\<close>
  "clut_page t0 tc =
     (let is8 = (TEX0_PSM t0 = PSMT8 \<or> TEX0_PSM t0 = PSMT8H);
          rect = (TEX0_CSM t0 = CSM_LAYOUT_RECT);
          palette_width = (if is8 then (if \<not> rect then 256 else 16) else (if \<not> rect then 16 else 8));
          palette_height = (if is8 then (if \<not> rect then 1 else 16) else (if \<not> rect then 1 else 4));
          x_offset = (if TEX0_CSM t0 = CSM_LAYOUT_LINE then unat (TEXCLUT_COU tc) * COU_SCALE else 0);
          y_offset = (if TEX0_CSM t0 = CSM_LAYOUT_LINE then unat (TEXCLUT_COV tc) else 0)
      in Compute_page_rect (TEX0_CBP t0) x_offset y_offset palette_width palette_height
           (TEXCLUT_CBW tc) (TEX0_CPSM t0))"

definition palette_desc_of :: "u64 \<Rightarrow> u64 \<Rightarrow> PaletteUploadDescriptor" where
  \<comment> \<open>lines 357-372: TBP0, TBW, TW, TH, TCC, TFX and CLD are normalized away, and CSA for
      the 256-colour formats\<close>
  "palette_desc_of t0 tc =
     (let n = set_field 61 3 0 (set_field 14 6 0 (set_field 34 1 0 (set_field 30 4 0
               (set_field 26 4 0 (set_field 35 2 0 (set_field 0 14 0 t0))))));
          n' = (if TEX0_PSM t0 = PSMT8 \<or> TEX0_PSM t0 = PSMT8H then set_field 56 5 0 n else n)
      in \<lparr> pud_texclut = tc, pud_tex0 = n' \<rparr>)"

fun find_memoized :: "MemoizedPalette list \<Rightarrow> nat \<Rightarrow> u32 \<Rightarrow> PaletteUploadDescriptor \<Rightarrow> nat option" where
  \<comment> \<open>the loop of lines 376-407, \<^verbatim>\<open>i\<close> counting down; the index found is \<^verbatim>\<open>i\<close>\<close>
  "find_memoized ms 0 csa d = None"
| "find_memoized ms (Suc j) csa d =
     (let memoized = ms ! j
      in if mp_csa_mask memoized AND NOT csa \<noteq> 0 then None
         else if mp_csa_mask memoized = csa \<and>
                 pud_texclut (mp_upload memoized) = pud_texclut d \<and>
                 pud_tex0 (mp_upload memoized) = pud_tex0 d
         then Some (Suc j)
         else find_memoized ms j csa d)"

definition handle_clut_upload :: "Config \<Rightarrow> u64 \<Rightarrow> GSInterface \<Rightarrow> GSInterface" where
  "handle_clut_upload cfg ctx_index s0 =
     (let t0 = tex0 (ctx_of (registers s0) ctx_index);
          load_clut = fst (clut_load t0 (registers s0));
          s = s0\<lparr>registers := snd (clut_load t0 (registers s0))\<rparr>
      in if \<not> load_clut then s
         else
          (let s1 = (if host_to_local_active (transfer_state s) \<and>
                        length (host_to_local_payload (transfer_state s)) >
                          last_flushed_qwords (transfer_state s)
                     then flush_pending_transfer cfg True s else s);
               tc = texclut (registers s1);
               csa = clut_csa_mask t0;
               page = clut_page t0 tc;
               s2 = tracker_call cfg (Register_cached_clut_clobber page csa)
                      (tracker_call cfg (Mark_texture_read page csa) s1);
               d = palette_desc_of t0 tc;
               ms = memoized_palettes (render_pass s2)
           in case find_memoized ms (length ms) csa d of
                Some i \<Rightarrow>
                  (let memoized = ms ! (i - 1);
                       s3 = (if mp_clut_instance memoized \<noteq> clut_instance (render_pass s2)
                             then mark_texture_state_dirty s2 else s2);
                       ms' = (if i < length ms
                              then take (i - 1) ms @ drop i ms @
                                   [\<lparr> mp_upload = d, mp_csa_mask = csa,
                                      mp_clut_instance = mp_clut_instance memoized \<rparr>]
                              else ms)
                   in s3\<lparr>render_pass := (render_pass s3)
                            \<lparr>clut_instance := mp_clut_instance memoized, memoized_palettes := ms'\<rparr>\<rparr>)
              | None \<Rightarrow>
                  (let inst = palette_instance cfg d (calls s2);
                       s3 = emit (Update_palette_cache d) s2;
                       s4 = mark_texture_state_dirty
                              (s3\<lparr>render_pass := (render_pass s3)
                                    \<lparr>clut_instance := inst, latest_clut_instance := inst,
                                     pending_palette_updates := pending_palette_updates (render_pass s3) + 1\<rparr>\<rparr>);
                       ms1 = (if length ms = NumMemoizedPalettes cfg then tl ms else ms);
                       s5 = s4\<lparr>render_pass := (render_pass s4)
                                 \<lparr>memoized_palettes := ms1 @
                                    [\<lparr> mp_upload = d, mp_csa_mask = csa, mp_clut_instance = inst \<rparr>]\<rparr>\<rparr>
                   in if pending_palette_updates (render_pass s5) \<ge> CLUTInstances cfg
                      then tracker_flush_render_pass Overflow s5 else s5)))"

definition handle_miptbl_gen :: "Config \<Rightarrow> u64 \<Rightarrow> GSInterface \<Rightarrow> GSInterface" where
  "handle_miptbl_gen cfg ctx_index s =
     (let c = ctx_of (registers s) ctx_index
      in if TEX1_MTBA (tex1 c) = 0 then s
         else
          (let W = (2 :: nat) ^ unat (TEX0_TW (tex0 c)); H = (2 :: nat) ^ unat (TEX0_TH (tex0 c));
               row1 = (W div 64) div 2; row2 = row1 div 2;
               nb0 = (W div 2 ^ psm_block_width_log2 cfg (TEX0_PSM (tex0 c))) *
                     (H div 2 ^ psm_block_height_log2 cfg (TEX0_PSM (tex0 c)));
               base1 = unat (TEX0_TBP0 (tex0 c)) + nb0;
               nb1 = nb0 div 4; base2 = base1 + nb1;
               nb2 = nb1 div 4; base3 = base2 + nb2;
               m = set_field 54 6 (word_of_nat row2) (set_field 40 14 (word_of_nat base3)
                     (set_field 34 6 (word_of_nat row2) (set_field 20 14 (word_of_nat base2)
                       (set_field 14 6 (word_of_nat row1) (set_field 0 14 (word_of_nat base1)
                         (miptbl_1_3 c))))))
           in s\<lparr>registers := ctx_upd ctx_index (\<lambda>c. c\<lparr>miptbl_1_3 := m\<rparr>) (registers s),
                state_tracker := (state_tracker s)
                  \<lparr>dirty_flags := dirty_flags (state_tracker s) OR
                                  (STATE_DIRTY_TEX_BIT OR STATE_DIRTY_PRIM_TEMPLATE_BIT)\<rparr>\<rparr>))"


section \<open>Vertex queue\<close>

definition shift_vertex_queue :: "VertexQueue \<Rightarrow> VertexQueue" where
  "shift_vertex_queue q =
     (if vq_count q = 3
      then q\<lparr>vq_pos := (vq_pos q)[0 := vq_pos q ! 1, 1 := vq_pos q ! 2],
             vq_attr := (vq_attr q)[0 := vq_attr q ! 1, 1 := vq_attr q ! 2],
             vq_count := 2\<rparr>
      else q)"

definition latch_attributes :: "RegisterState \<Rightarrow> u64 \<Rightarrow> VertexAttribute" where
  "latch_attributes r f =
     \<lparr> attr_s = ST_S (st r), attr_t = ST_T (st r), attr_q = RGBAQ_Q (rgbaq r),
       attr_rgba = get_field 0 32 (rgbaq r), attr_fog = f,
       attr_u = UV_U (uv r), attr_v = UV_V (uv r) \<rparr>"

definition push_vertex :: "VertexPosition \<Rightarrow> VertexAttribute \<Rightarrow> VertexQueue \<Rightarrow> VertexQueue" where
  "push_vertex p a q0 =
     (let q = shift_vertex_queue q0
      in q\<lparr>vq_pos := (vq_pos q)[vq_count q := p], vq_attr := (vq_attr q)[vq_count q := a],
           vq_count := vq_count q + 1\<rparr>)"

definition vertex_kick_xyz :: "u64 \<Rightarrow> GSInterface \<Rightarrow> GSInterface" where
  "vertex_kick_xyz xyz s =
     s\<lparr>vertex_queue := push_vertex
          \<lparr> pos_x = uint (XYZ_X xyz), pos_y = uint (XYZ_Y xyz), pos_z = XYZ_Z xyz \<rparr>
          (latch_attributes (registers s) (FOG_FOG (fog (registers s)))) (vertex_queue s)\<rparr>"

definition vertex_kick_xyzf :: "u64 \<Rightarrow> GSInterface \<Rightarrow> GSInterface" where
  "vertex_kick_xyzf xyzf s =
     s\<lparr>vertex_queue := push_vertex
          \<lparr> pos_x = uint (XYZ_X xyzf), pos_y = uint (XYZ_Y xyzf), pos_z = XYZF_Z xyzf \<rparr>
          (latch_attributes (registers s) (XYZF_F xyzf)) (vertex_queue s)\<rparr>"

section \<open>Derived state of a drawing kick\<close>

definition get_and_clear_dirty_flag :: "u32 \<Rightarrow> GSInterface \<Rightarrow> bool \<times> GSInterface" where
  "get_and_clear_dirty_flag flags s =
     (let ret = (dirty_flags (state_tracker s) AND flags \<noteq> 0)
      in (ret, if ret
               then s\<lparr>state_tracker := (state_tracker s)
                        \<lparr>dirty_flags := dirty_flags (state_tracker s) AND NOT flags\<rparr>\<rparr>
               else s))"

definition set_dirty :: "u32 \<Rightarrow> GSInterface \<Rightarrow> GSInterface" where
  \<comment> \<open>\<^verbatim>\<open>state_tracker.dirty_flags |= flags\<close>\<close>
  "set_dirty flags s =
     s\<lparr>state_tracker := (state_tracker s)\<lparr>dirty_flags := dirty_flags (state_tracker s) OR flags\<rparr>\<rparr>"

definition cur_ctx :: "GSInterface \<Rightarrow> ContextState" where
  \<comment> \<open>\<^verbatim>\<open>registers.ctx[registers.prim.desc.CTXT]\<close>\<close>
  "cur_ctx s = ctx_of (registers s) (PRIM_CTXT (prim (registers s)))"

definition bind_frame_buffer ::
  "Config \<Rightarrow> ContextState \<Rightarrow> bool \<Rightarrow> bool \<Rightarrow> RenderPassState \<Rightarrow> RenderPassState" where
  \<comment> \<open>lines 592-606: take over FRAME and ZBUF where they changed\<close>
  "bind_frame_buffer cfg c fb_delta z_delta rp =
     (let rp1 = (if fb_delta
                 then rp\<lparr>fb_page_width_log2 := psm_page_width_log2 cfg (FRAME_PSM (frame c)),
                         fb_page_height_log2 := psm_page_height_log2 cfg (FRAME_PSM (frame c)),
                         rp_frame := frame c\<rparr>
                 else rp)
      in if z_delta
         then rp1\<lparr>z_page_width_log2 := psm_page_width_log2 cfg (ZBUF_PSM (zbuf c)),
                  z_page_height_log2 := psm_page_height_log2 cfg (ZBUF_PSM (zbuf c)),
                  rp_zbuf := zbuf c\<rparr>
         else rp1)"

definition check_frame_buffer_state :: "Config \<Rightarrow> GSInterface \<Rightarrow> GSInterface" where
  "check_frame_buffer_state cfg s0 =
     (let c = cur_ctx s0;
          (dirty, s) = get_and_clear_dirty_flag STATE_DIRTY_FB_BIT s0
      in if \<not> dirty then s
         else
          (let rp = render_pass s;
               fb_delta = (get_field 0 32 (rp_frame rp) \<noteq> get_field 0 32 (frame c));
               z_delta = (ZBUF_PSM (rp_zbuf rp) \<noteq> ZBUF_PSM (zbuf c) \<or>
                          ZBUF_ZBP (rp_zbuf rp) \<noteq> ZBUF_ZBP (zbuf c));
               s1 = (if primitive_count rp \<noteq> 0 \<and> (fb_delta \<or> (z_sensitive rp \<and> z_delta))
                     then tracker_flush_render_pass FBPointer (flush_pending_transfer cfg True s)
                     else s)
           in s1\<lparr>render_pass := bind_frame_buffer cfg c fb_delta z_delta (render_pass s1)\<rparr>))"

definition find_or_place_unique_state_vector :: "StateVector \<Rightarrow> GSInterface \<Rightarrow> nat \<times> GSInterface" where
  "find_or_place_unique_state_vector state s =
     (if state_vectors (render_pass s) \<noteq> [] \<and> state = last_state_vector (state_tracker s)
      then (last_state_index (state_tracker s), s)
      else
       (let (state_index, s1) =
              (case map_of (state_vector_map (render_pass s)) state of
                 Some i \<Rightarrow> (i, s)
               | None \<Rightarrow>
                   (length (state_vectors (render_pass s)),
                    s\<lparr>render_pass := (render_pass s)
                        \<lparr>state_vectors := state_vectors (render_pass s) @ [state],
                         state_vector_map := (state, length (state_vectors (render_pass s))) #
                                             state_vector_map (render_pass s)\<rparr>\<rparr>))
        in (state_index,
            s1\<lparr>state_tracker := (state_tracker s1)
                 \<lparr>last_state_vector := state, last_state_index := state_index\<rparr>\<rparr>)))"

definition make_state_vector :: "RegisterState \<Rightarrow> ContextState \<Rightarrow> StateVector" where
  \<comment> \<open>lines 661-704 of \<^verbatim>\<open>drawing_kick_update_state_vector\<close>\<close>
  "make_state_vector r c =
     (let p = prim r;
          d = (DTHE_DTHE (dthe r) \<noteq> 0);
          ate = (TEST_ATE (test c) \<noteq> 0 \<and> TEST_ATST (test c) \<noteq> 1);
          blend = (PRIM_ABE p \<noteq> 0 \<or> PRIM_AA1 p \<noteq> 0);
          tme = (PRIM_TME p \<noteq> 0)
      in \<lparr> bm_dthe = d,
           bm_ate = ate,
           bm_ate_mode = (if ate then TEST_ATST (test c) else 0),
           bm_afail_mode = (if ate then TEST_AFAIL (test c) else 0),
           bm_date = (TEST_DATE (test c) \<noteq> 0),
           bm_datm = (TEST_DATM (test c) \<noteq> 0),
           bm_abcd = (if blend then (ALPHA_A (alpha c), ALPHA_B (alpha c), ALPHA_C (alpha c), ALPHA_D (alpha c))
                      else (0, 0, 0, 0)),
           bm_abe = (PRIM_ABE p \<noteq> 0),
           bm_pabe = (PABE_PABE (pabe r) \<noteq> 0),
           bm_colclamp = (COLCLAMP_CLAMP (colclamp r) \<noteq> 0),
           bm_fb_alpha = (FBA_FBA (fba c) \<noteq> 0),
           cb_tme = tme,
           cb_tcc = (tme \<and> TEX0_TCC (tex0 c) \<noteq> 0),
           cb_mode = (if tme then TEX0_TFX (tex0 c) else 0),
           cb_fog = (PRIM_FGE p \<noteq> 0),
           dimx_x = (if d then get_field 0 32 (dimx r) else 0),
           dimx_y = (if d then get_field 32 32 (dimx r) else 0) \<rparr>)"

definition drawing_kick_update_state_vector :: "GSInterface \<Rightarrow> nat \<times> GSInterface" where
  "drawing_kick_update_state_vector s0 =
     (let (dirty, s) = get_and_clear_dirty_flag STATE_DIRTY_STATE_BIT s0
      in if \<not> dirty then (last_state_index (state_tracker s), s)
         else find_or_place_unique_state_vector (make_state_vector (registers s) (cur_ctx s)) s)"


definition zero_tex_word :: TexWord where
  "zero_tex_word =
     \<lparr> tex_index = 0, tex_mag_linear = False, tex_min_linear = False, tex_mipmap_linear = False,
       tex_clamp_s = False, tex_clamp_t = False, tex_max_mip_level = 0,
       tex2_fixed_lod = 0, tex2_L = 0, tex2_K = 0 \<rparr>"

definition zero_state_word :: StateWord where
  "zero_state_word =
     \<lparr> state_index = 0, sb_z_test = False, sb_z_test_greater = False, sb_z_write = False,
       sb_opaque = False, sb_multisample = False, sb_scanmsk_even = False,
       sb_scanmsk_odd = False, sb_perspective = False, sb_iip = False, sb_fix = False,
       sb_parallelogram = False, sb_sprite = False, sb_snap_raster = False, sb_line = False \<rparr>"

definition make_tex_word :: "u32 \<Rightarrow> ContextState \<Rightarrow> TexWord" where
  \<comment> \<open>lines 1148-1175: \<^verbatim>\<open>p.tex\<close> and \<^verbatim>\<open>p.tex2\<close> of a textured primitive\<close>
  "make_tex_word idx c =
     (let mmin = TEX1_MMIN (tex1 c)
      in \<lparr> tex_index = idx,
           tex_mag_linear = (TEX1_MMAG (tex1 c) = 1),
           tex_min_linear = (mmin = 1 \<or> mmin = 4 \<or> mmin = 5),
           tex_mipmap_linear = (mmin = 3 \<or> mmin = 5),
           tex_clamp_s = has_horizontal_clamp (clamp c),
           tex_clamp_t = has_vertical_clamp (clamp c),
           tex_max_mip_level = (if mmin_has_mipmap (tex1 c) then TEX1_MXL (tex1 c) else 0),
           tex2_fixed_lod = TEX1_LCM (tex1 c),
           tex2_L = TEX1_L (tex1 c),
           tex2_K = TEX1_K (tex1 c) \<rparr>)"

definition make_state_word :: "nat \<Rightarrow> GSInterface \<Rightarrow> StateWord" where
  \<comment> \<open>lines 1180-1241: \<^verbatim>\<open>p.state\<close>, from the registers and \<^verbatim>\<open>render_pass.is_color_feedback\<close>\<close>
  "make_state_word idx s =
     (let r = registers s; p = prim r; c = cur_ctx s;
          zte = (TEST_ZTE (test c) = ZTE_ENABLED);
          blend_dst = ((PRIM_ABE p \<noteq> 0 \<or> PRIM_AA1 p \<noteq> 0) \<and>
                       (ALPHA_A (alpha c) = BLEND_RGB_DEST \<or> ALPHA_B (alpha c) = BLEND_RGB_DEST \<or>
                        ALPHA_C (alpha c) = BLEND_ALPHA_DEST \<or> ALPHA_D (alpha c) = BLEND_RGB_DEST));
          color_write_needs_previous_pixels =
            (blend_dst \<or> (TEST_ATE (test c) \<noteq> 0 \<and> TEST_ATST (test c) \<noteq> ATST_ALWAYS) \<or>
             TEST_DATE (test c) \<noteq> 0 \<or> FRAME_FBMSK (frame c) \<noteq> 0 \<or>
             is_color_feedback (render_pass s))
      in \<lparr> state_index = idx,
           sb_z_test = (zte \<and> has_z_test (test c)),
           sb_z_test_greater = (zte \<and> has_z_test (test c) \<and> TEST_ZTST (test c) = ZTST_GREATER),
           sb_z_write = (zte \<and> ZBUF_ZMSK (zbuf c) = 0),
           sb_opaque = (\<not> color_write_needs_previous_pixels),
           sb_multisample = (PRIM_AA1 p \<noteq> 0),
           sb_scanmsk_even = (has_mask (scanmsk r) \<and> SCANMSK_MSK (scanmsk r) = MSK_SKIP_EVEN),
           sb_scanmsk_odd = (has_mask (scanmsk r) \<and> SCANMSK_MSK (scanmsk r) \<noteq> MSK_SKIP_EVEN),
           sb_perspective = (PRIM_FST p = 0),
           sb_iip = (PRIM_IIP p \<noteq> 0),
           sb_fix = (PRIM_FIX p \<noteq> 0),
           sb_parallelogram = False, sb_sprite = False, sb_snap_raster = False, sb_line = False \<rparr>)"

definition drawing_kick_update_state ::
  "Config \<Rightarrow> ColorFeedbackMode \<Rightarrow> ivec4 \<Rightarrow> ivec4 \<Rightarrow> GSInterface \<Rightarrow> GSInterface" where
  "drawing_kick_update_state cfg feedback_mode uv_bb bb s0 =
     (let (dirty, s) = get_and_clear_dirty_flag STATE_DIRTY_PRIM_TEMPLATE_BIT s0
      in if \<not> dirty then s
         else
          (let (t, s1) =
                 (if PRIM_TME (prim (registers s)) \<noteq> 0
                  then (let (idx, s') = textured_update_texture cfg feedback_mode uv_bb bb s
                        in (make_tex_word idx (cur_ctx s'), s'))
                  else (zero_tex_word, s));
               (idx, s2) = drawing_kick_update_state_vector s1;
               rp = render_pass s2
           in s2\<lparr>state_tracker := (state_tracker s2)
                    \<lparr>prim_template_tex := t, prim_template_state := make_state_word idx s2\<rparr>,
                 render_pass := rp
                    \<lparr>has_aa1 := (has_aa1 rp \<or> PRIM_AA1 (prim (registers s2)) \<noteq> 0),
                     has_scanmsk := (has_scanmsk rp \<or> has_mask (scanmsk (registers s2)))\<rparr>\<rparr>))"

definition compute_fb_rect :: "Config \<Rightarrow> RenderPassState \<Rightarrow> ivec4 \<Rightarrow> PageRect" where
  \<comment> \<open>\<^verbatim>\<open>bb_page = bb >> ivec2(fb_page_width_log2, fb_page_height_log2).xyxy()\<close>\<close>
  "compute_fb_rect cfg rp bb =
     (let x = bb_x bb div 2 ^ fb_page_width_log2 rp; y = bb_y bb div 2 ^ fb_page_height_log2 rp;
          z = bb_z bb div 2 ^ fb_page_width_log2 rp; w = bb_w bb div 2 ^ fb_page_height_log2 rp
      in \<lparr> base_page = uint (FRAME_FBP (rp_frame rp)) + (x + y * uint (FRAME_FBW (rp_frame rp))),
           page_width = z - x + 1,
           page_height = w - y + 1,
           page_stride = uint (FRAME_FBW (rp_frame rp)),
           block_mask = - 1,
           write_mask = psm_word_write_mask cfg (FRAME_PSM (rp_frame rp)) \<rparr>)"

definition compute_z_rect :: "Config \<Rightarrow> RenderPassState \<Rightarrow> ivec4 \<Rightarrow> PageRect" where
  "compute_z_rect cfg rp bb =
     (let x = bb_x bb div 2 ^ z_page_width_log2 rp; y = bb_y bb div 2 ^ z_page_height_log2 rp;
          z = bb_z bb div 2 ^ z_page_width_log2 rp; w = bb_w bb div 2 ^ z_page_height_log2 rp
      in \<lparr> base_page = uint (ZBUF_ZBP (rp_zbuf rp)) + (x + y * uint (FRAME_FBW (rp_frame rp))),
           page_width = z - x + 1,
           page_height = w - y + 1,
           page_stride = uint (FRAME_FBW (rp_frame rp)),
           block_mask = - 1,
           write_mask = psm_word_write_mask cfg (ZBUF_PSM (rp_zbuf rp)) \<rparr>)"

definition degenerate_state :: "ContextState \<Rightarrow> bool" where
  \<comment> \<open>lines 1288-1314 of \<^verbatim>\<open>draw_is_degenerate\<close>: the value computed when the state is dirty\<close>
  "degenerate_state c =
     (if SCISSOR_SCAX0 (scissor c) > SCISSOR_SCAX1 (scissor c) \<or>
         SCISSOR_SCAY0 (scissor c) > SCISSOR_SCAY1 (scissor c) then True
      else if TEST_ZTE (test c) = ZTE_ENABLED \<and> TEST_ZTST (test c) = ZTST_NEVER then True
      else if TEST_ATE (test c) \<noteq> 0 \<and> TEST_ATST (test c) = ATST_NEVER \<and>
              TEST_AFAIL (test c) = AFAIL_KEEP then True
      else (let read_only_depth = (ZBUF_ZMSK (zbuf c) \<noteq> 0 \<or> TEST_ZTE (test c) = ZTE_UNDEFINED);
                read_only_color = (FRAME_FBMSK (frame c) = 0xffffffff)
            in read_only_color \<and> read_only_depth))"

definition draw_is_degenerate :: "GSInterface \<Rightarrow> bool \<times> GSInterface" where
  "draw_is_degenerate s0 =
     (let (dirty, s) = get_and_clear_dirty_flag STATE_DIRTY_DEGENERATE_BIT s0
      in if \<not> dirty then (degenerate_draw (state_tracker s), s)
         else (let d = degenerate_state (cur_ctx s)
               in (d, s\<lparr>state_tracker := (state_tracker s)\<lparr>degenerate_draw := d\<rparr>\<rparr>)))"

definition state_is_z_sensitive :: "GSInterface \<Rightarrow> bool" where
  "state_is_z_sensitive s =
     (let c = cur_ctx s
      in TEST_ZTE (test c) = ZTE_ENABLED \<and> (has_z_test (test c) \<or> ZBUF_ZMSK (zbuf c) = 0))"

definition update_color_feedback_state :: "Config \<Rightarrow> GSInterface \<Rightarrow> GSInterface" where
  "update_color_feedback_state cfg s0 =
     (let (dirty, s) = get_and_clear_dirty_flag STATE_DIRTY_FEEDBACK_BIT s0
      in if \<not> dirty
         then (if is_color_feedback (render_pass s)
               then set_dirty (STATE_DIRTY_PRIM_TEMPLATE_BIT OR STATE_DIRTY_TEX_BIT) s else s)
         else
          (let s1 = s\<lparr>render_pass := (render_pass s)
                        \<lparr>is_color_feedback := False, is_potential_color_feedback := False,
                         is_potential_depth_feedback := False\<rparr>\<rparr>
           in if PRIM_TME (prim (registers s1)) = 0 then s1 else textured_feedback_state cfg s1))"


section \<open>Drawing kick\<close>

definition SUBPIXEL_BITS :: nat where "SUBPIXEL_BITS = 4"
definition BUFFER_WIDTH_SCALE :: int where "BUFFER_WIDTH_SCALE = 64"

text \<open>
  The local arrays \<^verbatim>\<open>pos[3]\<close> and \<^verbatim>\<open>attr[3]\<close> of \<^verbatim>\<open>drawing_kick_append\<close> start out
  uninitialized; the slots that the code does not write are zero here.
\<close>

definition zero_pos :: VertexPosition where
  "zero_pos = \<lparr> pos_x = 0, pos_y = 0, pos_z = 0 \<rparr>"

definition zero_attr :: VertexAttribute where
  "zero_attr = \<lparr> attr_s = 0, attr_t = 0, attr_q = 0, attr_rgba = 0, attr_fog = 0, attr_u = 0, attr_v = 0 \<rparr>"

definition offset_pos :: "int \<Rightarrow> int \<Rightarrow> VertexPosition \<Rightarrow> VertexPosition" where
  "offset_pos dx dy p = p\<lparr>pos_x := pos_x p - dx, pos_y := pos_y p - dy\<rparr>"

definition gather_vertices :: "nat \<Rightarrow> ContextState \<Rightarrow> VertexQueue \<Rightarrow> VertexPosition list \<times> VertexAttribute list" where
  \<comment> \<open>lines 1544-1581\<close>
  "gather_vertices num_vertices c q =
     (let off_x = uint (XYOFFSET_OFX (xyoffset c)); off_y = uint (XYOFFSET_OFY (xyoffset c));
          n = vq_count q
      in if num_vertices = 1
         then (let p0 = offset_pos (off_x + 2 ^ (SUBPIXEL_BITS - 1)) (off_y + 2 ^ (SUBPIXEL_BITS - 1))
                          (vq_pos q ! (n - 1))
               in ([p0, offset_pos (- (2 ^ SUBPIXEL_BITS)) (- (2 ^ SUBPIXEL_BITS)) p0, zero_pos],
                   [vq_attr q ! (n - 1), zero_attr, zero_attr]))
         else if num_vertices = 2
         then ([offset_pos off_x off_y (vq_pos q ! (n - 1)),
                offset_pos off_x off_y (vq_pos q ! (n - 2)), zero_pos],
               [vq_attr q ! (n - 1), vq_attr q ! (n - 2), zero_attr])
         else ([offset_pos off_x off_y (vq_pos q ! 2), offset_pos off_x off_y (vq_pos q ! 1),
                offset_pos off_x off_y (vq_pos q ! 0)],
               [vq_attr q ! 2, vq_attr q ! 1, vq_attr q ! 0]))"

definition primitive_bb ::
  "bool \<Rightarrow> nat \<Rightarrow> bool \<Rightarrow> nat \<Rightarrow> ContextState \<Rightarrow> VertexPosition list \<Rightarrow> ivec4" where
  \<comment> \<open>lines 1583-1616: the bounding box of the primitive, clamped to scissor and buffer width\<close>
  "primitive_bb quad num_vertices aa1 ss_y_log2 c pos =
     (let is_line = (\<not> quad \<and> num_vertices = 2);
          tri = (\<not> quad \<and> \<not> is_line);
          lo_x0 = min (pos_x (pos ! 0)) (pos_x (pos ! 1)); lo_y0 = min (pos_y (pos ! 0)) (pos_y (pos ! 1));
          hi_x0 = max (pos_x (pos ! 0)) (pos_x (pos ! 1)); hi_y0 = max (pos_y (pos ! 0)) (pos_y (pos ! 1));
          lo_x1 = (if tri then min (pos_x (pos ! 2)) lo_x0 else lo_x0);
          lo_y1 = (if tri then min (pos_y (pos ! 2)) lo_y0 else lo_y0);
          hi_x1 = (if tri then max (pos_x (pos ! 2)) hi_x0 else hi_x0) - 1;
          hi_y1 = (if tri then max (pos_y (pos ! 2)) hi_y0 else hi_y0) - 1;
          tighten = (if quad \<or> \<not> aa1 then 2 ^ (SUBPIXEL_BITS - ss_y_log2) - 1 else 0);
          expand = (if is_line then 1 else 0);
          lo_x = (lo_x1 + tighten) div 2 ^ SUBPIXEL_BITS - expand;
          lo_y = (lo_y1 + tighten) div 2 ^ SUBPIXEL_BITS - expand;
          hi_x = hi_x1 div 2 ^ SUBPIXEL_BITS + expand;
          hi_y = hi_y1 div 2 ^ SUBPIXEL_BITS + expand
      in (max lo_x (uint (SCISSOR_SCAX0 (scissor c))),
          max lo_y (uint (SCISSOR_SCAY0 (scissor c))),
          min (min hi_x (uint (SCISSOR_SCAX1 (scissor c))))
              (uint (FRAME_FBW (frame c)) * BUFFER_WIDTH_SCALE - 1),
          min hi_y (uint (SCISSOR_SCAY1 (scissor c)))))"

definition shape_state_word :: "bool \<Rightarrow> nat \<Rightarrow> StateWord \<Rightarrow> StateWord" where
  \<comment> \<open>lines 1668-1690\<close>
  "shape_state_word quad num_vertices w0 =
     (let is_line = (\<not> quad \<and> num_vertices = 2);
          w1 = (if quad
                then w0\<lparr>sb_parallelogram := True, sb_sprite := True, sb_snap_raster := True,
                        sb_multisample := False\<rparr>
                else if is_line
                then (let w = w0\<lparr>sb_parallelogram := True, sb_line := True\<rparr>
                      in if sb_multisample w then w\<lparr>sb_z_write := False\<rparr> else w)
                else w0)
      in if num_vertices = 1 then w1\<lparr>sb_fix := True, sb_snap_raster := True\<rparr> else w1)"

definition expand_render_pass :: "Config \<Rightarrow> ivec4 \<Rightarrow> GSInterface \<Rightarrow> GSInterface" where
  \<comment> \<open>lines 1692-1747: grow the damage region of the pass and mark the pages it covers\<close>
  "expand_render_pass cfg bb s =
     (let c = cur_ctx s;
          is_z_sensitive = state_is_z_sensitive s;
          rp0 = render_pass s;
          e1 = (\<not> z_sensitive rp0 \<and> is_z_sensitive);
          rp1 = (if e1 then rp0\<lparr>z_sensitive := True\<rparr> else rp0);
          e2 = (is_z_sensitive \<and> ZBUF_ZMSK (zbuf c) = 0 \<and> \<not> z_write rp1);
          rp2 = (if e2 then rp1\<lparr>z_write := True\<rparr> else rp1);
          s1 = (if e2 then set_dirty STATE_DIRTY_FEEDBACK_BIT s else s);
          wm = (ucast (NOT (FRAME_FBMSK (frame c))) :: u32);
          e3 = (wm AND color_write_mask rp2 \<noteq> wm);
          rp3 = (if e3 then rp2\<lparr>color_write_mask := color_write_mask rp2 OR wm\<rparr> else rp2);
          r = rp_bb rp3;
          rp4 = rp3\<lparr>rp_bb := (min (bb_x bb) (bb_x r), min (bb_y bb) (bb_y r),
                              max (bb_z bb) (bb_z r), max (bb_w bb) (bb_w r))\<rparr>;
          rp_expands = (e1 \<or> e2 \<or> e3 \<or> bb_x bb < bb_x r \<or> bb_y bb < bb_y r \<or>
                        bb_z bb > bb_z r \<or> bb_w bb > bb_w r);
          s2 = s1\<lparr>render_pass := rp4\<rparr>
      in if \<not> rp_expands then s2
         else
          (let fb_rect = compute_fb_rect cfg rp4 (rp_bb rp4);
               s3 = tracker_call cfg
                      (Mark_fb_write (fb_rect\<lparr>write_mask := write_mask fb_rect AND color_write_mask rp4\<rparr>)) s2;
               rp5 = render_pass s3
           in if z_sensitive rp5
              then (if z_write rp5 then tracker_call cfg (Mark_fb_write (compute_z_rect cfg rp5 (rp_bb rp5))) s3
                    else tracker_call cfg (Mark_fb_read (compute_z_rect cfg rp5 (rp_bb rp5))) s3)
              else s3))"

definition append_primitive ::
  "Config \<Rightarrow> bool \<Rightarrow> nat \<Rightarrow> VertexPosition list \<Rightarrow> VertexAttribute list \<Rightarrow> ivec4 \<Rightarrow>
   GSInterface \<Rightarrow> GSInterface" where
  \<comment> \<open>lines 1625-1761 of \<^verbatim>\<open>drawing_kick_append\<close>, past the test of the bounding box\<close>
  "append_primitive cfg quad num_vertices pos attr bb s =
     (let c = cur_ctx s;
          p = prim (registers s);
          s1 = update_color_feedback_state cfg s;
          fm = (if is_color_feedback (render_pass s1) then textured_feedback_mode cfg pos attr bb s1
                else (FeedbackNone, (0, 0, 0, 0)));
          s2 = (if PRIM_TME p \<noteq> 0 \<and> host_to_local_active (transfer_state s1) \<and>
                   length (host_to_local_payload (transfer_state s1)) >
                     last_flushed_qwords (transfer_state s1)
                then flush_pending_transfer cfg True s1 else s1);
          s3 = check_frame_buffer_state cfg s2;
          s4 = (if PRIM_TME p \<noteq> 0 \<and> dirty_flags (state_tracker s3) AND STATE_DIRTY_TEX_BIT = 0
                then textured_page_rects_read cfg s3 else s3);
          s5 = drawing_kick_update_state cfg (fst fm) (snd fm) bb s4;
          prim_attr =
            \<lparr> pa_tex = prim_template_tex (state_tracker s5),
              pa_state = shape_state_word quad num_vertices (prim_template_state (state_tracker s5)),
              pa_fbmsk = FRAME_FBMSK (frame c),
              pa_fogcol = get_field 0 32 (fogcol (registers s)),
              pa_afix = ALPHA_FIX (alpha c),
              pa_aref = TEST_AREF (test c),
              pa_bb = bb \<rparr>;
          s6 = expand_render_pass cfg bb s5;
          rp = render_pass s6
      in s6\<lparr>render_pass := rp
               \<lparr>rp_prim := rp_prim rp @ [prim_attr],
                rp_positions := rp_positions rp @ [pos],
                rp_attributes := rp_attributes rp @ [attr],
                primitive_count := primitive_count rp + 1\<rparr>,
            state_tracker := (state_tracker s6)\<lparr>dirty_flags := 0\<rparr>\<rparr>)"

definition kick_vertices :: "nat \<Rightarrow> GSInterface \<Rightarrow> VertexPosition list \<times> VertexAttribute list" where
  \<comment> \<open>the local arrays \<^verbatim>\<open>pos\<close> and \<^verbatim>\<open>attr\<close>\<close>
  "kick_vertices num_vertices s = gather_vertices num_vertices (cur_ctx s) (vertex_queue s)"

definition kick_bb :: "bool \<Rightarrow> nat \<Rightarrow> GSInterface \<Rightarrow> ivec4" where
  \<comment> \<open>the local \<^verbatim>\<open>bb\<close>\<close>
  "kick_bb quad num_vertices s =
     primitive_bb quad num_vertices (PRIM_AA1 (prim (registers s)) \<noteq> 0) (sampling_rate_y_log2 s)
       (cur_ctx s) (fst (kick_vertices num_vertices s))"

definition bb_empty :: "ivec4 \<Rightarrow> bool" where
  \<comment> \<open>\<^verbatim>\<open>bb.z < bb.x || bb.w < bb.y\<close>: the primitive is clipped away completely\<close>
  "bb_empty bb = (bb_z bb < bb_x bb \<or> bb_w bb < bb_y bb)"

definition drawing_kick_append :: "Config \<Rightarrow> bool \<Rightarrow> nat \<Rightarrow> GSInterface \<Rightarrow> GSInterface" where
  "drawing_kick_append cfg quad num_vertices s =
     (if bb_empty (kick_bb quad num_vertices s) then s
      else append_primitive cfg quad num_vertices (fst (kick_vertices num_vertices s))
             (snd (kick_vertices num_vertices s)) (kick_bb quad num_vertices s) s)"

definition drawing_kick_maintain_queue :: "bool \<Rightarrow> bool \<Rightarrow> VertexQueue \<Rightarrow> VertexQueue" where
  "drawing_kick_maintain_queue list_primitive fan_primitive q =
     (if fan_primitive
      then q\<lparr>vq_pos := (vq_pos q)[1 := vq_pos q ! 2], vq_attr := (vq_attr q)[1 := vq_attr q ! 2],
             vq_count := 2\<rparr>
      else if list_primitive then q\<lparr>vq_count := 0\<rparr>
      else q)"

definition drawing_kick_primitive ::
  "Config \<Rightarrow> bool \<Rightarrow> bool \<Rightarrow> bool \<Rightarrow> nat \<Rightarrow> bool \<Rightarrow> GSInterface \<Rightarrow> GSInterface" where
  "drawing_kick_primitive cfg list_primitive fan_primitive quad num_vertices adc s =
     (if vq_count (vertex_queue s) < num_vertices then s
      else
       (let s1 = (if \<not> adc
                  then (let (degenerate, s') = draw_is_degenerate s
                        in if \<not> degenerate then drawing_kick_append cfg quad num_vertices s' else s')
                  else s)
        in s1\<lparr>vertex_queue := drawing_kick_maintain_queue list_primitive fan_primitive (vertex_queue s1)\<rparr>))"

definition drawing_kick_invalid :: "GSInterface \<Rightarrow> GSInterface" where
  "drawing_kick_invalid s = s\<lparr>vertex_queue := (vertex_queue s)\<lparr>vq_count := 0\<rparr>\<rparr>"

definition post_draw_kick_handler :: "Config \<Rightarrow> GSInterface \<Rightarrow> GSInterface" where
  "post_draw_kick_handler cfg s =
     (let rp = render_pass s
      in if pending_palette_updates rp \<ge> CLUTInstances cfg \<or>
            primitive_count rp \<ge> MaxPrimitivesPerFlush cfg \<or>
            length (tex_infos rp) \<ge> MaxTextures cfg \<or>
            length (state_vectors rp) \<ge> MaxStateVectors cfg
         then tracker_flush_render_pass Overflow (flush_pending_transfer cfg True s)
         else s)"

definition run_draw_handler :: "Config \<Rightarrow> DrawHandler \<Rightarrow> bool \<Rightarrow> GSInterface \<Rightarrow> GSInterface" where
  \<comment> \<open>\<^verbatim>\<open>(this->*draw_handler)(adc)\<close>\<close>
  "run_draw_handler cfg h adc s =
     (case h of
        Drawing_kick_primitive l f q n \<Rightarrow> drawing_kick_primitive cfg l f q n adc s
      | Drawing_kick_invalid \<Rightarrow> drawing_kick_invalid s)"

definition drawing_kick :: "Config \<Rightarrow> bool \<Rightarrow> GSInterface \<Rightarrow> GSInterface" where
  \<comment> \<open>\<^verbatim>\<open>GSInterface::drawing_kick(bool adc)\<close>\<close>
  "drawing_kick cfg adc s = post_draw_kick_handler cfg (run_draw_handler cfg (draw_handler s) adc s)"

definition drawing_kick_PRIM :: "Config \<Rightarrow> PRIMType \<Rightarrow> bool \<Rightarrow> GSInterface \<Rightarrow> GSInterface" where
  \<comment> \<open>\<^verbatim>\<open>template <PRIMType PRIM> GSInterface::drawing_kick(bool adc)\<close>\<close>
  "drawing_kick_PRIM cfg PRIM adc s =
     post_draw_kick_handler cfg
       (case PRIM of
          Point \<Rightarrow> drawing_kick_primitive cfg True False True 1 adc s
        | LineList \<Rightarrow> drawing_kick_primitive cfg True False False 2 adc s
        | LineStrip \<Rightarrow> drawing_kick_primitive cfg False False False 2 adc s
        | TriangleList \<Rightarrow> drawing_kick_primitive cfg True False False 3 adc s
        | TriangleStrip \<Rightarrow> drawing_kick_primitive cfg False False False 3 adc s
        | TriangleFan \<Rightarrow> drawing_kick_primitive cfg False True False 3 adc s
        | Sprite \<Rightarrow> drawing_kick_primitive cfg True False True 2 adc s
        | Invalid \<Rightarrow> s)"

definition update_draw_handler :: "GSInterface \<Rightarrow> GSInterface" where
  "update_draw_handler s =
     s\<lparr>draw_handler :=
         (case PRIMType_of (PRIM_PRIM (prim (registers s))) of
            Point \<Rightarrow> Drawing_kick_primitive True False True 1
          | LineList \<Rightarrow> Drawing_kick_primitive True False False 2
          | LineStrip \<Rightarrow> Drawing_kick_primitive False False False 2
          | TriangleList \<Rightarrow> Drawing_kick_primitive True False False 3
          | TriangleStrip \<Rightarrow> Drawing_kick_primitive False False False 3
          | TriangleFan \<Rightarrow> Drawing_kick_primitive False True False 3
          | Sprite \<Rightarrow> Drawing_kick_primitive True False True 2
          | Invalid \<Rightarrow> Drawing_kick_invalid)\<rparr>"


section \<open>Register writes\<close>

definition update_internal_register ::
  "(RegisterState \<Rightarrow> u64) \<Rightarrow> (u64 \<Rightarrow> RegisterState \<Rightarrow> RegisterState) \<Rightarrow> u64 \<Rightarrow> u32 \<Rightarrow>
   GSInterface \<Rightarrow> GSInterface" where
  \<comment> \<open>the register is given by how to read and how to write it\<close>
  "update_internal_register rd wr v flags s =
     (if rd (registers s) \<noteq> v then set_dirty flags (s\<lparr>registers := wr v (registers s)\<rparr>) else s)"

definition update_ctx_register ::
  "u64 \<Rightarrow> (ContextState \<Rightarrow> u64) \<Rightarrow> (u64 \<Rightarrow> ContextState \<Rightarrow> ContextState) \<Rightarrow> u64 \<Rightarrow> u32 \<Rightarrow>
   GSInterface \<Rightarrow> GSInterface" where
  \<comment> \<open>\<^verbatim>\<open>update_internal_register(registers.ctx[i].reg.bits, payload, flags)\<close>\<close>
  "update_ctx_register i rd wr v flags s =
     update_internal_register (\<lambda>r. rd (ctx_of r i)) (\<lambda>v. ctx_upd i (wr v)) v flags s"

definition reset_vertex_queue :: "GSInterface \<Rightarrow> GSInterface" where
  "reset_vertex_queue s = s\<lparr>vertex_queue := (vertex_queue s)\<lparr>vq_count := 0\<rparr>\<rparr>"

definition prim_mode_dirty :: u32 where
  "prim_mode_dirty = STATE_DIRTY_FEEDBACK_BIT OR STATE_DIRTY_PRIM_TEMPLATE_BIT OR
                     STATE_DIRTY_TEX_BIT OR STATE_DIRTY_STATE_BIT"

definition ctxt_dirty :: u32 where
  "ctxt_dirty = STATE_DIRTY_DEGENERATE_BIT OR STATE_DIRTY_PRIM_TEMPLATE_BIT OR STATE_DIRTY_TEX_BIT OR
                STATE_DIRTY_FB_BIT OR STATE_DIRTY_FEEDBACK_BIT"

definition write_prim_mode :: "u64 \<Rightarrow> GSInterface \<Rightarrow> GSInterface" where
  \<comment> \<open>the block shared by \<^verbatim>\<open>a_d_PRIM\<close> (lines 2234-2250) and \<^verbatim>\<open>a_d_PRMODE\<close> (lines 2398-2414)\<close>
  "write_prim_mode v s =
     (let s1 = (if PRIM_CTXT (prim (registers s)) \<noteq> PRIM_CTXT v then set_dirty ctxt_dirty s else s);
          s2 = update_internal_register prim (\<lambda>v r. r\<lparr>prim := v\<rparr>) v prim_mode_dirty s1
      in if PRIM_TME (prim (registers s2)) = 0
         then s2\<lparr>state_tracker := (state_tracker s2)
                   \<lparr>dirty_flags := dirty_flags (state_tracker s2) AND NOT STATE_DIRTY_TEX_BIT\<rparr>\<rparr>
         else s2)"

definition a_d_PRIM :: "u64 \<Rightarrow> GSInterface \<Rightarrow> GSInterface" where
  "a_d_PRIM payload s =
     (let prim_delta = (PRIM_PRIM (prim (registers s)) \<noteq> PRIM_PRIM payload);
          s1 = (if PRMODECONT_AC (prmodecont (registers s)) \<noteq> 0
                then write_prim_mode payload s
                else s\<lparr>registers := (registers s)
                         \<lparr>prim := set_field 0 3 (PRIM_PRIM payload) (prim (registers s))\<rparr>\<rparr>);
          s2 = (if prim_delta then update_draw_handler s1 else s1);
          s3 = reset_vertex_queue s2
      in s3\<lparr>registers := (registers s3)\<lparr>internal_q := 0x3f800000\<rparr>\<rparr>)"

definition a_d_PRMODE :: "u64 \<Rightarrow> GSInterface \<Rightarrow> GSInterface" where
  "a_d_PRMODE payload s =
     (if PRMODECONT_AC (prmodecont (registers s)) = 0
      then write_prim_mode (set_field 0 3 (PRIM_PRIM (prim (registers s))) payload) s
      else s)"

definition a_d_XYZ2 :: "Config \<Rightarrow> u64 \<Rightarrow> GSInterface \<Rightarrow> GSInterface" where
  "a_d_XYZ2 cfg payload s = drawing_kick cfg False (vertex_kick_xyz payload s)"

definition a_d_XYZF2 :: "Config \<Rightarrow> u64 \<Rightarrow> GSInterface \<Rightarrow> GSInterface" where
  "a_d_XYZF2 cfg payload s = drawing_kick cfg False (vertex_kick_xyzf payload s)"

definition tex0_dirty :: u32 where
  "tex0_dirty = STATE_DIRTY_FEEDBACK_BIT OR STATE_DIRTY_STATE_BIT OR
                STATE_DIRTY_PRIM_TEMPLATE_BIT OR STATE_DIRTY_TEX_BIT"

definition a_d_TEX0 :: "Config \<Rightarrow> u64 \<Rightarrow> u64 \<Rightarrow> GSInterface \<Rightarrow> GSInterface" where
  \<comment> \<open>\<^verbatim>\<open>a_d_TEX0_1\<close> (context 0) and \<^verbatim>\<open>a_d_TEX0_2\<close> (context 1)\<close>
  "a_d_TEX0 cfg i payload s =
     handle_miptbl_gen cfg i
       (handle_clut_upload cfg i
         (update_ctx_register i tex0 (\<lambda>v c. c\<lparr>tex0 := v\<rparr>) payload tex0_dirty s))"

definition a_d_TEX2 :: "Config \<Rightarrow> u64 \<Rightarrow> u64 \<Rightarrow> GSInterface \<Rightarrow> GSInterface" where
  \<comment> \<open>TBP0, TBW, TW, TH, TCC and TFX are taken from the current TEX0\<close>
  "a_d_TEX2 cfg i payload s =
     (let preserve = tex0 (ctx_of (registers s) i);
          t = set_field 35 2 (TEX0_TFX preserve) (set_field 34 1 (TEX0_TCC preserve)
                (set_field 30 4 (TEX0_TH preserve) (set_field 26 4 (TEX0_TW preserve)
                  (set_field 14 6 (TEX0_TBW preserve) (set_field 0 14 (TEX0_TBP0 preserve) payload)))))
      in a_d_TEX0 cfg i t s)"

definition a_d_HWREG_multi :: "Config \<Rightarrow> u64 list \<Rightarrow> GSInterface \<Rightarrow> GSInterface" where
  "a_d_HWREG_multi cfg payload s =
     (if host_to_local_active (transfer_state s)
      then check_pending_transfer cfg
             (s\<lparr>transfer_state := (transfer_state s)
                  \<lparr>host_to_local_payload := host_to_local_payload (transfer_state s) @ payload\<rparr>\<rparr>)
      else s)"

definition a_d_HWREG :: "Config \<Rightarrow> u64 \<Rightarrow> GSInterface \<Rightarrow> GSInterface" where
  "a_d_HWREG cfg payload s = a_d_HWREG_multi cfg [payload] s"

definition a_d_TEXFLUSH :: "u64 \<Rightarrow> GSInterface \<Rightarrow> GSInterface" where
  \<comment> \<open>``We cannot rely on TEXFLUSH unfortunately.  We'll have to rely on our own tracking.''\<close>
  "a_d_TEXFLUSH payload s = s"

definition set_reg :: "(RegisterState \<Rightarrow> RegisterState) \<Rightarrow> GSInterface \<Rightarrow> GSInterface" where
  \<comment> \<open>\<^verbatim>\<open>registers.reg.bits = payload\<close>\<close>
  "set_reg f s = s\<lparr>registers := f (registers s)\<rparr>"

definition D_FB :: u32 where "D_FB = STATE_DIRTY_FB_BIT"
definition D_TEX :: u32 where "D_TEX = STATE_DIRTY_TEX_BIT"
definition D_STATE :: u32 where "D_STATE = STATE_DIRTY_STATE_BIT"
definition D_PRIM :: u32 where "D_PRIM = STATE_DIRTY_PRIM_TEMPLATE_BIT"
definition D_FEEDBACK :: u32 where "D_FEEDBACK = STATE_DIRTY_FEEDBACK_BIT"
definition D_DEGENERATE :: u32 where "D_DEGENERATE = STATE_DIRTY_DEGENERATE_BIT"

text \<open>
  \<^verbatim>\<open>write_register\<close> calls \<^verbatim>\<open>ad_handlers[addr]\<close>.  The table is filled from
  \<^verbatim>\<open>gs_register_addr.hpp\<close> (not among the sources at hand) with one \<^verbatim>\<open>a_d_\<close> handler per
  register; the addresses are those of the GS register map, and
  \<^verbatim>\<open>a_d_RGBAQUndocumented\<close> (``Ridge Racer V'') forwards to \<^verbatim>\<open>a_d_RGBAQ\<close> from an
  address that the map leaves free.  Every other address keeps \<^verbatim>\<open>reglist_nop\<close>.  \<^verbatim>\<open>c\<close> below is the context a two-context register belongs to.
\<close>

definition write_register :: "Config \<Rightarrow> u64 \<Rightarrow> u64 \<Rightarrow> GSInterface \<Rightarrow> GSInterface" where
  "write_register cfg addr payload s =
     (let c = addr AND 1 in
      if addr = 0x00 then a_d_PRIM payload s
      else if addr = 0x01 then set_reg (\<lambda>r. r\<lparr>rgbaq := payload\<rparr>) s
      else if addr = 0x02 then set_reg (\<lambda>r. r\<lparr>st := payload\<rparr>) s
      else if addr = 0x03 then set_reg (\<lambda>r. r\<lparr>uv := payload\<rparr>) s
      else if addr = 0x04 then a_d_XYZF2 cfg payload s
      else if addr = 0x05 then a_d_XYZ2 cfg payload s
      else if addr = 0x06 \<or> addr = 0x07 then a_d_TEX0 cfg c payload s
      else if addr = 0x08 \<or> addr = 0x09
        then update_ctx_register c clamp (\<lambda>v x. x\<lparr>clamp := v\<rparr>) payload (D_FEEDBACK OR D_PRIM OR D_TEX) s
      else if addr = 0x0a then set_reg (\<lambda>r. r\<lparr>fog := payload\<rparr>) s
      else if addr = 0x0c then vertex_kick_xyzf payload s
      else if addr = 0x0d then vertex_kick_xyz payload s
      else if addr = 0x14 \<or> addr = 0x15
        then update_ctx_register c tex1 (\<lambda>v x. x\<lparr>tex1 := v\<rparr>) payload (D_FEEDBACK OR D_PRIM OR D_TEX) s
      else if addr = 0x16 \<or> addr = 0x17 then a_d_TEX2 cfg c payload s
      else if addr = 0x18 \<or> addr = 0x19 then set_reg (ctx_upd c (\<lambda>x. x\<lparr>xyoffset := payload\<rparr>)) s
      else if addr = 0x1a then set_reg (\<lambda>r. r\<lparr>prmodecont := payload\<rparr>) s
      else if addr = 0x1b then a_d_PRMODE payload s
      else if addr = 0x1c then set_reg (\<lambda>r. r\<lparr>texclut := payload\<rparr>) s
      else if addr = 0x22
        then update_internal_register scanmsk (\<lambda>v r. r\<lparr>scanmsk := v\<rparr>) payload D_PRIM s
      else if addr = 0x34 \<or> addr = 0x35
        then update_ctx_register c miptbl_1_3 (\<lambda>v x. x\<lparr>miptbl_1_3 := v\<rparr>) payload (D_PRIM OR D_TEX) s
      else if addr = 0x36 \<or> addr = 0x37
        then update_ctx_register c miptbl_4_6 (\<lambda>v x. x\<lparr>miptbl_4_6 := v\<rparr>) payload (D_PRIM OR D_TEX) s
      else if addr = 0x3b
        then update_internal_register texa (\<lambda>v r. r\<lparr>texa := v\<rparr>) payload (D_PRIM OR D_TEX) s
      else if addr = 0x3d then set_reg (\<lambda>r. r\<lparr>fogcol := payload\<rparr>) s
      else if addr = 0x3f then a_d_TEXFLUSH payload s
      else if addr = 0x40 \<or> addr = 0x41
        then update_ctx_register c scissor (\<lambda>v x. x\<lparr>scissor := v\<rparr>) payload D_DEGENERATE s
      else if addr = 0x42 \<or> addr = 0x43
        then update_ctx_register c alpha (\<lambda>v x. x\<lparr>alpha := v\<rparr>) payload (D_STATE OR D_PRIM) s
      else if addr = 0x44
        then update_internal_register dimx (\<lambda>v r. r\<lparr>dimx := v\<rparr>) payload (D_STATE OR D_PRIM) s
      else if addr = 0x45
        then update_internal_register dthe (\<lambda>v r. r\<lparr>dthe := v\<rparr>) payload (D_STATE OR D_PRIM) s
      else if addr = 0x46
        then update_internal_register colclamp (\<lambda>v r. r\<lparr>colclamp := v\<rparr>) payload (D_STATE OR D_PRIM) s
      else if addr = 0x47 \<or> addr = 0x48
        then update_ctx_register (1 - c) test (\<lambda>v x. x\<lparr>test := v\<rparr>) payload
               (D_DEGENERATE OR D_STATE OR D_PRIM) s
      else if addr = 0x49
        then update_internal_register pabe (\<lambda>v r. r\<lparr>pabe := v\<rparr>) payload (D_STATE OR D_PRIM) s
      else if addr = 0x4a \<or> addr = 0x4b
        then update_ctx_register c fba (\<lambda>v x. x\<lparr>fba := v\<rparr>) payload (D_STATE OR D_PRIM) s
      else if addr = 0x4c \<or> addr = 0x4d
        then update_ctx_register c frame (\<lambda>v x. x\<lparr>frame := v\<rparr>) payload
               (D_DEGENERATE OR D_FEEDBACK OR D_FB OR D_PRIM) s
      else if addr = 0x4e \<or> addr = 0x4f
        then update_ctx_register c zbuf (\<lambda>v x. x\<lparr>zbuf := v\<rparr>) payload
               (D_FEEDBACK OR D_DEGENERATE OR D_FB OR D_PRIM) s
      else if addr = 0x50 then set_reg (\<lambda>r. r\<lparr>bitbltbuf := payload\<rparr>) s
      else if addr = 0x51 then set_reg (\<lambda>r. r\<lparr>trxpos := payload\<rparr>) s
      else if addr = 0x52 then set_reg (\<lambda>r. r\<lparr>trxreg := payload\<rparr>) s
      else if addr = 0x53 then init_transfer cfg (set_reg (\<lambda>r. r\<lparr>trxdir := payload\<rparr>) s)
      else if addr = 0x54 then a_d_HWREG cfg payload s
      else if addr = RGBAQUndocumented_addr cfg then set_reg (\<lambda>r. r\<lparr>rgbaq := payload\<rparr>) s
      else s)"


section \<open>GIF paths\<close>

text \<open>
  \<^verbatim>\<open>GIFAddr\<close>, the register descriptors of a GIF tag, and the packed 128-bit forms
  (gs_registers.hpp): RGBAQ has R, G, B, A in the low byte of each 32-bit word; ST has S, T
  and Q in the first three words; UV has U in bits 0..13 and V in bits 32..45; XYZ2 has X in
  0..15, Y in 32..47, Z in 64..95 and ADC in bit 111; XYZF2 has Z in 68..91 and F in
  100..107; FOG has F in 100..107; A+D has the data in 0..63 and the address in 64..71.
\<close>

definition GIF_PRIM :: u64 where "GIF_PRIM = 0"
definition GIF_RGBAQ :: u64 where "GIF_RGBAQ = 1"
definition GIF_ST :: u64 where "GIF_ST = 2"
definition GIF_UV :: u64 where "GIF_UV = 3"
definition GIF_XYZF2 :: u64 where "GIF_XYZF2 = 4"
definition GIF_XYZ2 :: u64 where "GIF_XYZ2 = 5"
definition GIF_TEX0_1 :: u64 where "GIF_TEX0_1 = 6"
definition GIF_TEX0_2 :: u64 where "GIF_TEX0_2 = 7"
definition GIF_CLAMP_1 :: u64 where "GIF_CLAMP_1 = 8"
definition GIF_CLAMP_2 :: u64 where "GIF_CLAMP_2 = 9"
definition GIF_FOG :: u64 where "GIF_FOG = 10"
definition GIF_XYZF3 :: u64 where "GIF_XYZF3 = 12"
definition GIF_XYZ3 :: u64 where "GIF_XYZ3 = 13"
definition GIF_A_D :: u64 where "GIF_A_D = 14"

definition packed_RGBAQ :: "qword \<Rightarrow> GSInterface \<Rightarrow> GSInterface" where
  "packed_RGBAQ w s =
     set_reg (\<lambda>r. r\<lparr>rgbaq := set_field 32 32 (internal_q r)
                (set_field 24 8 (get_field 32 8 (snd w)) (set_field 16 8 (get_field 0 8 (snd w))
                  (set_field 8 8 (get_field 32 8 (fst w)) (set_field 0 8 (get_field 0 8 (fst w))
                    (rgbaq r)))))\<rparr>) s"

definition packed_ST :: "qword \<Rightarrow> GSInterface \<Rightarrow> GSInterface" where
  "packed_ST w s =
     set_reg (\<lambda>r. r\<lparr>st := set_field 32 32 (get_field 32 32 (fst w))
                              (set_field 0 32 (get_field 0 32 (fst w)) (st r)),
                       internal_q := get_field 0 32 (snd w)\<rparr>) s"

definition packed_UV :: "qword \<Rightarrow> GSInterface \<Rightarrow> GSInterface" where
  "packed_UV w s =
     set_reg (\<lambda>r. r\<lparr>uv := set_field 16 14 (get_field 32 14 (fst w))
                              (set_field 0 14 (get_field 0 14 (fst w)) (uv r))\<rparr>) s"

definition packed_FOG :: "qword \<Rightarrow> GSInterface \<Rightarrow> GSInterface" where
  "packed_FOG w s = set_reg (\<lambda>r. r\<lparr>fog := set_field 56 8 (get_field 36 8 (snd w)) (fog r)\<rparr>) s"

definition packed_ADC :: "qword \<Rightarrow> bool" where
  "packed_ADC w = (get_field 47 1 (snd w) \<noteq> 0)"

definition unpack_XYZF :: "qword \<Rightarrow> u64" where
  \<comment> \<open>the \<^verbatim>\<open>Reg64<XYZFBits>\<close> built from a packed XYZF2 word\<close>
  "unpack_XYZF w =
     set_field 56 8 (get_field 36 8 (snd w)) (set_field 32 24 (get_field 4 24 (snd w))
       (set_field 16 16 (get_field 32 16 (fst w)) (set_field 0 16 (get_field 0 16 (fst w)) 0)))"

definition unpack_XYZ :: "qword \<Rightarrow> u64" where
  "unpack_XYZ w =
     set_field 32 32 (get_field 0 32 (snd w))
       (set_field 16 16 (get_field 32 16 (fst w)) (set_field 0 16 (get_field 0 16 (fst w)) 0))"

definition packed_XYZF :: "Config \<Rightarrow> bool \<Rightarrow> qword \<Rightarrow> GSInterface \<Rightarrow> GSInterface" where
  \<comment> \<open>\<^verbatim>\<open>template <bool ADC> packed_XYZF\<close>\<close>
  "packed_XYZF cfg ADC w s = drawing_kick cfg (ADC \<or> packed_ADC w) (vertex_kick_xyzf (unpack_XYZF w) s)"

definition packed_XYZ :: "Config \<Rightarrow> bool \<Rightarrow> qword \<Rightarrow> GSInterface \<Rightarrow> GSInterface" where
  \<comment> \<open>\<^verbatim>\<open>template <bool ADC> packed_XYZ\<close>\<close>
  "packed_XYZ cfg ADC w s = drawing_kick cfg (ADC \<or> packed_ADC w) (vertex_kick_xyz (unpack_XYZ w) s)"

definition packed_XYZ_PRIM :: "Config \<Rightarrow> bool \<Rightarrow> bool \<Rightarrow> PRIMType \<Rightarrow> qword \<Rightarrow> GSInterface \<Rightarrow> GSInterface" where
  \<comment> \<open>\<^verbatim>\<open>template <bool ADC, bool FOG, PRIMType PRIM> packed_XYZ\<close>\<close>
  "packed_XYZ_PRIM cfg ADC FOG PRIM w s =
     (if FOG
      then drawing_kick_PRIM cfg PRIM (ADC \<or> packed_ADC w) (vertex_kick_xyzf (unpack_XYZF w) s)
      else drawing_kick_PRIM cfg PRIM (ADC \<or> packed_ADC w) (vertex_kick_xyz (unpack_XYZ w) s))"

definition packed_A_D :: "Config \<Rightarrow> qword \<Rightarrow> GSInterface \<Rightarrow> GSInterface" where
  \<comment> \<open>\<^verbatim>\<open>write_register(RegisterAddr(ad->desc.ADDR), ad->desc.data)\<close>\<close>
  "packed_A_D cfg w s = write_register cfg (get_field 0 8 (snd w)) (fst w) s"

definition packed_handler :: "Config \<Rightarrow> u64 \<Rightarrow> qword \<Rightarrow> GSInterface \<Rightarrow> GSInterface" where
  \<comment> \<open>\<^verbatim>\<open>(this->*packed_handlers[addr])(&qwords[i])\<close>, the table of \<^verbatim>\<open>setup_handlers\<close>\<close>
  "packed_handler cfg addr w s =
     (if addr = GIF_PRIM then a_d_PRIM (fst w) s
      else if addr = GIF_RGBAQ then packed_RGBAQ w s
      else if addr = GIF_ST then packed_ST w s
      else if addr = GIF_UV then packed_UV w s
      else if addr = GIF_XYZF2 then packed_XYZF cfg False w s
      else if addr = GIF_XYZ2 then packed_XYZ cfg False w s
      else if addr = GIF_TEX0_1 then a_d_TEX0 cfg 0 (fst w) s
      else if addr = GIF_TEX0_2 then a_d_TEX0 cfg 1 (fst w) s
      else if addr = GIF_CLAMP_1 then write_register cfg 0x08 (fst w) s
      else if addr = GIF_CLAMP_2 then write_register cfg 0x09 (fst w) s
      else if addr = GIF_FOG then packed_FOG w s
      else if addr = GIF_XYZF3 then packed_XYZF cfg True w s
      else if addr = GIF_XYZ3 then packed_XYZ cfg True w s
      else s)"

definition reglist_handler :: "Config \<Rightarrow> u64 \<Rightarrow> u64 \<Rightarrow> GSInterface \<Rightarrow> GSInterface" where
  \<comment> \<open>\<^verbatim>\<open>(this->*reglist_handlers[addr])(payload)\<close>\<close>
  "reglist_handler cfg addr payload s =
     (if addr = GIF_PRIM \<or> addr = GIF_RGBAQ \<or> addr = GIF_ST \<or> addr = GIF_UV \<or>
         addr = GIF_XYZF2 \<or> addr = GIF_XYZ2 \<or> addr = GIF_TEX0_1 \<or> addr = GIF_TEX0_2 \<or>
         addr = GIF_CLAMP_1 \<or> addr = GIF_CLAMP_2 \<or> addr = GIF_FOG \<or> addr = GIF_XYZF3 \<or>
         addr = GIF_XYZ3
      then write_register cfg addr payload s
      else s)"

subsection \<open>The optimized whole-loop handlers\<close>

definition STQRGBAXYZ2_Mask :: u64 where
  "STQRGBAXYZ2_Mask = push_bit 0 GIF_ST OR push_bit 4 GIF_RGBAQ OR push_bit 8 GIF_XYZ2"
definition STQRGBAXYZF2_Mask :: u64 where
  "STQRGBAXYZF2_Mask = push_bit 0 GIF_ST OR push_bit 4 GIF_RGBAQ OR push_bit 8 GIF_XYZF2"
definition UVRGBAXYZ2_Mask :: u64 where
  "UVRGBAXYZ2_Mask = push_bit 0 GIF_UV OR push_bit 4 GIF_RGBAQ OR push_bit 8 GIF_XYZ2"
definition UVRGBAXYZF2_Mask :: u64 where
  "UVRGBAXYZF2_Mask = push_bit 0 GIF_UV OR push_bit 4 GIF_RGBAQ OR push_bit 8 GIF_XYZF2"
definition STXYZFSTRGBAXYZF_Mask :: u64 where
  "STXYZFSTRGBAXYZF_Mask = push_bit 0 GIF_ST OR push_bit 4 GIF_XYZF2 OR push_bit 8 GIF_ST OR
                           push_bit 12 GIF_RGBAQ OR push_bit 16 GIF_XYZF2"
definition STXYZFSTRGBAXYZ_Mask :: u64 where
  "STXYZFSTRGBAXYZ_Mask = push_bit 0 GIF_ST OR push_bit 4 GIF_XYZ2 OR push_bit 8 GIF_ST OR
                          push_bit 12 GIF_RGBAQ OR push_bit 16 GIF_XYZ2"

definition list2 :: "u64 \<Rightarrow> u64" where "list2 m = m OR push_bit 12 m"
definition list3 :: "u64 \<Rightarrow> u64" where "list3 m = m OR push_bit 12 m OR push_bit 24 m"

definition choose_optimized_handler :: "qword \<Rightarrow> u64 \<Rightarrow> OptimizedPacketHandler option" where
  \<comment> \<open>the handler \<^verbatim>\<open>update_optimized_gif_handler\<close> stores, from the tag and \<^verbatim>\<open>PRIM.PRIM\<close>\<close>
  "choose_optimized_handler t P =
     (let nreg = tag_NREG t; REGS = tag_REGS t; PT = PRIMType_of P
      in if tag_FLG t \<noteq> PACKED \<or> tag_NLOOP t = 0 then None
         else if nreg = 3 \<and> REGS AND 0xfff = STQRGBAXYZ2_Mask then Some (Packed_STQRGBAXYZ False PT 1)
         else if nreg = 3 \<and> REGS AND 0xfff = STQRGBAXYZF2_Mask then Some (Packed_STQRGBAXYZ True PT 1)
         else if nreg = 3 \<and> REGS AND 0xfff = UVRGBAXYZ2_Mask then Some (Packed_UVRGBAXYZ False PT 1)
         else if nreg = 3 \<and> REGS AND 0xfff = UVRGBAXYZF2_Mask then Some (Packed_UVRGBAXYZ True PT 1)
         else if nreg = 5 \<and> REGS AND 0xfffff = STXYZFSTRGBAXYZF_Mask \<and> PT = Sprite
           then Some (Packed_STXYZSTRGBAXYZ_sprite True)
         else if nreg = 5 \<and> REGS AND 0xfffff = STXYZFSTRGBAXYZ_Mask \<and> PT = Sprite
           then Some (Packed_STXYZSTRGBAXYZ_sprite False)
         else if nreg = 6 \<and> REGS AND 0xffffff = list2 STQRGBAXYZ2_Mask \<and> PT = LineList
           then Some (Packed_STQRGBAXYZ False LineList 2)
         else if nreg = 6 \<and> REGS AND 0xffffff = list2 STQRGBAXYZF2_Mask \<and> PT = LineList
           then Some (Packed_STQRGBAXYZ True LineList 2)
         else if nreg = 9 \<and> REGS AND 0xfffffffff = list3 STQRGBAXYZ2_Mask \<and> PT = TriangleList
           then Some (Packed_STQRGBAXYZ False TriangleList 3)
         else if nreg = 9 \<and> REGS AND 0xfffffffff = list3 STQRGBAXYZF2_Mask \<and> PT = TriangleList
           then Some (Packed_STQRGBAXYZ True TriangleList 3)
         else (let ad_only_mask = (GIF_A_D * 0x1111111111111111 :: u64);
                   reg_mask = (if nreg = 0 then - 1 else push_bit (nreg * 4) 1 - 1 :: u64)
               in if REGS AND reg_mask = ad_only_mask AND reg_mask
                  then Some (Packed_ADONLY (if nreg = 0 then 16 else nreg)) else None))"

definition update_optimized_gif_handler :: "nat \<Rightarrow> GSInterface \<Rightarrow> GSInterface" where
  "update_optimized_gif_handler path s =
     s\<lparr>optimized_draw_handler := (optimized_draw_handler s)
         [path := choose_optimized_handler (tag (paths s ! path)) (PRIM_PRIM (prim (registers s)))]\<rparr>"


text \<open>
  The optimized handlers are handed a pointer into the transfer and a number of loops, and
  read as many quad-words as those loops span.  A read at or past the end of the data
  passed to \<^verbatim>\<open>gif_transfer\<close> is outside the caller's buffer: the model stops with
  \<open>ReadPastEnd\<close> there.
\<close>

datatype Fault = ReadPastEnd

fun packed_groups ::
  "nat \<Rightarrow> (qword list \<Rightarrow> GSInterface \<Rightarrow> GSInterface) \<Rightarrow> qword list \<Rightarrow> nat \<Rightarrow> nat \<Rightarrow> GSInterface \<Rightarrow>
   Fault + GSInterface" where
  \<comment> \<open>\<^verbatim>\<open>for (i = 0; i < n; i++, words += stride)\<close> over groups of \<open>stride\<close> quad-words\<close>
  "packed_groups stride body qs i 0 s = Inr s"
| "packed_groups stride body qs i (Suc n) s =
     (if i + stride \<le> length qs
      then packed_groups stride body qs (i + stride) n (body (take stride (drop i qs)) s)
      else Inl ReadPastEnd)"

definition packed_STQRGBAXYZ :: "Config \<Rightarrow> bool \<Rightarrow> PRIMType \<Rightarrow> qword list \<Rightarrow> GSInterface \<Rightarrow> GSInterface" where
  \<comment> \<open>one vertex of \<^verbatim>\<open>packed_STQRGBAXYZ<FOG, PRIM, factor>\<close>\<close>
  "packed_STQRGBAXYZ cfg FOG PRIM ws s =
     packed_XYZ_PRIM cfg False FOG PRIM (ws ! 2) (packed_RGBAQ (ws ! 1) (packed_ST (ws ! 0) s))"

definition packed_UVRGBAXYZ :: "Config \<Rightarrow> bool \<Rightarrow> PRIMType \<Rightarrow> qword list \<Rightarrow> GSInterface \<Rightarrow> GSInterface" where
  "packed_UVRGBAXYZ cfg FOG PRIM ws s =
     packed_XYZ_PRIM cfg False FOG PRIM (ws ! 2) (packed_RGBAQ (ws ! 1) (packed_UV (ws ! 0) s))"

definition packed_STXYZSTRGBAXYZ_sprite :: "Config \<Rightarrow> bool \<Rightarrow> qword list \<Rightarrow> GSInterface \<Rightarrow> GSInterface" where
  "packed_STXYZSTRGBAXYZ_sprite cfg FOG ws s =
     packed_XYZ_PRIM cfg False FOG Sprite (ws ! 4)
       (packed_RGBAQ (ws ! 3)
         (packed_ST (ws ! 2)
           (packed_XYZ_PRIM cfg False FOG Sprite (ws ! 1) (packed_ST (ws ! 0) s))))"

definition packed_ADONLY :: "Config \<Rightarrow> qword list \<Rightarrow> GSInterface \<Rightarrow> GSInterface" where
  \<comment> \<open>the inner loop of \<^verbatim>\<open>packed_ADONLY<count>\<close>\<close>
  "packed_ADONLY cfg ws s = foldl (\<lambda>s w. packed_A_D cfg w s) s ws"

definition run_optimized_handler ::
  "Config \<Rightarrow> OptimizedPacketHandler \<Rightarrow> qword list \<Rightarrow> nat \<Rightarrow> nat \<Rightarrow> GSInterface \<Rightarrow> Fault + GSInterface" where
  \<comment> \<open>\<^verbatim>\<open>(this->*optimized_draw_handler[path_index])(&qwords[i], nloops_to_run)\<close>\<close>
  "run_optimized_handler cfg h qs i nloops s =
     (case h of
        Packed_STQRGBAXYZ FOG PRIM factor \<Rightarrow>
          packed_groups 3 (packed_STQRGBAXYZ cfg FOG PRIM) qs i (nloops * factor) s
      | Packed_UVRGBAXYZ FOG PRIM factor \<Rightarrow>
          packed_groups 3 (packed_UVRGBAXYZ cfg FOG PRIM) qs i (nloops * factor) s
      | Packed_STXYZSTRGBAXYZ_sprite FOG \<Rightarrow>
          packed_groups 5 (packed_STXYZSTRGBAXYZ_sprite cfg FOG) qs i nloops s
      | Packed_ADONLY count \<Rightarrow> packed_groups count (packed_ADONLY cfg) qs i nloops s)"

subsection \<open>gif\_transfer\<close>

definition path_upd :: "nat \<Rightarrow> (GIFPath \<Rightarrow> GIFPath) \<Rightarrow> GSInterface \<Rightarrow> GSInterface" where
  "path_upd path_index f s = s\<lparr>paths := (paths s)[path_index := f (paths s ! path_index)]\<rparr>"

definition effective_nreg :: "qword \<Rightarrow> nat" where
  \<comment> \<open>\<^verbatim>\<open>path.tag.NREG == 0 ? 16 : path.tag.NREG\<close>\<close>
  "effective_nreg t = (if tag_NREG t = 0 then 16 else tag_NREG t)"

definition loops_left :: "GIFPath \<Rightarrow> nat" where
  \<comment> \<open>\<^verbatim>\<open>path.tag.NLOOP - path.loop\<close>, an unsigned 32-bit difference\<close>
  "loops_left p = (tag_NLOOP (tag p) + 2 ^ 32 - loop p mod 2 ^ 32) mod 2 ^ 32"

definition end_of_loop :: "nat \<Rightarrow> GIFPath \<Rightarrow> GIFPath" where
  "end_of_loop nreg p = (if reg p = nreg then p\<lparr>loop := loop p + 1, reg := 0\<rparr> else p)"

definition reg_addr :: "GIFPath \<Rightarrow> u64" where
  \<comment> \<open>\<^verbatim>\<open>uint32_t(path.tag.REGS >> (4 * path.reg)) & 0xf\<close>\<close>
  "reg_addr p = drop_bit (4 * reg p) (tag_REGS (tag p)) AND 0xf"

definition gif_new_tag :: "nat \<Rightarrow> qword \<Rightarrow> GSInterface \<Rightarrow> GSInterface" where
  \<comment> \<open>lines 2969-2980\<close>
  "gif_new_tag path_index t s =
     (let s1 = path_upd path_index (\<lambda>p. p\<lparr>tag := t\<rparr>) s;
          s2 = (if tag_FLG t = PACKED \<and> tag_PRE t \<noteq> 0 then a_d_PRIM (tag_PRIM t) s1 else s1);
          s3 = update_optimized_gif_handler path_index s2
      in path_upd path_index (\<lambda>p. p\<lparr>loop := 0, reg := 0\<rparr>) s3)"

definition gif_packed :: "Config \<Rightarrow> nat \<Rightarrow> nat \<Rightarrow> qword \<Rightarrow> GSInterface \<Rightarrow> GSInterface" where
  \<comment> \<open>lines 2996-3014: one quad-word through the PACKED dispatcher\<close>
  "gif_packed cfg path_index nreg w s =
     (let addr = reg_addr (paths s ! path_index);
          s1 = path_upd path_index (\<lambda>p. p\<lparr>reg := reg p + 1\<rparr>) s;
          s2 = (if addr = GIF_A_D then packed_A_D cfg w s1 else packed_handler cfg addr w s1)
      in path_upd path_index (end_of_loop nreg) s2)"

definition gif_reglist_half :: "Config \<Rightarrow> nat \<Rightarrow> nat \<Rightarrow> u64 \<Rightarrow> GSInterface \<Rightarrow> GSInterface" where
  "gif_reglist_half cfg path_index nreg payload s =
     (let addr = reg_addr (paths s ! path_index);
          s1 = path_upd path_index (\<lambda>p. p\<lparr>reg := reg p + 1\<rparr>) s;
          s2 = reglist_handler cfg addr payload s1
      in path_upd path_index (end_of_loop nreg) s2)"

definition gif_reglist :: "Config \<Rightarrow> nat \<Rightarrow> nat \<Rightarrow> qword \<Rightarrow> GSInterface \<Rightarrow> GSInterface" where
  \<comment> \<open>lines 3021-3035: the second half is skipped when the first one closes the last loop\<close>
  "gif_reglist cfg path_index nreg w s =
     (let s1 = gif_reglist_half cfg path_index nreg (fst w) s;
          p = paths s1 ! path_index
      in if reg p = 0 \<and> loop p = tag_NLOOP (tag p) then s1
         else gif_reglist_half cfg path_index nreg (snd w) s1)"

definition gif_image ::
  "Config \<Rightarrow> nat \<Rightarrow> qword list \<Rightarrow> nat \<Rightarrow> GSInterface \<Rightarrow> nat \<times> GSInterface" where
  \<comment> \<open>lines 3043-3046\<close>
  "gif_image cfg path_index qs i s =
     (let num_loops = min (length qs - i) (loops_left (paths s ! path_index));
          s1 = a_d_HWREG_multi cfg (concat (map (\<lambda>w. [fst w, snd w]) (take num_loops (drop i qs)))) s
      in (i + num_loops, path_upd path_index (\<lambda>p. p\<lparr>loop := loop p + num_loops\<rparr>) s1))"

definition gif_step ::
  "Config \<Rightarrow> bool \<Rightarrow> nat \<Rightarrow> qword list \<Rightarrow> nat \<Rightarrow> nat \<Rightarrow> GSInterface \<Rightarrow> Fault + (nat \<times> nat \<times> GSInterface)" where
  \<comment> \<open>the body of the loop of \<^verbatim>\<open>gif_transfer\<close>, for \<open>i < length qs\<close>; the result is the new
      \<^verbatim>\<open>nreg\<close>, \<^verbatim>\<open>i\<close> and state.  The source is \<open>optimized = True\<close>.\<close>
  "gif_step cfg optimized path_index qs nreg i s =
     (let path = paths s ! path_index
      in if loop path = tag_NLOOP (tag path)
         then Inr (effective_nreg (qs ! i), i + 1, gif_new_tag path_index (qs ! i) s)
         else if reg path = 0 \<and> optimized \<and> optimized_draw_handler s ! path_index \<noteq> None
         then (let nloops_to_run = min ((length qs div nreg) mod 2 ^ 32) (loops_left path)
               in case run_optimized_handler cfg (the (optimized_draw_handler s ! path_index))
                         qs i nloops_to_run s of
                    Inl e \<Rightarrow> Inl e
                  | Inr s1 \<Rightarrow>
                      Inr (nreg, i + nloops_to_run * nreg,
                           path_upd path_index (\<lambda>p. p\<lparr>loop := loop p + nloops_to_run\<rparr>) s1))
         else if tag_FLG (tag path) = PACKED
         then Inr (nreg, i + 1, gif_packed cfg path_index nreg (qs ! i) s)
         else if tag_FLG (tag path) = REGLIST
         then Inr (nreg, i + 1, gif_reglist cfg path_index nreg (qs ! i) s)
         else (case gif_image cfg path_index qs i s of (i', s1) \<Rightarrow> Inr (nreg, i', s1)))"

partial_function (option) gif_loop ::
  "Config \<Rightarrow> bool \<Rightarrow> nat \<Rightarrow> qword list \<Rightarrow> nat \<Rightarrow> nat \<Rightarrow> GSInterface \<Rightarrow> (Fault + GSInterface) option" where
  "gif_loop cfg optimized path_index qs nreg i s =
     (if i < length qs
      then (case gif_step cfg optimized path_index qs nreg i s of
              Inl e \<Rightarrow> Some (Inl e)
            | Inr x \<Rightarrow> gif_loop cfg optimized path_index qs (fst x) (fst (snd x)) (snd (snd x)))
      else Some (Inr s))"

definition gif_transfer_with ::
  "Config \<Rightarrow> bool \<Rightarrow> nat \<Rightarrow> qword list \<Rightarrow> GSInterface \<Rightarrow> (Fault + GSInterface) option" where
  "gif_transfer_with cfg optimized path_index qs s =
     (if qs = [] then Some (Inr s)
      else gif_loop cfg optimized path_index qs (effective_nreg (tag (paths s ! path_index))) 0 s)"

definition gif_transfer :: "Config \<Rightarrow> nat \<Rightarrow> qword list \<Rightarrow> GSInterface \<Rightarrow> (Fault + GSInterface) option" where
  \<comment> \<open>\<^verbatim>\<open>GSInterface::gif_transfer(path_index, data, size)\<close> with \<^verbatim>\<open>size = 16 * length qs\<close>;
      \<open>None\<close> is a call that does not return\<close>
  "gif_transfer cfg path_index qs s = gif_transfer_with cfg True path_index qs s"

definition gif_transfer_generic :: "Config \<Rightarrow> nat \<Rightarrow> qword list \<Rightarrow> GSInterface \<Rightarrow> (Fault + GSInterface) option" where
  \<comment> \<open>the reference of the spec for the fast path: the same loop with every quad-word going
      one register at a time through the generic dispatcher\<close>
  "gif_transfer_generic cfg path_index qs s = gif_transfer_with cfg False path_index qs s"


section \<open>The interface after construction, and scenarios\<close>

text \<open>
  The constructor runs \<^verbatim>\<open>setup_handlers\<close> (\<^verbatim>\<open>draw_handler = drawing_kick_invalid\<close>) and sets
  \<^verbatim>\<open>PRMODECONT.AC\<close>.  The initializers of the other members are in \<^verbatim>\<open>gs_interface.hpp\<close>
  (not among the sources at hand): registers, queue and paths start zeroed, and the
  render-pass accumulator and dirty flags start as \<^verbatim>\<open>flush_render_pass\<close> leaves them.
\<close>

definition zero_context :: ContextState where
  "zero_context =
     \<lparr> tex0 = 0, tex1 = 0, clamp = 0, xyoffset = 0, miptbl_1_3 = 0, miptbl_4_6 = 0,
       scissor = 0, alpha = 0, test = 0, fba = 0, frame = 0, zbuf = 0 \<rparr>"

definition zero_registers :: RegisterState where
  "zero_registers =
     \<lparr> ctx0 = zero_context, ctx1 = zero_context, prim = 0, rgbaq = 0, st = 0, uv = 0, fog = 0,
       prmodecont = AC_DEFAULT, texclut = 0, scanmsk = 0, texa = 0, fogcol = 0, dimx = 0,
       dthe = 0, colclamp = 0, pabe = 0, bitbltbuf = 0, trxpos = 0, trxreg = 0, trxdir = 0,
       internal_q = 0, cached_cbp0 = 0, cached_cbp1 = 0 \<rparr>"

definition zero_state_vector :: StateVector where
  "zero_state_vector =
     \<lparr> bm_dthe = False, bm_ate = False, bm_ate_mode = 0, bm_afail_mode = 0, bm_date = False,
       bm_datm = False, bm_abcd = (0, 0, 0, 0), bm_abe = False, bm_pabe = False,
       bm_colclamp = False, bm_fb_alpha = False, cb_tme = False, cb_tcc = False, cb_mode = 0,
       cb_fog = False, dimx_x = 0, dimx_y = 0 \<rparr>"

definition empty_render_pass :: RenderPassState where
  "empty_render_pass =
     \<lparr> rp_positions = [], rp_attributes = [], rp_prim = [], primitive_count = 0,
       state_vectors = [], state_vector_map = [], tex_infos = [], texture_map = Map.empty,
       held_images = [], rp_frame = 0, rp_zbuf = 0,
       fb_page_width_log2 = 0, fb_page_height_log2 = 0, z_page_width_log2 = 0,
       z_page_height_log2 = 0, rp_bb = (INT32_MAX, INT32_MAX, INT32_MIN, INT32_MIN),
       color_write_mask = 0, z_sensitive = False, z_write = False, has_color_feedback = False,
       has_aa1 = False, has_scanmsk = False, is_color_feedback = False,
       is_potential_color_feedback = False, is_potential_depth_feedback = False,
       clut_instance = 0, latest_clut_instance = 0, pending_palette_updates = 0,
       memoized_palettes = [], label_key = 0 \<rparr>"

definition new_interface :: "nat \<Rightarrow> nat \<Rightarrow> nat \<Rightarrow> GSInterface" where
  \<comment> \<open>a fresh interface for a VRAM size and super-sampling rates\<close>
  "new_interface vram ss_x ss_y =
     \<lparr> registers = zero_registers,
       state_tracker =
         \<lparr> dirty_flags = STATE_DIRTY_ALL_BITS, degenerate_draw = False,
           last_state_vector = zero_state_vector, last_state_index = 0,
           last_texture_index = 0, prim_template_tex = zero_tex_word,
           prim_template_state = zero_state_word \<rparr>,
       vertex_queue = \<lparr> vq_pos = [zero_pos, zero_pos, zero_pos],
                        vq_attr = [zero_attr, zero_attr, zero_attr], vq_count = 0 \<rparr>,
       render_pass = empty_render_pass,
       transfer_state =
         \<lparr> host_to_local_active = False, host_to_local_payload = [], last_flushed_qwords = 0,
           required_qwords = 0,
           copy = \<lparr> copy_trxdir = 0, copy_trxreg = 0, copy_trxpos = 0, copy_bitbltbuf = 0,
                    host_data = [], host_data_size = 0, host_data_size_offset = 0,
                    host_data_size_required = 0 \<rparr> \<rparr>,
       paths = replicate 4 \<lparr> tag = (0, 0), loop = 0, reg = 0 \<rparr>,
       optimized_draw_handler = replicate 4 None,
       draw_handler = Drawing_kick_invalid,
       sync_host_vram_pages = replicate (((vram div 8192) + 31) div 32) 0,
       sync_vram_host_pages = replicate (((vram div 8192) + 31) div 32) 0,
       page_buffer = [],
       sampling_rate_x_log2 = ss_x,
       sampling_rate_y_log2 = ss_y,
       vram_size = vram,
       calls = [] \<rparr>"

definition RA_PRIM :: u64 where "RA_PRIM = 0x00"
definition RA_XYZ2 :: u64 where "RA_XYZ2 = 0x05"
definition RA_TEX0_1 :: u64 where "RA_TEX0_1 = 0x06"
definition RA_PRMODECONT :: u64 where "RA_PRMODECONT = 0x1a"
definition RA_TEXCLUT :: u64 where "RA_TEXCLUT = 0x1c"
definition RA_TEXFLUSH :: u64 where "RA_TEXFLUSH = 0x3f"
definition RA_SCISSOR_1 :: u64 where "RA_SCISSOR_1 = 0x40"
definition RA_TEST_1 :: u64 where "RA_TEST_1 = 0x47"
definition RA_FRAME_1 :: u64 where "RA_FRAME_1 = 0x4c"
definition RA_ZBUF_1 :: u64 where "RA_ZBUF_1 = 0x4e"

definition xyz2 :: "nat \<Rightarrow> nat \<Rightarrow> u64" where
  \<comment> \<open>an XYZ2 payload with subpixel coordinates \<open>x\<close>, \<open>y\<close> and Z = 0\<close>
  "xyz2 x y = word_of_nat x OR push_bit 16 (word_of_nat y)"

definition sprite_setup :: "Config \<Rightarrow> GSInterface \<Rightarrow> GSInterface" where
  \<comment> \<open>FRAME = (FBP 0, FBW 10, PSMCT32), ZBUF with ZMSK set, TEST with ZTE = 0,
      PRIM = Sprite with TME = 0 and ABE = 0\<close>
  "sprite_setup cfg s =
     write_register cfg RA_PRIM 6
       (write_register cfg RA_TEST_1 0
         (write_register cfg RA_ZBUF_1 (push_bit 32 1)
           (write_register cfg RA_FRAME_1 (push_bit 16 10) s)))"

definition draw_sprite :: "Config \<Rightarrow> GSInterface \<Rightarrow> GSInterface" where
  \<comment> \<open>two XYZ2 vertices at subpixel (100, 100) and (500, 500)\<close>
  "draw_sprite cfg s =
     write_register cfg RA_XYZ2 (xyz2 500 500) (write_register cfg RA_XYZ2 (xyz2 100 100) s)"

definition scissor_640_448 :: u64 where
  \<comment> \<open>SCAX0 = 0, SCAX1 = 639, SCAY0 = 0, SCAY1 = 447\<close>
  "scissor_640_448 = push_bit 16 639 OR push_bit 48 447"

definition flushed_passes :: "GSInterface \<Rightarrow> RenderPass list" where
  \<comment> \<open>the render passes handed to the back-end so far\<close>
  "flushed_passes s = concat (map (\<lambda>c. case c of Flush_rendering rp \<Rightarrow> [rp] | _ \<Rightarrow> []) (calls s))"

definition palette_updates :: "GSInterface \<Rightarrow> nat" where
  \<comment> \<open>the number of \<^verbatim>\<open>update_palette_cache\<close> calls made so far\<close>
  "palette_updates s = length (filter (\<lambda>c. case c of Update_palette_cache d \<Rightarrow> True | _ \<Rightarrow> False) (calls s))"

definition test_config :: Config where
  \<comment> \<open>a configuration for running examples: small limits, PSMCT32 pages of 64 by 32 pixels\<close>
  "test_config =
     \<lparr> MaxPrimitivesPerFlush = 4, MaxTextures = 4, MaxStateVectors = 4, CLUTInstances = 4,
       NumMemoizedPalettes = 8,
       psm_page_width_log2 = (\<lambda>_. 6), psm_page_height_log2 = (\<lambda>_. 5),
       psm_block_width_log2 = (\<lambda>_. 3), psm_block_height_log2 = (\<lambda>_. 3),
       psm_word_write_mask = (\<lambda>_. - 1), get_bits_per_pixel = (\<lambda>_. 32),
       palette_instance = (\<lambda>d cs. word_of_nat (length cs)),
       textured_feedback_state = (\<lambda>s. s),
       textured_feedback_mode = (\<lambda>pos attr bb s. (FeedbackNone, (0, 0, 0, 0))),
       textured_page_rects_read = (\<lambda>s. s),
       textured_update_texture = (\<lambda>m uv bb s. (0, s)),
       RGBAQUndocumented_addr = 0x11,
       tracker_callbacks = (\<lambda>cs c. []),
       tracker_invalidates = (\<lambda>cs i. False) \<rparr>"

section \<open>Reference definitions for the properties\<close>

text \<open>
  The five phases of the flush lattice as the spec lists them, for the flags and the state
  a flush starts from: (1) sync of host-to-VRAM pages, (2) flush of copies or the
  copy-overlap barrier, (3) flush of texture-cache uploads, (4) flush of the render pass,
  (5) flush of read-back.
\<close>

definition flush_phase :: "Call \<Rightarrow> nat" where
  "flush_phase c =
     (case c of
        Flush_host_vram_copy pages \<Rightarrow> 1
      | Flush_transfer \<Rightarrow> 2
      | Transfer_overlap_barrier \<Rightarrow> 2
      | Flush_cache_upload \<Rightarrow> 3
      | Flush_rendering rp \<Rightarrow> 4
      | Flush_readback pages \<Rightarrow> 5
      | _ \<Rightarrow> 0)"

definition has_flag :: "u32 \<Rightarrow> u32 \<Rightarrow> bool" where
  "has_flag flags b = (flags AND b \<noteq> 0)"

definition flush_phases :: "u32 \<Rightarrow> FlushReason \<Rightarrow> GSInterface \<Rightarrow> Call list" where
  "flush_phases flags reason s =
     (if has_flag flags PAGE_TRACKER_FLUSH_HOST_VRAM_SYNC_BIT \<and> collect_pages (sync_host_vram_pages s) \<noteq> []
      then [Flush_host_vram_copy (collect_pages (sync_host_vram_pages s))] else []) @
     (if has_flag flags PAGE_TRACKER_FLUSH_COPY_BIT
      then (if has_flag flags PAGE_TRACKER_FLUSH_CACHE_BIT \<or> has_flag flags PAGE_TRACKER_FLUSH_FB_BIT \<or>
               has_flag flags PAGE_TRACKER_FLUSH_WRITE_BACK_BIT
            then [Flush_transfer] else [Transfer_overlap_barrier])
      else []) @
     (if has_flag flags PAGE_TRACKER_FLUSH_CACHE_BIT then [Flush_cache_upload] else []) @
     (if has_flag flags PAGE_TRACKER_FLUSH_FB_BIT \<and> primitive_count (render_pass s) \<noteq> 0
      then [Flush_rendering (make_render_pass reason s)] else []) @
     (if has_flag flags PAGE_TRACKER_FLUSH_WRITE_BACK_BIT \<and> collect_pages (sync_vram_host_pages s) \<noteq> []
      then [Flush_readback (collect_pages (sync_vram_host_pages s))] else [])"

text \<open>
  The tile-size cost function in the words of the spec: the cost is the number of 8 by 8
  tiles of the bounding box times the number of primitives, a natural number.
\<close>

definition tile_cost :: "ivec4 \<Rightarrow> nat \<Rightarrow> nat" where
  "tile_cost bb n = (case bb of (x, y, z, w) \<Rightarrow> nat ((z - x) div 8 + 1) * nat ((w - y) div 8 + 1) * n)"

definition spec_tile_log2 :: "nat \<Rightarrow> nat \<Rightarrow> nat" where
  "spec_tile_log2 cost ss_y_log2 =
     (let l = (if cost < 10 ^ 4 then 3 else if cost < 10 ^ 7 then 4 else if cost < 10 ^ 8 then 5 else 6)
      in if ss_y_log2 \<noteq> 0 \<and> l > 3 then l - 1 else l)"

text \<open>
  The four conditions of the degenerate check, as the spec lists them: the scissor is empty;
  the depth test is enabled and NEVER; the alpha test is enabled, NEVER, and keeps the frame
  buffer on failure; colour writes are masked off completely and depth is not written
  (ZMSK set, or ZTE left undefined).
\<close>

definition degenerate_conditions :: "ContextState \<Rightarrow> bool" where
  "degenerate_conditions c =
     ((SCISSOR_SCAX0 (scissor c) > SCISSOR_SCAX1 (scissor c) \<or>
       SCISSOR_SCAY0 (scissor c) > SCISSOR_SCAY1 (scissor c)) \<or>
      (TEST_ZTE (test c) = ZTE_ENABLED \<and> TEST_ZTST (test c) = ZTST_NEVER) \<or>
      (TEST_ATE (test c) \<noteq> 0 \<and> TEST_ATST (test c) = ATST_NEVER \<and> TEST_AFAIL (test c) = AFAIL_KEEP) \<or>
      (FRAME_FBMSK (frame c) = 0xffffffff \<and>
       (ZBUF_ZMSK (zbuf c) \<noteq> 0 \<or> TEST_ZTE (test c) = ZTE_UNDEFINED)))"

text \<open>
  Calls of the tracker that come with a flush of transfer payload:
  \<^verbatim>\<open>mark_transfer_write\<close> and \<^verbatim>\<open>invalidate_texture_cache\<close>.  \<open>transfer_scan\<close> reads a
  list of calls and keeps whether a \<^verbatim>\<open>mark_transfer_write\<close> still waits for its
  \<^verbatim>\<open>invalidate_texture_cache\<close>; it fails on an \<^verbatim>\<open>invalidate_texture_cache\<close> that no
  \<^verbatim>\<open>mark_transfer_write\<close> precedes, and on two \<^verbatim>\<open>mark_transfer_write\<close> with no
  \<^verbatim>\<open>invalidate_texture_cache\<close> in between.  An operation that takes \<open>s\<close> to \<open>s'\<close>
  \<open>invalidates_in_transfer_flushes\<close> when it only adds calls and the calls it adds pass the
  scan.  \<open>texturing_leaves_transfers\<close> says so of the texture code that is a parameter of
  the model (it calls \<^verbatim>\<open>mark_texture_read\<close>, \<^verbatim>\<open>find_cached_texture\<close>,
  \<^verbatim>\<open>register_cached_texture\<close> and \<^verbatim>\<open>flush_render_pass\<close> of the tracker, lines 547-1133).
\<close>

definition is_invalidate :: "Call \<Rightarrow> bool" where
  "is_invalidate c = (case c of Invalidate_texture_cache i \<Rightarrow> True | _ \<Rightarrow> False)"

definition is_transfer_write :: "Call \<Rightarrow> bool" where
  "is_transfer_write c = (case c of Mark_transfer_write r \<Rightarrow> True | _ \<Rightarrow> False)"

fun transfer_scan :: "bool \<Rightarrow> Call list \<Rightarrow> bool option" where
  "transfer_scan p [] = Some p"
| "transfer_scan p (c # cs) =
     (if is_transfer_write c then (if p then None else transfer_scan True cs)
      else if is_invalidate c then (if p then transfer_scan False cs else None)
      else transfer_scan p cs)"

definition new_calls :: "GSInterface \<Rightarrow> GSInterface \<Rightarrow> Call list" where
  "new_calls s s' = drop (length (calls s)) (calls s')"

definition follows :: "bool \<Rightarrow> GSInterface \<Rightarrow> GSInterface \<Rightarrow> bool" where
  "follows p s s' \<longleftrightarrow>
     take (length (calls s)) (calls s') = calls s \<and> transfer_scan False (new_calls s s') = Some p"

definition invalidates_in_transfer_flushes :: "GSInterface \<Rightarrow> GSInterface \<Rightarrow> bool" where
  "invalidates_in_transfer_flushes s s' = follows False s s'"

definition texturing_leaves_transfers :: "Config \<Rightarrow> bool" where
  "texturing_leaves_transfers cfg \<longleftrightarrow>
     (\<forall>s. invalidates_in_transfer_flushes s (textured_feedback_state cfg s) \<and>
          invalidates_in_transfer_flushes s (textured_page_rects_read cfg s) \<and>
          (\<forall>m uvb bb. invalidates_in_transfer_flushes s (snd (textured_update_texture cfg m uvb bb s))))"

definition plain :: "Call list \<Rightarrow> bool" where
  "plain cs = list_all (\<lambda>c. \<not> is_invalidate c \<and> \<not> is_transfer_write c) cs"

text \<open>
  A configuration whose tracker finds something to invalidate at every
  \<^verbatim>\<open>invalidate_texture_cache\<close>, and an interface that awaits the one quad-word of a
  host-to-local transfer of 2 by 1 pixels: TRXREG and TRXDIR have been written.
\<close>

definition invalidating_config :: Config where
  "invalidating_config = test_config\<lparr>tracker_invalidates := (\<lambda>cs i. True)\<rparr>"

definition transfer_ready :: GSInterface where
  "transfer_ready =
     write_register invalidating_config 0x53 0
       (write_register invalidating_config 0x52 (2 OR push_bit 32 1) (new_interface 4194304 0 0))"

text \<open>
  The bounding box of a pass is the hull of the boxes of its primitives
  (\<^verbatim>\<open>render_pass.bb\<close> grows by \<open>union_box\<close>, lines 1721-1724, from the box
  \<^verbatim>\<open>flush_render_pass\<close> leaves).  \<open>tile_rule\<close> is the rule of the spec for a pass handed to
  the back-end: it has a primitive, and its coarse tile size is the one the thresholds give
  for the cost, the number of 8 by 8 tiles of the box times the number of primitives.
  \<open>flushes_by_rule s s'\<close>: going from \<open>s\<close> to \<open>s'\<close> only adds calls, and every pass among
  them follows the rule.  \<open>accumulator_ok n\<close> is the state of the accumulator between
  operations: fewer than \<open>n\<close> primitives, the primitives recorded are as many as counted,
  each with a box inside the 2048 by 2048 pixels a scissor can span, and the box of the pass
  is their hull.

  Two things are parameters of the model and enter as conditions.  The texture code keeps
  the accumulator in this shape (\<open>texturing_keeps_accumulator\<close>).  The tracker does not
  answer \<^verbatim>\<open>mark_fb_write\<close> or \<^verbatim>\<open>mark_fb_read\<close> with a flush of the render pass that is
  being extended (\<open>fb_marks_keep_pass\<close>; the spec has them ``record that an in-flight
  render pass will write/read those blocks'').  The number of primitives is a 32-bit
  factor of the cost, so \<^verbatim>\<open>MaxPrimitivesPerFlush\<close>, which is declared elsewhere, has to be
  below \<open>2\<^sup>1\<^sup>6\<close> for the product to fit 32 bits on every box (\<open>pass_limits\<close>).
\<close>

definition empty_box :: ivec4 where
  "empty_box = (INT32_MAX, INT32_MAX, INT32_MIN, INT32_MIN)"

definition union_box :: "ivec4 \<Rightarrow> ivec4 \<Rightarrow> ivec4" where
  "union_box bb r =
     (min (bb_x bb) (bb_x r), min (bb_y bb) (bb_y r), max (bb_z bb) (bb_z r), max (bb_w bb) (bb_w r))"

definition boxes_hull :: "ivec4 list \<Rightarrow> ivec4" where
  "boxes_hull bs = foldl (\<lambda>r bb. union_box bb r) empty_box bs"

definition box_bounded :: "ivec4 \<Rightarrow> bool" where
  "box_bounded bb \<longleftrightarrow>
     0 \<le> bb_x bb \<and> bb_x bb \<le> bb_z bb \<and> bb_z bb \<le> 2047 \<and>
     0 \<le> bb_y bb \<and> bb_y bb \<le> bb_w bb \<and> bb_w bb \<le> 2047"

definition passes_of :: "Call list \<Rightarrow> RenderPass list" where
  "passes_of cs = concat (map (\<lambda>c. case c of Flush_rendering rp \<Rightarrow> [rp] | _ \<Rightarrow> []) cs)"

definition pass_cost :: "RenderPass \<Rightarrow> nat" where
  "pass_cost rp = tile_cost (boxes_hull (map pa_bb (out_prims rp))) (num_primitives rp)"

definition tile_rule :: "RenderPass \<Rightarrow> bool" where
  "tile_rule rp \<longleftrightarrow>
     0 < num_primitives rp \<and>
     coarse_tile_size_log2 rp = spec_tile_log2 (pass_cost rp) (out_sampling_rate_y_log2 rp)"

definition flushes_by_rule :: "GSInterface \<Rightarrow> GSInterface \<Rightarrow> bool" where
  "flushes_by_rule s s' \<longleftrightarrow>
     take (length (calls s)) (calls s') = calls s \<and> list_all tile_rule (passes_of (new_calls s s'))"

definition accumulator_ok :: "nat \<Rightarrow> GSInterface \<Rightarrow> bool" where
  "accumulator_ok n s \<longleftrightarrow>
     (let rp = render_pass s
      in primitive_count rp < n \<and> length (rp_prim rp) = primitive_count rp \<and>
         list_all box_bounded (map pa_bb (rp_prim rp)) \<and>
         rp_bb rp = boxes_hull (map pa_bb (rp_prim rp)))"

definition keeps_rule :: "nat \<Rightarrow> GSInterface \<Rightarrow> GSInterface \<Rightarrow> bool" where
  "keeps_rule n a s \<longleftrightarrow> n \<le> 65536 \<and> flushes_by_rule a s \<and> accumulator_ok n s"

definition flushes_pass :: "TrackerCallback \<Rightarrow> bool" where
  "flushes_pass cb = (case cb of Cb_flush flags reason \<Rightarrow> flags AND PAGE_TRACKER_FLUSH_FB_BIT \<noteq> 0
                                | _ \<Rightarrow> False)"

definition fb_marks_keep_pass :: "Config \<Rightarrow> bool" where
  "fb_marks_keep_pass cfg \<longleftrightarrow>
     (\<forall>cs r. list_all (\<lambda>cb. \<not> flushes_pass cb) (tracker_callbacks cfg cs (Mark_fb_write r)) \<and>
             list_all (\<lambda>cb. \<not> flushes_pass cb) (tracker_callbacks cfg cs (Mark_fb_read r)))"

definition texturing_keeps_accumulator :: "Config \<Rightarrow> bool" where
  "texturing_keeps_accumulator cfg \<longleftrightarrow>
     (\<forall>n a s. keeps_rule n a s \<longrightarrow>
        keeps_rule n a (textured_feedback_state cfg s) \<and>
        keeps_rule n a (textured_page_rects_read cfg s) \<and>
        (\<forall>m uvb bb. keeps_rule n a (snd (textured_update_texture cfg m uvb bb s))))"

definition pending_box :: "nat \<Rightarrow> ivec4 \<Rightarrow> GSInterface \<Rightarrow> GSInterface \<Rightarrow> bool" where
  "pending_box n bb a s \<longleftrightarrow>
     n \<le> 65536 \<and> flushes_by_rule a s \<and> box_bounded bb \<and>
     (let rp = render_pass s
      in primitive_count rp < n \<and> length (rp_prim rp) = primitive_count rp \<and>
         list_all box_bounded (map pa_bb (rp_prim rp)) \<and>
         rp_bb rp = union_box bb (boxes_hull (map pa_bb (rp_prim rp))))"

definition no_pass :: "Call \<Rightarrow> bool" where
  "no_pass c = (case c of Flush_rendering rp \<Rightarrow> False | _ \<Rightarrow> True)"

definition pass_limits :: "Config \<Rightarrow> bool" where
  "pass_limits cfg \<longleftrightarrow>
     MaxPrimitivesPerFlush cfg < 65536 \<and> texturing_keeps_accumulator cfg \<and> fb_marks_keep_pass cfg"

abbreviation (input) kept :: "Config \<Rightarrow> GSInterface \<Rightarrow> GSInterface \<Rightarrow> bool" where
  "kept cfg a s \<equiv> keeps_rule (MaxPrimitivesPerFlush cfg) a s"

text \<open>
  The scenario of an untextured sprite: the registers after \<open>sprite_setup\<close> with a scissor
  \<open>sc\<close>, the draw handler of sprites, and what a kick of such a sprite records.
  \<open>fb_marks_quiet\<close>: the tracker records \<^verbatim>\<open>mark_fb_write\<close> and \<^verbatim>\<open>mark_fb_read\<close> and
  calls nothing back.  \<open>start_dirty\<close>: the dirty flags that make a kick recompute feedback,
  frame buffer, primitive template and state vector, as after a flush.
\<close>

definition sprite_registers :: "u64 \<Rightarrow> RegisterState" where
  "sprite_registers sc =
     zero_registers\<lparr>ctx0 := zero_context\<lparr>scissor := sc, frame := 0xA0000, zbuf := 0x100000000\<rparr>,
                    prim := 6, internal_q := 0x3f800000\<rparr>"

definition sprite_handler :: DrawHandler where
  "sprite_handler = Drawing_kick_primitive True False True 2"

definition below_limits :: "Config \<Rightarrow> RenderPassState \<Rightarrow> bool" where
  "below_limits cfg rp =
     (pending_palette_updates rp < CLUTInstances cfg \<and> primitive_count rp < MaxPrimitivesPerFlush cfg \<and>
      length (tex_infos rp) < MaxTextures cfg \<and> length (state_vectors rp) < MaxStateVectors cfg)"

definition vertex_at :: "int \<Rightarrow> int \<Rightarrow> VertexPosition" where
  "vertex_at x y = \<lparr> pos_x = x, pos_y = y, pos_z = 0 \<rparr>"

definition sprite_attr :: "TexWord \<Rightarrow> StateWord \<Rightarrow> ivec4 \<Rightarrow> PrimitiveAttribute" where
  "sprite_attr t w bb =
     \<lparr> pa_tex = t, pa_state = shape_state_word True 2 w, pa_fbmsk = 0, pa_fogcol = 0,
       pa_afix = 0, pa_aref = 0, pa_bb = bb \<rparr>"

definition sprite_state_word :: StateWord where
  "sprite_state_word = zero_state_word\<lparr>sb_opaque := True, sb_perspective := True\<rparr>"

definition fb_marks_quiet :: "Config \<Rightarrow> bool" where
  "fb_marks_quiet cfg \<longleftrightarrow>
     (\<forall>cs r. tracker_callbacks cfg cs (Mark_fb_write r) = [] \<and>
             tracker_callbacks cfg cs (Mark_fb_read r) = [])"

definition start_dirty :: "u32 \<Rightarrow> bool" where
  "start_dirty d \<longleftrightarrow>
     d AND STATE_DIRTY_FEEDBACK_BIT \<noteq> 0 \<and> d AND STATE_DIRTY_FB_BIT \<noteq> 0 \<and>
     d AND STATE_DIRTY_PRIM_TEMPLATE_BIT \<noteq> 0 \<and> d AND STATE_DIRTY_STATE_BIT \<noteq> 0"

definition prim_gating_state :: GSInterface where
  \<comment> \<open>PRMODECONT.AC = 0; PRIM = TriangleFan with IIP, TME, FGE, ABE, AA1, FST and FIX set, CTXT = 0\<close>
  "prim_gating_state =
     (new_interface 4194304 0 0)\<lparr>registers := zero_registers\<lparr>prmodecont := 0, prim := 0x5fd\<rparr>\<rparr>"

section \<open>Properties\<close>

subsection \<open>Bit-fields\<close>

lemma get_field_set_field_above:
  "3 \<le> off \<Longrightarrow> get_field off w (set_field 0 3 v r) = get_field off w r"
  unfolding get_field_def set_field_def
  by (rule bit_word_eqI) (auto simp add: bit_simps dest: bit_imp_le_length)

lemma get_field_set_field_PRIM:
  "get_field 0 3 (set_field 0 3 (get_field 0 3 v) r) = get_field 0 3 v"
  unfolding get_field_def set_field_def
  by (rule bit_word_eqI) (auto simp add: bit_simps)

lemma drop_bit_set_field_PRIM: "drop_bit 3 (set_field 0 3 v r) = drop_bit 3 r"
  unfolding get_field_def set_field_def
  by (rule bit_word_eqI) (auto simp add: bit_simps dest: bit_imp_le_length)

lemma get_field_set_field_ADDR: "get_field 0 8 (set_field 0 8 v r) = take_bit 8 v"
  unfolding get_field_def set_field_def
  by (rule bit_word_eqI) (auto simp add: bit_simps)

subsection \<open>PRIM under PRMODECONT.AC = 0\<close>

text \<open>
  C9.  With \<^verbatim>\<open>PRMODECONT.AC = 0\<close>, a write of PRIM replaces the field PRIM (bits 0..2) of
  the internal PRIM register by that of the payload and keeps every other bit: CTXT, IIP,
  TME, FGE, ABE, AA1, FST and FIX are as before.  Of the other registers only
  \<^verbatim>\<open>internal_q\<close> is written (set to 1.0), and no dirty flag changes.
\<close>

theorem a_d_PRIM_AC0_keeps_mode_bits:
  assumes "PRMODECONT_AC (prmodecont (registers s)) = 0"
  shows "(let p = prim (registers s); p' = prim (registers (a_d_PRIM payload s))
          in PRIM_PRIM p' = PRIM_PRIM payload \<and> PRIM_CTXT p' = PRIM_CTXT p \<and>
             PRIM_IIP p' = PRIM_IIP p \<and> PRIM_TME p' = PRIM_TME p \<and> PRIM_FGE p' = PRIM_FGE p \<and>
             PRIM_ABE p' = PRIM_ABE p \<and> PRIM_AA1 p' = PRIM_AA1 p \<and> PRIM_FST p' = PRIM_FST p \<and>
             PRIM_FIX p' = PRIM_FIX p \<and> drop_bit 3 p' = drop_bit 3 p) \<and>
         registers (a_d_PRIM payload s) =
           (registers s)\<lparr>prim := prim (registers (a_d_PRIM payload s)), internal_q := 0x3f800000\<rparr> \<and>
         state_tracker (a_d_PRIM payload s) = state_tracker s"
  using assms
  by (simp add: a_d_PRIM_def Let_def update_draw_handler_def reset_vertex_queue_def
      PRIM_PRIM_def PRIM_CTXT_def PRIM_IIP_def PRIM_TME_def PRIM_FGE_def PRIM_ABE_def PRIM_AA1_def
      PRIM_FST_def PRIM_FIX_def get_field_set_field_above get_field_set_field_PRIM
      drop_bit_set_field_PRIM)

lemma prim_gating_state_AC: "PRMODECONT_AC (prmodecont (registers prim_gating_state)) = 0"
  by (simp add: prim_gating_state_def new_interface_def zero_registers_def PRMODECONT_AC_def
      get_field_def)

lemma prim_gating_state_prim: "prim (registers prim_gating_state) = 0x5fd"
  by (simp add: prim_gating_state_def new_interface_def zero_registers_def)

text \<open>
  At \<open>prim_gating_state\<close>, writing PRIM = Sprite with CTXT = 1 (payload \<open>0x206\<close>) turns the
  register \<open>0x5fd\<close> into \<open>0x5fe\<close>: only the low three bits move.
\<close>

theorem a_d_PRIM_AC0_keeps_mode_bits_witness:
  "PRMODECONT_AC (prmodecont (registers prim_gating_state)) = 0 \<and>
   PRIM_PRIM (prim (registers (a_d_PRIM 0x206 prim_gating_state))) = 6 \<and>
   PRIM_CTXT (prim (registers (a_d_PRIM 0x206 prim_gating_state))) = 0 \<and>
   drop_bit 3 (prim (registers (a_d_PRIM 0x206 prim_gating_state))) = drop_bit 3 0x5fd"
proof -
  have h: "PRMODECONT_AC (prmodecont (registers prim_gating_state)) = 0"
    by (rule prim_gating_state_AC)
  from a_d_PRIM_AC0_keeps_mode_bits [OF h, of "0x206"] show ?thesis
    using h by (simp add: Let_def prim_gating_state_prim PRIM_PRIM_def PRIM_CTXT_def get_field_def)
qed

subsection \<open>The flush callback\<close>

lemma and_or_eq_0_iff: "(x :: u32) AND (a OR b) = 0 \<longleftrightarrow> x AND a = 0 \<and> x AND b = 0"
  by (simp add: bit.conj_disj_distrib or_eq_0_iff)

lemma calls_flush: "calls (flush flags reason s) = calls s @ flush_phases flags reason s"
  by (simp add: flush_def flush_phases_def has_flag_def Let_def flush_host_vram_sync_def
      flush_copy_def flush_cache_def flush_render_pass_def flush_write_back_def emit_def
      make_render_pass_def and_or_eq_0_iff)

lemma flush_phases_sorted: "sorted (map flush_phase (flush_phases flags reason s))"
  by (simp add: flush_phases_def flush_phase_def)

text \<open>
  C6.  Whatever the flags, the calls a flush makes are the phases of the lattice in their
  order: host-to-VRAM sync, copies (or the barrier), texture-cache uploads, render pass,
  read-back.  The copy phase is \<^verbatim>\<open>transfer_overlap_barrier\<close> when the copy bit is set and
  none of the cache, render-pass and write-back bits is, and \<^verbatim>\<open>flush_transfer\<close> when the
  copy bit is set together with one of them.
\<close>

theorem flush_runs_phases_in_order:
  "calls (flush flags reason s) = calls s @ flush_phases flags reason s \<and>
   sorted (map flush_phase (flush_phases flags reason s)) \<and>
   (Transfer_overlap_barrier \<in> set (flush_phases flags reason s) \<longleftrightarrow>
      has_flag flags PAGE_TRACKER_FLUSH_COPY_BIT \<and>
      \<not> (has_flag flags PAGE_TRACKER_FLUSH_CACHE_BIT \<or> has_flag flags PAGE_TRACKER_FLUSH_FB_BIT \<or>
         has_flag flags PAGE_TRACKER_FLUSH_WRITE_BACK_BIT)) \<and>
   (Flush_transfer \<in> set (flush_phases flags reason s) \<longleftrightarrow>
      has_flag flags PAGE_TRACKER_FLUSH_COPY_BIT \<and>
      (has_flag flags PAGE_TRACKER_FLUSH_CACHE_BIT \<or> has_flag flags PAGE_TRACKER_FLUSH_FB_BIT \<or>
       has_flag flags PAGE_TRACKER_FLUSH_WRITE_BACK_BIT))"
proof (intro conjI)
  show "calls (flush flags reason s) = calls s @ flush_phases flags reason s"
    by (rule calls_flush)
  show "sorted (map flush_phase (flush_phases flags reason s))"
    by (rule flush_phases_sorted)
  show "Transfer_overlap_barrier \<in> set (flush_phases flags reason s) \<longleftrightarrow>
      has_flag flags PAGE_TRACKER_FLUSH_COPY_BIT \<and>
      \<not> (has_flag flags PAGE_TRACKER_FLUSH_CACHE_BIT \<or> has_flag flags PAGE_TRACKER_FLUSH_FB_BIT \<or>
         has_flag flags PAGE_TRACKER_FLUSH_WRITE_BACK_BIT)"
    by (simp add: flush_phases_def)
  show "Flush_transfer \<in> set (flush_phases flags reason s) \<longleftrightarrow>
      has_flag flags PAGE_TRACKER_FLUSH_COPY_BIT \<and>
      (has_flag flags PAGE_TRACKER_FLUSH_CACHE_BIT \<or> has_flag flags PAGE_TRACKER_FLUSH_FB_BIT \<or>
       has_flag flags PAGE_TRACKER_FLUSH_WRITE_BACK_BIT)"
    by (simp add: flush_phases_def)
qed

text \<open>
  With the copy bit alone the flush is the barrier; with the copy and cache bits it is the
  transfer flush followed by the cache upload.
\<close>

theorem flush_runs_phases_in_order_witness:
  "calls (flush PAGE_TRACKER_FLUSH_COPY_BIT CopyHazard (new_interface 4194304 0 0)) =
     [Transfer_overlap_barrier] \<and>
   calls (flush (PAGE_TRACKER_FLUSH_COPY_BIT OR PAGE_TRACKER_FLUSH_CACHE_BIT) TextureHazard
            (new_interface 4194304 0 0)) = [Flush_transfer, Flush_cache_upload]"
  using flush_runs_phases_in_order [of PAGE_TRACKER_FLUSH_COPY_BIT CopyHazard "new_interface 4194304 0 0"]
    flush_runs_phases_in_order [of "PAGE_TRACKER_FLUSH_COPY_BIT OR PAGE_TRACKER_FLUSH_CACHE_BIT"
      TextureHazard "new_interface 4194304 0 0"]
  by (simp add: flush_phases_def has_flag_def PAGE_TRACKER_FLUSH_COPY_BIT_def
      PAGE_TRACKER_FLUSH_CACHE_BIT_def PAGE_TRACKER_FLUSH_FB_BIT_def
      PAGE_TRACKER_FLUSH_WRITE_BACK_BIT_def PAGE_TRACKER_FLUSH_HOST_VRAM_SYNC_BIT_def
      new_interface_def)

subsection \<open>TEXFLUSH and the invalidation of cached textures\<close>

lemma packed_A_D_TEXFLUSH: "packed_A_D cfg (payload, set_field 0 8 RA_TEXFLUSH hi) s = s"
  by (simp add: packed_A_D_def get_field_set_field_ADDR RA_TEXFLUSH_def write_register_def
      a_d_TEXFLUSH_def)

lemma transfer_scan_append:
  "transfer_scan p (a @ b) = (case transfer_scan p a of None \<Rightarrow> None | Some q \<Rightarrow> transfer_scan q b)"
  by (induction a arbitrary: p) simp_all

lemma transfer_scan_plain: "plain a \<Longrightarrow> transfer_scan p a = Some p"
  by (induction a) (simp_all add: plain_def)

lemma follows_iff:
  "follows p s s' \<longleftrightarrow> (\<exists>n. calls s' = calls s @ n \<and> transfer_scan False n = Some p)"
  unfolding follows_def new_calls_def
  by (metis append_eq_conv_conj append_take_drop_id)

named_theorems itf

lemma follows_refl [itf]: "follows False s s"
  by (simp add: follows_iff)

lemma follows_trans:
  "follows False a b \<Longrightarrow> follows p b c \<Longrightarrow> follows p a c"
  unfolding follows_iff by (auto simp add: transfer_scan_append)

lemma follows_same: "follows p a s \<Longrightarrow> calls s' = calls s \<Longrightarrow> follows p a s'"
  by (simp add: follows_iff)

lemma follows_plain:
  "follows p a s \<Longrightarrow> calls s' = calls s @ n \<Longrightarrow> plain n \<Longrightarrow> follows p a s'"
  unfolding follows_iff by (auto simp add: transfer_scan_append transfer_scan_plain)

lemma follows_emit [itf]:
  "follows p a s \<Longrightarrow> \<not> is_invalidate c \<Longrightarrow> \<not> is_transfer_write c \<Longrightarrow> follows p a (emit c s)"
  by (rule follows_plain [where n = "[c]"]) (simp_all add: emit_def plain_def)

lemma plain_call [itf]:
  "\<not> is_invalidate (Flush_host_vram_copy x1)" "\<not> is_transfer_write (Flush_host_vram_copy x1)"
  "\<not> is_invalidate Flush_transfer" "\<not> is_transfer_write Flush_transfer"
  "\<not> is_invalidate Transfer_overlap_barrier" "\<not> is_transfer_write Transfer_overlap_barrier"
  "\<not> is_invalidate Flush_cache_upload" "\<not> is_transfer_write Flush_cache_upload"
  "\<not> is_invalidate (Flush_rendering x2)" "\<not> is_transfer_write (Flush_rendering x2)"
  "\<not> is_invalidate (Flush_readback x3)" "\<not> is_transfer_write (Flush_readback x3)"
  "\<not> is_invalidate (Update_palette_cache x4)" "\<not> is_transfer_write (Update_palette_cache x4)"
  "\<not> is_invalidate (Copy_vram x5)" "\<not> is_transfer_write (Copy_vram x5)"
  "\<not> is_invalidate (Mark_fb_write x6)" "\<not> is_transfer_write (Mark_fb_write x6)"
  "\<not> is_invalidate (Mark_fb_read x7)" "\<not> is_transfer_write (Mark_fb_read x7)"
  "\<not> is_invalidate (Mark_texture_read x8 y8)" "\<not> is_transfer_write (Mark_texture_read x8 y8)"
  "\<not> is_invalidate (Register_cached_clut_clobber x9 y9)"
  "\<not> is_transfer_write (Register_cached_clut_clobber x9 y9)"
  "\<not> is_invalidate (Mark_transfer_copy x10 y10)" "\<not> is_transfer_write (Mark_transfer_copy x10 y10)"
  "\<not> is_invalidate (Tracker_flush_render_pass x11)"
  "\<not> is_transfer_write (Tracker_flush_render_pass x11)"
  by (simp_all add: is_invalidate_def is_transfer_write_def)

lemma plain_flush_phases: "plain (flush_phases flags reason s)"
  by (simp add: plain_def flush_phases_def is_invalidate_def is_transfer_write_def)

lemma follows_flush [itf]: "follows p a s \<Longrightarrow> follows p a (flush flags reason s)"
  by (rule follows_plain [OF _ calls_flush plain_flush_phases])

lemma calls_mark_texture_state_dirty [simp]: "calls (mark_texture_state_dirty s) = calls s"
  by (simp add: mark_texture_state_dirty_def)

lemma follows_mark_texture_state_dirty [itf]:
  "follows p a s \<Longrightarrow> follows p a (mark_texture_state_dirty s)"
  by (rule follows_same) simp_all

lemma follows_run_callback [itf]: "follows p a s \<Longrightarrow> follows p a (run_callback cb s)"
  by (cases cb)
     (auto simp add: run_callback_def sync_host_vram_page_def sync_vram_host_page_def
        invalidate_texture_hash_def forget_in_render_pass_memoization_def
        intro: follows_flush follows_same split: option.splits)

lemma follows_run_callbacks [itf]: "follows p a s \<Longrightarrow> follows p a (run_callbacks cbs s)"
  unfolding run_callbacks_def
  by (induction cbs arbitrary: s) (simp_all add: follows_run_callback)

lemma follows_tracker_call [itf]:
  "follows p a s \<Longrightarrow> \<not> is_invalidate c \<Longrightarrow> \<not> is_transfer_write c \<Longrightarrow>
   follows p a (tracker_call cfg c s)"
  unfolding tracker_call_def by (intro follows_run_callbacks follows_emit)

lemma follows_mark_transfer_write:
  "follows False a s \<Longrightarrow> follows True a (tracker_call cfg (Mark_transfer_write r) s)"
  unfolding tracker_call_def
  by (rule follows_run_callbacks)
     (auto simp add: follows_iff emit_def transfer_scan_append is_transfer_write_def)

lemma follows_invalidate:
  "follows True a s \<Longrightarrow> follows False a (tracker_call cfg (Invalidate_texture_cache i) s)"
  unfolding tracker_call_def
  by (rule follows_run_callbacks)
     (auto simp add: follows_iff emit_def transfer_scan_append is_transfer_write_def is_invalidate_def)

lemma follows_tracker_flush_render_pass [itf]:
  "follows p a s \<Longrightarrow> follows p a (tracker_flush_render_pass reason s)"
  unfolding tracker_flush_render_pass_def
  by (intro follows_flush follows_emit plain_call)

lemma follows_upd [itf]:
  "follows p a s \<Longrightarrow> follows p a (registers_update f1 s)"
  "follows p a s \<Longrightarrow> follows p a (state_tracker_update f2 s)"
  "follows p a s \<Longrightarrow> follows p a (vertex_queue_update f3 s)"
  "follows p a s \<Longrightarrow> follows p a (render_pass_update f4 s)"
  "follows p a s \<Longrightarrow> follows p a (transfer_state_update f5 s)"
  "follows p a s \<Longrightarrow> follows p a (paths_update f6 s)"
  "follows p a s \<Longrightarrow> follows p a (optimized_draw_handler_update f7 s)"
  "follows p a s \<Longrightarrow> follows p a (draw_handler_update f8 s)"
  "follows p a s \<Longrightarrow> follows p a (sync_host_vram_pages_update f9 s)"
  "follows p a s \<Longrightarrow> follows p a (sync_vram_host_pages_update f10 s)"
  "follows p a s \<Longrightarrow> follows p a (page_buffer_update f11 s)"
  by (erule follows_same, simp)+

lemma follows_if [itf]:
  "(c \<Longrightarrow> follows p a x) \<Longrightarrow> (\<not> c \<Longrightarrow> follows p a y) \<Longrightarrow> follows p a (if c then x else y)"
  by simp

lemma follows_case_option [itf]:
  "(x = None \<Longrightarrow> follows p a u) \<Longrightarrow> (\<And>v. x = Some v \<Longrightarrow> follows p a (f v)) \<Longrightarrow>
   follows p a (case x of None \<Rightarrow> u | Some v \<Rightarrow> f v)"
  by (cases x) simp_all

lemma follows_snd_if [itf]:
  "(c \<Longrightarrow> follows p a (snd x)) \<Longrightarrow> (\<not> c \<Longrightarrow> follows p a (snd y)) \<Longrightarrow>
   follows p a (snd (if c then x else y))"
  by simp

lemma follows_snd_pair [itf]: "follows p a s \<Longrightarrow> follows p a (snd (u, s))"
  by simp

lemma follows_flush_pending_transfer [itf]:
  "follows False a s \<Longrightarrow> follows False a (flush_pending_transfer cfg keep_alive s)"
  unfolding flush_pending_transfer_def Let_def
  by (intro itf follows_invalidate follows_mark_transfer_write; assumption)

lemma follows_check_pending_transfer [itf]:
  "follows False a s \<Longrightarrow> follows False a (check_pending_transfer cfg s)"
  unfolding check_pending_transfer_def Let_def
  by (intro itf; assumption)

lemma follows_init_transfer [itf]:
  "follows False a s \<Longrightarrow> follows False a (init_transfer cfg s)"
  unfolding init_transfer_def Let_def
  by (intro itf; assumption)

lemma calls_set_dirty [simp]: "calls (set_dirty f s) = calls s"
  by (simp add: set_dirty_def)

lemma calls_get_and_clear [simp]: "calls (snd (get_and_clear_dirty_flag f s)) = calls s"
  by (simp add: get_and_clear_dirty_flag_def Let_def)

lemma calls_update_internal_register [simp]:
  "calls (update_internal_register rd wr v f s) = calls s"
  by (simp add: update_internal_register_def)

lemma calls_update_ctx_register [simp]: "calls (update_ctx_register i rd wr v f s) = calls s"
  by (simp add: update_ctx_register_def)

lemma calls_set_reg [simp]: "calls (set_reg f s) = calls s"
  by (simp add: set_reg_def)

lemma calls_vertex_kick [simp]:
  "calls (vertex_kick_xyz v s) = calls s" "calls (vertex_kick_xyzf v s) = calls s"
  by (simp_all add: vertex_kick_xyz_def vertex_kick_xyzf_def)

lemma calls_a_d_PRIM [simp]: "calls (a_d_PRIM v s) = calls s"
  by (simp add: a_d_PRIM_def Let_def write_prim_mode_def update_draw_handler_def
      reset_vertex_queue_def)

lemma calls_a_d_PRMODE [simp]: "calls (a_d_PRMODE v s) = calls s"
  by (simp add: a_d_PRMODE_def Let_def write_prim_mode_def)

lemma calls_handle_miptbl_gen [simp]: "calls (handle_miptbl_gen cfg i s) = calls s"
  by (simp add: handle_miptbl_gen_def Let_def)

lemma calls_draw_is_degenerate [simp]: "calls (snd (draw_is_degenerate s)) = calls s"
  by (simp add: draw_is_degenerate_def Let_def case_prod_beta)

lemma calls_update_state_vector [simp]: "calls (snd (drawing_kick_update_state_vector s)) = calls s"
  by (simp add: drawing_kick_update_state_vector_def find_or_place_unique_state_vector_def
      Let_def case_prod_beta split: option.splits)

lemma calls_drawing_kick_invalid [simp]: "calls (drawing_kick_invalid s) = calls s"
  by (simp add: drawing_kick_invalid_def)

lemma follows_snd [itf]:
  "follows p a s \<Longrightarrow> follows p a (snd (get_and_clear_dirty_flag f s))"
  "follows p a s \<Longrightarrow> follows p a (snd (draw_is_degenerate s))"
  "follows p a s \<Longrightarrow> follows p a (snd (drawing_kick_update_state_vector s))"
  "follows p a s \<Longrightarrow> follows p a (set_dirty f s)"
  "follows p a s \<Longrightarrow> follows p a (update_internal_register rd wr v f s)"
  "follows p a s \<Longrightarrow> follows p a (update_ctx_register i rd' wr' v f s)"
  "follows p a s \<Longrightarrow> follows p a (set_reg g s)"
  "follows p a s \<Longrightarrow> follows p a (vertex_kick_xyz v s)"
  "follows p a s \<Longrightarrow> follows p a (vertex_kick_xyzf v s)"
  "follows p a s \<Longrightarrow> follows p a (a_d_PRIM v s)"
  "follows p a s \<Longrightarrow> follows p a (a_d_PRMODE v s)"
  "follows p a s \<Longrightarrow> follows p a (handle_miptbl_gen cfg i s)"
  "follows p a s \<Longrightarrow> follows p a (drawing_kick_invalid s)"
  by (erule follows_same, simp)+

lemma follows_hooks [itf]:
  assumes "texturing_leaves_transfers cfg" and "follows False a s"
  shows "follows False a (textured_feedback_state cfg s)"
    and "follows False a (textured_page_rects_read cfg s)"
    and "follows False a (snd (textured_update_texture cfg m uvb bb s))"
proof -
  have h: "follows False s (textured_feedback_state cfg s)"
    "follows False s (textured_page_rects_read cfg s)"
    "follows False s (snd (textured_update_texture cfg m uvb bb s))"
    using assms(1)
    unfolding texturing_leaves_transfers_def invalidates_in_transfer_flushes_def by blast+
  show "follows False a (textured_feedback_state cfg s)"
    "follows False a (textured_page_rects_read cfg s)"
    "follows False a (snd (textured_update_texture cfg m uvb bb s))"
    using assms(2) h by (blast intro: follows_trans)+
qed

lemma follows_handle_clut_upload [itf]:
  "follows False a s \<Longrightarrow> follows False a (handle_clut_upload cfg i s)"
  unfolding handle_clut_upload_def Let_def
  by (intro itf; assumption)

lemma follows_a_d_TEX0 [itf]: "follows False a s \<Longrightarrow> follows False a (a_d_TEX0 cfg i v s)"
  unfolding a_d_TEX0_def by (intro itf; assumption)

lemma follows_a_d_TEX2 [itf]: "follows False a s \<Longrightarrow> follows False a (a_d_TEX2 cfg i v s)"
  unfolding a_d_TEX2_def Let_def by (rule follows_a_d_TEX0)

lemma follows_a_d_HWREG_multi [itf]:
  "follows False a s \<Longrightarrow> follows False a (a_d_HWREG_multi cfg v s)"
  unfolding a_d_HWREG_multi_def by (intro itf; assumption)

lemma follows_a_d_HWREG [itf]: "follows False a s \<Longrightarrow> follows False a (a_d_HWREG cfg v s)"
  unfolding a_d_HWREG_def by (rule follows_a_d_HWREG_multi)

lemma follows_update_color_feedback_state [itf]:
  "texturing_leaves_transfers cfg \<Longrightarrow> follows False a s \<Longrightarrow>
   follows False a (update_color_feedback_state cfg s)"
  unfolding update_color_feedback_state_def Let_def case_prod_beta
  by (intro itf; assumption)

lemma follows_check_frame_buffer_state [itf]:
  "follows False a s \<Longrightarrow> follows False a (check_frame_buffer_state cfg s)"
  unfolding check_frame_buffer_state_def Let_def case_prod_beta
  by (intro itf; assumption)

lemma follows_drawing_kick_update_state [itf]:
  "texturing_leaves_transfers cfg \<Longrightarrow> follows False a s \<Longrightarrow>
   follows False a (drawing_kick_update_state cfg fm uvb bb s)"
  unfolding drawing_kick_update_state_def Let_def case_prod_beta
  by (intro itf; assumption)

lemma follows_expand_render_pass [itf]:
  "follows False a s \<Longrightarrow> follows False a (expand_render_pass cfg bb s)"
  unfolding expand_render_pass_def Let_def
  by (intro itf; assumption)

lemma follows_append_primitive [itf]:
  "texturing_leaves_transfers cfg \<Longrightarrow> follows False a s \<Longrightarrow>
   follows False a (append_primitive cfg quad nv pos attr bb s)"
  unfolding append_primitive_def Let_def
  by (intro itf; assumption)

lemma follows_drawing_kick_append [itf]:
  "texturing_leaves_transfers cfg \<Longrightarrow> follows False a s \<Longrightarrow>
   follows False a (drawing_kick_append cfg quad nv s)"
  unfolding drawing_kick_append_def
  by (intro itf; assumption)

lemma follows_drawing_kick_primitive [itf]:
  "texturing_leaves_transfers cfg \<Longrightarrow> follows False a s \<Longrightarrow>
   follows False a (drawing_kick_primitive cfg l f quad nv adc s)"
  unfolding drawing_kick_primitive_def Let_def case_prod_beta
  by (intro itf; assumption)

lemma follows_post_draw_kick_handler [itf]:
  "follows False a s \<Longrightarrow> follows False a (post_draw_kick_handler cfg s)"
  unfolding post_draw_kick_handler_def Let_def
  by (intro itf; assumption)

lemma follows_run_draw_handler [itf]:
  "texturing_leaves_transfers cfg \<Longrightarrow> follows False a s \<Longrightarrow>
   follows False a (run_draw_handler cfg h adc s)"
  unfolding run_draw_handler_def
  by (cases h) (simp_all add: follows_drawing_kick_primitive follows_snd)

lemma follows_drawing_kick [itf]:
  "texturing_leaves_transfers cfg \<Longrightarrow> follows False a s \<Longrightarrow>
   follows False a (drawing_kick cfg adc s)"
  unfolding drawing_kick_def by (intro itf; assumption)

lemma follows_drawing_kick_PRIM [itf]:
  "texturing_leaves_transfers cfg \<Longrightarrow> follows False a s \<Longrightarrow>
   follows False a (drawing_kick_PRIM cfg P adc s)"
  unfolding drawing_kick_PRIM_def
  by (cases P) (simp_all add: follows_drawing_kick_primitive follows_post_draw_kick_handler)

lemma follows_a_d_XYZ [itf]:
  "texturing_leaves_transfers cfg \<Longrightarrow> follows False a s \<Longrightarrow> follows False a (a_d_XYZ2 cfg v s)"
  "texturing_leaves_transfers cfg \<Longrightarrow> follows False a s \<Longrightarrow> follows False a (a_d_XYZF2 cfg v s)"
  unfolding a_d_XYZ2_def a_d_XYZF2_def by (intro itf; assumption)+

lemma follows_write_register:
  "texturing_leaves_transfers cfg \<Longrightarrow> follows False a s \<Longrightarrow>
   follows False a (write_register cfg addr payload s)"
  unfolding write_register_def Let_def a_d_TEXFLUSH_def
  by (intro itf; assumption)

lemma follows_packed_regs [itf]:
  "follows p a s \<Longrightarrow> follows p a (packed_RGBAQ w s)"
  "follows p a s \<Longrightarrow> follows p a (packed_ST w s)"
  "follows p a s \<Longrightarrow> follows p a (packed_UV w s)"
  "follows p a s \<Longrightarrow> follows p a (packed_FOG w s)"
  "follows p a s \<Longrightarrow> follows p a (path_upd i f s)"
  "follows p a s \<Longrightarrow> follows p a (update_optimized_gif_handler i s)"
  by (erule follows_same,
      simp add: packed_RGBAQ_def packed_ST_def packed_UV_def packed_FOG_def path_upd_def
        update_optimized_gif_handler_def)+

lemma follows_packed_XYZ [itf]:
  "texturing_leaves_transfers cfg \<Longrightarrow> follows False a s \<Longrightarrow> follows False a (packed_XYZF cfg ADC w s)"
  "texturing_leaves_transfers cfg \<Longrightarrow> follows False a s \<Longrightarrow> follows False a (packed_XYZ cfg ADC w s)"
  "texturing_leaves_transfers cfg \<Longrightarrow> follows False a s \<Longrightarrow>
   follows False a (packed_XYZ_PRIM cfg ADC FOG PRIM w s)"
  unfolding packed_XYZF_def packed_XYZ_def packed_XYZ_PRIM_def
  by (intro itf; assumption)+

lemma follows_packed_A_D [itf]:
  "texturing_leaves_transfers cfg \<Longrightarrow> follows False a s \<Longrightarrow> follows False a (packed_A_D cfg w s)"
  unfolding packed_A_D_def by (rule follows_write_register)

lemma follows_packed_handler [itf]:
  "texturing_leaves_transfers cfg \<Longrightarrow> follows False a s \<Longrightarrow>
   follows False a (packed_handler cfg addr w s)"
  unfolding packed_handler_def by (intro itf follows_write_register; assumption)

lemma follows_reglist_handler [itf]:
  "texturing_leaves_transfers cfg \<Longrightarrow> follows False a s \<Longrightarrow>
   follows False a (reglist_handler cfg addr v s)"
  unfolding reglist_handler_def by (intro itf follows_write_register; assumption)

lemma follows_packed_vertices [itf]:
  "texturing_leaves_transfers cfg \<Longrightarrow> follows False a s \<Longrightarrow>
   follows False a (packed_STQRGBAXYZ cfg FOG PRIM ws s)"
  "texturing_leaves_transfers cfg \<Longrightarrow> follows False a s \<Longrightarrow>
   follows False a (packed_UVRGBAXYZ cfg FOG PRIM ws s)"
  "texturing_leaves_transfers cfg \<Longrightarrow> follows False a s \<Longrightarrow>
   follows False a (packed_STXYZSTRGBAXYZ_sprite cfg FOG ws s)"
  unfolding packed_STQRGBAXYZ_def packed_UVRGBAXYZ_def packed_STXYZSTRGBAXYZ_sprite_def
  by (intro itf; assumption)+

lemma follows_packed_ADONLY [itf]:
  "texturing_leaves_transfers cfg \<Longrightarrow> follows False a s \<Longrightarrow>
   follows False a (packed_ADONLY cfg ws s)"
  unfolding packed_ADONLY_def
  by (induction ws arbitrary: s) (simp_all add: follows_packed_A_D)

lemma follows_packed_groups:
  assumes body: "\<And>ws s. follows False a s \<Longrightarrow> follows False a (body ws s)"
  shows "follows False a s \<Longrightarrow> packed_groups stride body qs i n s = Inr s' \<Longrightarrow> follows False a s'"
proof (induction n arbitrary: i s)
  case 0
  then show ?case by simp
next
  case (Suc n)
  from Suc.prems(2) have le: "i + stride \<le> length qs"
    and r: "packed_groups stride body qs (i + stride) n (body (take stride (drop i qs)) s) = Inr s'"
    by (simp_all split: if_splits)
  from Suc.prems(1) have "follows False a (body (take stride (drop i qs)) s)" by (rule body)
  then show ?case using r by (rule Suc.IH)
qed

lemma follows_run_optimized_handler:
  assumes t: "texturing_leaves_transfers cfg" and f: "follows False a s"
      and r: "run_optimized_handler cfg h qs i n s = Inr s'"
  shows "follows False a s'"
proof (cases h)
  case (Packed_STQRGBAXYZ FOG PRIM factor)
  with r have "packed_groups 3 (packed_STQRGBAXYZ cfg FOG PRIM) qs i (n * factor) s = Inr s'"
    by (simp add: run_optimized_handler_def)
  with follows_packed_vertices(1) [OF t] f show ?thesis by (rule follows_packed_groups)
next
  case (Packed_UVRGBAXYZ FOG PRIM factor)
  with r have "packed_groups 3 (packed_UVRGBAXYZ cfg FOG PRIM) qs i (n * factor) s = Inr s'"
    by (simp add: run_optimized_handler_def)
  with follows_packed_vertices(2) [OF t] f show ?thesis by (rule follows_packed_groups)
next
  case (Packed_STXYZSTRGBAXYZ_sprite FOG)
  with r have "packed_groups 5 (packed_STXYZSTRGBAXYZ_sprite cfg FOG) qs i n s = Inr s'"
    by (simp add: run_optimized_handler_def)
  with follows_packed_vertices(3) [OF t] f show ?thesis by (rule follows_packed_groups)
next
  case (Packed_ADONLY count)
  with r have "packed_groups count (packed_ADONLY cfg) qs i n s = Inr s'"
    by (simp add: run_optimized_handler_def)
  with follows_packed_ADONLY [OF t] f show ?thesis by (rule follows_packed_groups)
qed

lemma follows_gif_new_tag [itf]: "follows p a s \<Longrightarrow> follows p a (gif_new_tag i t s)"
  unfolding gif_new_tag_def Let_def by (intro itf; assumption)

lemma follows_gif_packed [itf]:
  "texturing_leaves_transfers cfg \<Longrightarrow> follows False a s \<Longrightarrow>
   follows False a (gif_packed cfg i nreg w s)"
  unfolding gif_packed_def Let_def by (intro itf; assumption)

lemma follows_gif_reglist [itf]:
  "texturing_leaves_transfers cfg \<Longrightarrow> follows False a s \<Longrightarrow>
   follows False a (gif_reglist cfg i nreg w s)"
  unfolding gif_reglist_def gif_reglist_half_def Let_def by (intro itf; assumption)

lemma follows_gif_image [itf]:
  "follows False a s \<Longrightarrow> follows False a (snd (gif_image cfg i qs j s))"
  unfolding gif_image_def Let_def snd_conv by (intro itf; assumption)

lemma follows_gif_step:
  assumes t: "texturing_leaves_transfers cfg" and f: "follows False a s"
      and r: "gif_step cfg opt pi qs nreg i s = Inr x"
  shows "follows False a (snd (snd x))"
proof -
  let ?path = "paths s ! pi"
  consider (tag) "loop ?path = tag_NLOOP (tag ?path)"
    | (fast) "loop ?path \<noteq> tag_NLOOP (tag ?path)" "reg ?path = 0 \<and> opt \<and> optimized_draw_handler s ! pi \<noteq> None"
    | (packed) "loop ?path \<noteq> tag_NLOOP (tag ?path)" "\<not> (reg ?path = 0 \<and> opt \<and> optimized_draw_handler s ! pi \<noteq> None)"
        "tag_FLG (tag ?path) = PACKED"
    | (reglist) "loop ?path \<noteq> tag_NLOOP (tag ?path)" "\<not> (reg ?path = 0 \<and> opt \<and> optimized_draw_handler s ! pi \<noteq> None)"
        "tag_FLG (tag ?path) \<noteq> PACKED" "tag_FLG (tag ?path) = REGLIST"
    | (image) "loop ?path \<noteq> tag_NLOOP (tag ?path)" "\<not> (reg ?path = 0 \<and> opt \<and> optimized_draw_handler s ! pi \<noteq> None)"
        "tag_FLG (tag ?path) \<noteq> PACKED" "tag_FLG (tag ?path) \<noteq> REGLIST"
    by blast
  then show ?thesis
  proof cases
    case tag
    with r have "snd (snd x) = gif_new_tag pi (qs ! i) s"
      by (auto simp add: gif_step_def Let_def)
    then show ?thesis using f by (simp add: follows_gif_new_tag)
  next
    case fast
    let ?n = "min ((length qs div nreg) mod 2 ^ 32) (loops_left ?path)"
    from r fast obtain s1 where
      h: "run_optimized_handler cfg (the (optimized_draw_handler s ! pi)) qs i ?n s = Inr s1"
      and x: "snd (snd x) = path_upd pi (\<lambda>p. p\<lparr>loop := loop p + ?n\<rparr>) s1"
      by (auto simp add: gif_step_def Let_def split: sum.splits)
    from t f h have "follows False a s1" by (rule follows_run_optimized_handler)
    then show ?thesis unfolding x by (rule follows_packed_regs(5))
  next
    case packed
    with r have "snd (snd x) = gif_packed cfg pi nreg (qs ! i) s"
      by (auto simp add: gif_step_def Let_def)
    then show ?thesis using t f by (simp add: follows_gif_packed)
  next
    case reglist
    with r have "snd (snd x) = gif_reglist cfg pi nreg (qs ! i) s"
      by (auto simp add: gif_step_def Let_def)
    then show ?thesis using t f by (simp add: follows_gif_reglist)
  next
    case image
    with r have "snd (snd x) = snd (gif_image cfg pi qs i s)"
      by (auto simp add: gif_step_def Let_def split: prod.splits)
    then show ?thesis using f by (simp add: follows_gif_image)
  qed
qed

lemma follows_gif_loop_aux:
  assumes "gif_loop cfg opt pi qs nreg i s = Some y"
  shows "texturing_leaves_transfers cfg \<longrightarrow>
         (\<forall>s'. y = Inr s' \<longrightarrow> follows False a s \<longrightarrow> follows False a s')"
proof (induction cfg opt pi qs nreg i s y rule: gif_loop.raw_induct)
  case (1 rec cfg opt pi qs nreg i s y)
  show ?case
  proof (intro allI impI)
    fix s'
    assume t: "texturing_leaves_transfers cfg" and y: "y = Inr s'" and f: "follows False a s"
    show "follows False a s'"
    proof (cases "i < length qs")
      case False
      with 1(2) y have "s' = s" by simp
      then show ?thesis using f by simp
    next
      case True
      show ?thesis
      proof (cases "gif_step cfg opt pi qs nreg i s")
        case (Inl e)
        with 1(2) True y show ?thesis by simp
      next
        case (Inr x)
        with 1(2) True have l: "rec cfg opt pi qs (fst x) (fst (snd x)) (snd (snd x)) = Some y"
          by simp
        from t f Inr have "follows False a (snd (snd x))" by (rule follows_gif_step)
        with 1(1) [OF l] t y show ?thesis by blast
      qed
    qed
  qed
qed (rule assms)

lemma follows_gif_loop:
  assumes "texturing_leaves_transfers cfg"
      and "gif_loop cfg opt pi qs nreg i s = Some (Inr s')"
      and "follows False a s"
  shows "follows False a s'"
  using follows_gif_loop_aux [OF assms(2)] assms(1,3) by blast

lemma follows_gif_transfer:
  assumes "texturing_leaves_transfers cfg"
      and "gif_transfer cfg path_index qs s = Some (Inr s')"
  shows "follows False s s'"
proof (cases "qs = []")
  case True
  with assms(2) show ?thesis
    by (simp add: gif_transfer_def gif_transfer_with_def follows_refl)
next
  case False
  with assms(2) have
    "gif_loop cfg True path_index qs (effective_nreg (tag (paths s ! path_index))) 0 s = Some (Inr s')"
    by (simp add: gif_transfer_def gif_transfer_with_def)
  from follows_gif_loop [OF assms(1) this follows_refl] show ?thesis .
qed

lemma texturing_test_config: "texturing_leaves_transfers invalidating_config"
  by (simp add: texturing_leaves_transfers_def invalidates_in_transfer_flushes_def
      invalidating_config_def test_config_def follows_refl)

lemma transfer_ready_eq:
  "transfer_ready =
     (new_interface 4194304 0 0)
       \<lparr>registers := zero_registers\<lparr>trxreg := 0x100000002\<rparr>,
        transfer_state := (transfer_state (new_interface 4194304 0 0))
          \<lparr>host_to_local_active := True, required_qwords := 1,
           copy := (copy (transfer_state (new_interface 4194304 0 0)))\<lparr>copy_trxreg := 0x100000002\<rparr>\<rparr>\<rparr>"
  by (simp add: transfer_ready_def write_register_def set_reg_def init_transfer_def
      flush_pending_transfer_def Let_def new_interface_def invalidating_config_def
      test_config_def TRXDIR_XDIR_def TRXREG_RRW_def TRXREG_RRH_def BITBLTBUF_DPSM_def
      get_field_def HOST_TO_LOCAL_def LOCAL_TO_LOCAL_def zero_registers_def)

lemma gif_packed_TEXFLUSH:
  "reg_addr (paths s ! path_index) = GIF_A_D \<Longrightarrow>
   gif_packed cfg path_index nreg (payload, set_field 0 8 RA_TEXFLUSH hi) s =
     path_upd path_index (end_of_loop nreg) (path_upd path_index (\<lambda>p. p\<lparr>reg := reg p + 1\<rparr>) s)"
  by (simp add: gif_packed_def Let_def packed_A_D_TEXFLUSH)


lemma transfer_ready_HWREG:
  "write_register invalidating_config 0x54 7 transfer_ready =
     transfer_ready
       \<lparr>state_tracker := (state_tracker transfer_ready)
          \<lparr>last_texture_index := - 1,
           dirty_flags := dirty_flags (state_tracker transfer_ready) OR
                          (STATE_DIRTY_PRIM_TEMPLATE_BIT OR STATE_DIRTY_TEX_BIT)\<rparr>,
        transfer_state := (transfer_state transfer_ready)
          \<lparr>host_to_local_payload := [], last_flushed_qwords := 0, host_to_local_active := False,
           copy := (copy (transfer_state transfer_ready))
             \<lparr>host_data := [7], host_data_size := 8, host_data_size_offset := 0,
              host_data_size_required := 8\<rparr>\<rparr>,
        calls := [Mark_transfer_write (transfer_dst_rect (copy (transfer_state transfer_ready))),
                  Invalidate_texture_cache 0,
                  Copy_vram ((copy (transfer_state transfer_ready))
                     \<lparr>host_data := [7], host_data_size := 8, host_data_size_offset := 0,
                      host_data_size_required := 8\<rparr>)]\<rparr>"
  unfolding transfer_ready_eq
  by (simp add: write_register_def a_d_HWREG_def a_d_HWREG_multi_def check_pending_transfer_def
      flush_pending_transfer_def Let_def tracker_call_def run_callbacks_def emit_def
      mark_texture_state_dirty_def invalidating_config_def test_config_def new_interface_def
      empty_render_pass_def)


subsection \<open>Coarse tile size\<close>

lemma unat_binning_cost:
  assumes "x \<le> z" "y \<le> w"
  shows "unat (binning_cost (x, y, z, w) n) = tile_cost (x, y, z, w) n mod 2 ^ 32"
proof -
  have a: "0 \<le> (z - x) div 8 + 1" using assms by simp
  have b: "0 \<le> (w - y) div 8 + 1" using assms by simp
  have "binning_cost (x, y, z, w) n =
        (word_of_nat (nat ((z - x) div 8 + 1) * nat ((w - y) div 8 + 1) * n) :: u32)"
    using a b by (simp add: binning_cost_def FB_SWIZZLE_WIDTH_LOG2_def FB_SWIZZLE_HEIGHT_LOG2_def Let_def)
  then have "unat (binning_cost (x, y, z, w) n) =
        unat (word_of_nat (nat ((z - x) div 8 + 1) * nat ((w - y) div 8 + 1) * n) :: u32)"
    by (rule arg_cong)
  also have "\<dots> = (nat ((z - x) div 8 + 1) * nat ((w - y) div 8 + 1) * n) mod 2 ^ 32"
    by (simp only: unat_of_nat) simp
  finally show ?thesis by (simp add: tile_cost_def)
qed

lemma choose_coarse_tile_size_log2_spec:
  assumes "x \<le> z" "y \<le> w"
  shows "choose_coarse_tile_size_log2 (x, y, z, w) n ss =
         spec_tile_log2 (tile_cost (x, y, z, w) n mod 2 ^ 32) ss"
proof -
  let ?c = "binning_cost (x, y, z, w) n"
  have u: "unat ?c = tile_cost (x, y, z, w) n mod 2 ^ 32" using assms by (rule unat_binning_cost)
  have 1: "?c < 10 * 1000 \<longleftrightarrow> unat ?c < 10 ^ 4" by (simp add: word_less_nat_alt)
  have 2: "?c < 10 * 1000 * 1000 \<longleftrightarrow> unat ?c < 10 ^ 7" by (simp add: word_less_nat_alt)
  have 3: "?c < 100 * 1000 * 1000 \<longleftrightarrow> unat ?c < 10 ^ 8" by (simp add: word_less_nat_alt)
  show ?thesis
    unfolding choose_coarse_tile_size_log2_def spec_tile_log2_def Let_def 1 2 3 u ..
qed


lemma choose_coarse_tile_size_log2_exact:
  assumes "x \<le> z" "y \<le> w" "tile_cost (x, y, z, w) n < 2 ^ 32"
  shows "choose_coarse_tile_size_log2 (x, y, z, w) n ss = spec_tile_log2 (tile_cost (x, y, z, w) n) ss"
  using choose_coarse_tile_size_log2_spec [OF assms(1,2), of n ss] assms(3) by simp

lemma boxes_hull_snoc: "boxes_hull (bs @ [b]) = union_box b (boxes_hull bs)"
  by (simp add: boxes_hull_def)

lemma union_box_empty: "box_bounded b \<Longrightarrow> union_box b empty_box = b"
  by (cases b)
     (simp add: union_box_def empty_box_def box_bounded_def bb_x_def bb_y_def bb_z_def bb_w_def
        INT32_MAX_def INT32_MIN_def)

lemma union_box_bounded: "box_bounded b \<Longrightarrow> box_bounded r \<Longrightarrow> box_bounded (union_box b r)"
  by (simp add: union_box_def box_bounded_def bb_x_def bb_y_def bb_z_def bb_w_def min_def max_def)

lemma boxes_hull_bounded:
  "list_all box_bounded bs \<Longrightarrow> bs \<noteq> [] \<Longrightarrow> box_bounded (boxes_hull bs)"
proof (induction bs rule: rev_induct)
  case Nil
  then show ?case by simp
next
  case (snoc b bs)
  show ?case
  proof (cases "bs = []")
    case True
    with snoc.prems show ?thesis by (simp add: boxes_hull_def union_box_empty)
  next
    case False
    with snoc show ?thesis by (simp add: boxes_hull_snoc union_box_bounded)
  qed
qed

lemma tile_cost_bounded:
  assumes "box_bounded (x, y, z, w)" and "n < 65536"
  shows "tile_cost (x, y, z, w) n < 2 ^ 32"
proof -
  have a: "nat ((z - x) div 8 + 1) \<le> 256" and b: "nat ((w - y) div 8 + 1) \<le> 256"
    using assms(1) by (auto simp add: box_bounded_def bb_x_def bb_y_def bb_z_def bb_w_def)
  have ab: "nat ((z - x) div 8 + 1) * nat ((w - y) div 8 + 1) \<le> 256 * 256"
    using a b by (rule mult_le_mono)
  have n: "n \<le> 65535" using assms(2) by simp
  have "nat ((z - x) div 8 + 1) * nat ((w - y) div 8 + 1) * n \<le> (256 * 256) * 65535"
    using ab n by (rule mult_le_mono)
  then show ?thesis by (simp add: tile_cost_def)
qed

lemma make_render_pass_rule:
  assumes "accumulator_ok n s" and "n \<le> 65536" and "primitive_count (render_pass s) \<noteq> 0"
  shows "tile_rule (make_render_pass reason s)"
proof -
  let ?rp = "render_pass s"
  obtain x y z w where bb: "rp_bb ?rp = (x, y, z, w)" by (cases "rp_bb ?rp") auto
  from assms(1,3) have ne: "map pa_bb (rp_prim ?rp) \<noteq> []"
    by (auto simp add: accumulator_ok_def Let_def)
  from assms(1) have h: "rp_bb ?rp = boxes_hull (map pa_bb (rp_prim ?rp))"
    and all: "list_all box_bounded (map pa_bb (rp_prim ?rp))"
    and c: "primitive_count ?rp < 65536"
    using assms(2) by (simp_all add: accumulator_ok_def Let_def)
  from all ne have "box_bounded (boxes_hull (map pa_bb (rp_prim ?rp)))" by (rule boxes_hull_bounded)
  with h bb have bd: "box_bounded (x, y, z, w)" by simp
  then have le: "x \<le> z" "y \<le> w" by (simp_all add: box_bounded_def bb_x_def bb_y_def bb_z_def bb_w_def)
  from bd c have "tile_cost (x, y, z, w) (primitive_count ?rp) < 2 ^ 32" by (rule tile_cost_bounded)
  with le have "choose_coarse_tile_size_log2 (x, y, z, w) (primitive_count ?rp) (sampling_rate_y_log2 s) =
        spec_tile_log2 (tile_cost (x, y, z, w) (primitive_count ?rp)) (sampling_rate_y_log2 s)"
    by (rule choose_coarse_tile_size_log2_exact)
  then show ?thesis
    using assms(3) bb h
    by (simp add: tile_rule_def pass_cost_def make_render_pass_def Let_def)
qed

lemma passes_of_append [simp]: "passes_of (a @ b) = passes_of a @ passes_of b"
  by (simp add: passes_of_def)

lemma passes_of_Nil [simp]: "passes_of [] = []"
  by (simp add: passes_of_def)

lemma passes_of_no_pass [simp]: "no_pass c \<Longrightarrow> passes_of [c] = []"
  by (cases c) (simp_all add: passes_of_def no_pass_def)

lemma passes_of_pass [simp]: "passes_of [Flush_rendering rp] = [rp]"
  by (simp add: passes_of_def)

lemma flushes_by_rule_iff:
  "flushes_by_rule s s' \<longleftrightarrow> (\<exists>n. calls s' = calls s @ n \<and> list_all tile_rule (passes_of n))"
  unfolding flushes_by_rule_def new_calls_def
  by (metis append_eq_conv_conj append_take_drop_id)

lemma flushes_by_rule_refl: "flushes_by_rule s s"
  by (simp add: flushes_by_rule_iff)

lemma flushes_by_rule_same: "flushes_by_rule a s \<Longrightarrow> calls s' = calls s \<Longrightarrow> flushes_by_rule a s'"
  by (simp add: flushes_by_rule_iff)

lemma flushes_by_rule_emit:
  "flushes_by_rule a s \<Longrightarrow> calls s' = calls s @ [c] \<Longrightarrow> list_all tile_rule (passes_of [c]) \<Longrightarrow>
   flushes_by_rule a s'"
  by (auto simp add: flushes_by_rule_iff)

named_theorems kr

lemma keeps_same:
  "keeps_rule n a s \<Longrightarrow> calls s' = calls s \<Longrightarrow>
   primitive_count (render_pass s') = primitive_count (render_pass s) \<Longrightarrow>
   rp_prim (render_pass s') = rp_prim (render_pass s) \<Longrightarrow>
   rp_bb (render_pass s') = rp_bb (render_pass s) \<Longrightarrow> keeps_rule n a s'"
  by (auto simp add: keeps_rule_def accumulator_ok_def Let_def intro: flushes_by_rule_same)

lemma pending_same:
  "pending_box n bb a s \<Longrightarrow> calls s' = calls s \<Longrightarrow>
   primitive_count (render_pass s') = primitive_count (render_pass s) \<Longrightarrow>
   rp_prim (render_pass s') = rp_prim (render_pass s) \<Longrightarrow>
   rp_bb (render_pass s') = rp_bb (render_pass s) \<Longrightarrow> pending_box n bb a s'"
  by (auto simp add: pending_box_def Let_def intro: flushes_by_rule_same)

lemma keeps_upd [kr]:
  "keeps_rule n a s \<Longrightarrow> keeps_rule n a (registers_update f1 s)"
  "keeps_rule n a s \<Longrightarrow> keeps_rule n a (state_tracker_update f2 s)"
  "keeps_rule n a s \<Longrightarrow> keeps_rule n a (vertex_queue_update f3 s)"
  "keeps_rule n a s \<Longrightarrow> keeps_rule n a (transfer_state_update f5 s)"
  "keeps_rule n a s \<Longrightarrow> keeps_rule n a (paths_update f6 s)"
  "keeps_rule n a s \<Longrightarrow> keeps_rule n a (optimized_draw_handler_update f7 s)"
  "keeps_rule n a s \<Longrightarrow> keeps_rule n a (draw_handler_update f8 s)"
  "keeps_rule n a s \<Longrightarrow> keeps_rule n a (sync_host_vram_pages_update f9 s)"
  "keeps_rule n a s \<Longrightarrow> keeps_rule n a (sync_vram_host_pages_update f10 s)"
  "keeps_rule n a s \<Longrightarrow> keeps_rule n a (page_buffer_update f11 s)"
  by (erule keeps_same, simp_all)+

lemma pending_upd:
  "pending_box n bb a s \<Longrightarrow> pending_box n bb a (state_tracker_update f2 s)"
  "pending_box n bb a s \<Longrightarrow> pending_box n bb a (sync_host_vram_pages_update f9 s)"
  "pending_box n bb a s \<Longrightarrow> pending_box n bb a (sync_vram_host_pages_update f10 s)"
  "pending_box n bb a s \<Longrightarrow> pending_box n bb a (page_buffer_update f11 s)"
  by (erule pending_same, simp_all)+

lemma keeps_render_pass_upd [kr]:
  "keeps_rule n a s \<Longrightarrow>
   primitive_count (f (render_pass s)) = primitive_count (render_pass s) \<Longrightarrow>
   rp_prim (f (render_pass s)) = rp_prim (render_pass s) \<Longrightarrow>
   rp_bb (f (render_pass s)) = rp_bb (render_pass s) \<Longrightarrow>
   keeps_rule n a (render_pass_update f s)"
  by (erule keeps_same) simp_all

lemma keeps_if [kr]:
  "(c \<Longrightarrow> keeps_rule n a x) \<Longrightarrow> (\<not> c \<Longrightarrow> keeps_rule n a y) \<Longrightarrow> keeps_rule n a (if c then x else y)"
  by simp

lemma keeps_case_option [kr]:
  "(x = None \<Longrightarrow> keeps_rule n a u) \<Longrightarrow> (\<And>v. x = Some v \<Longrightarrow> keeps_rule n a (f v)) \<Longrightarrow>
   keeps_rule n a (case x of None \<Rightarrow> u | Some v \<Rightarrow> f v)"
  by (cases x) simp_all

lemma keeps_snd_if [kr]:
  "(c \<Longrightarrow> keeps_rule n a (snd x)) \<Longrightarrow> (\<not> c \<Longrightarrow> keeps_rule n a (snd y)) \<Longrightarrow>
   keeps_rule n a (snd (if c then x else y))"
  by simp

lemma keeps_snd_pair [kr]: "keeps_rule n a s \<Longrightarrow> keeps_rule n a (snd (u, s))"
  by simp

lemma no_pass_call [kr]:
  "no_pass (Flush_host_vram_copy x1)" "no_pass Flush_transfer" "no_pass Transfer_overlap_barrier"
  "no_pass Flush_cache_upload" "no_pass (Flush_readback x3)" "no_pass (Update_palette_cache x4)"
  "no_pass (Copy_vram x5)" "no_pass (Mark_fb_write x6)" "no_pass (Mark_fb_read x7)"
  "no_pass (Mark_texture_read x8 y8)" "no_pass (Register_cached_clut_clobber x9 y9)"
  "no_pass (Mark_transfer_write x12)" "no_pass (Mark_transfer_copy x10 y10)"
  "no_pass (Invalidate_texture_cache x13)" "no_pass (Tracker_flush_render_pass x11)"
  by (simp_all add: no_pass_def)

lemma keeps_emit [kr]: "keeps_rule n a s \<Longrightarrow> no_pass c \<Longrightarrow> keeps_rule n a (emit c s)"
  by (auto simp add: keeps_rule_def accumulator_ok_def Let_def emit_def
      intro: flushes_by_rule_emit)

lemma pending_emit: "pending_box n bb a s \<Longrightarrow> no_pass c \<Longrightarrow> pending_box n bb a (emit c s)"
  by (auto simp add: pending_box_def Let_def emit_def intro: flushes_by_rule_emit)

lemma keeps_flush_render_pass [kr]:
  assumes "keeps_rule n a s"
  shows "keeps_rule n a (flush_render_pass reason s)"
proof -
  from assms have n: "n \<le> 65536" and f: "flushes_by_rule a s" and ok: "accumulator_ok n s"
    by (simp_all add: keeps_rule_def)
  from ok have pos: "0 < n" by (auto simp add: accumulator_ok_def Let_def)
  have acc: "accumulator_ok n (flush_render_pass reason s)"
    using pos by (simp add: accumulator_ok_def flush_render_pass_def Let_def emit_def
        boxes_hull_def empty_box_def)
  have fl: "flushes_by_rule a (flush_render_pass reason s)"
  proof (cases "primitive_count (render_pass s) = 0")
    case True
    then have "calls (flush_render_pass reason s) = calls s"
      by (simp add: flush_render_pass_def Let_def)
    with f show ?thesis by (rule flushes_by_rule_same)
  next
    case False
    then have c: "calls (flush_render_pass reason s) = calls s @ [Flush_rendering (make_render_pass reason s)]"
      by (simp add: flush_render_pass_def Let_def emit_def)
    from ok n False have "tile_rule (make_render_pass reason s)" by (rule make_render_pass_rule)
    then have "list_all tile_rule (passes_of [Flush_rendering (make_render_pass reason s)])" by simp
    with f c show ?thesis by (rule flushes_by_rule_emit)
  qed
  from n fl acc show ?thesis by (simp add: keeps_rule_def)
qed

lemma keeps_flush [kr]: "keeps_rule n a s \<Longrightarrow> keeps_rule n a (flush flags reason s)"
  unfolding flush_def Let_def flush_host_vram_sync_def flush_copy_def flush_cache_def
    flush_write_back_def
  by (intro kr; (assumption | simp add: emit_def))

lemma pending_if:
  "(c \<Longrightarrow> pending_box n bb a x) \<Longrightarrow> (\<not> c \<Longrightarrow> pending_box n bb a y) \<Longrightarrow>
   pending_box n bb a (if c then x else y)"
  by simp

lemma pending_render_pass_upd:
  "pending_box n bb a s \<Longrightarrow>
   primitive_count (f (render_pass s)) = primitive_count (render_pass s) \<Longrightarrow>
   rp_prim (f (render_pass s)) = rp_prim (render_pass s) \<Longrightarrow>
   rp_bb (f (render_pass s)) = rp_bb (render_pass s) \<Longrightarrow>
   pending_box n bb a (render_pass_update f s)"
  by (erule pending_same) simp_all

lemma pending_flush:
  "pending_box n bb a s \<Longrightarrow> flags AND PAGE_TRACKER_FLUSH_FB_BIT = 0 \<Longrightarrow>
   pending_box n bb a (flush flags reason s)"
  unfolding flush_def Let_def flush_host_vram_sync_def flush_copy_def flush_cache_def
    flush_write_back_def
  by (intro pending_if pending_upd pending_render_pass_upd pending_emit no_pass_call;
      (assumption | simp add: emit_def))

lemma keeps_simple [kr]:
  "keeps_rule n a s \<Longrightarrow> keeps_rule n a (mark_texture_state_dirty s)"
  "keeps_rule n a s \<Longrightarrow> keeps_rule n a (snd (get_and_clear_dirty_flag f s))"
  "keeps_rule n a s \<Longrightarrow> keeps_rule n a (snd (draw_is_degenerate s))"
  "keeps_rule n a s \<Longrightarrow> keeps_rule n a (set_dirty f s)"
  "keeps_rule n a s \<Longrightarrow> keeps_rule n a (update_internal_register rd wr v f s)"
  "keeps_rule n a s \<Longrightarrow> keeps_rule n a (update_ctx_register i rd' wr' v f s)"
  "keeps_rule n a s \<Longrightarrow> keeps_rule n a (set_reg g s)"
  "keeps_rule n a s \<Longrightarrow> keeps_rule n a (vertex_kick_xyz v s)"
  "keeps_rule n a s \<Longrightarrow> keeps_rule n a (vertex_kick_xyzf v s)"
  "keeps_rule n a s \<Longrightarrow> keeps_rule n a (a_d_PRIM v s)"
  "keeps_rule n a s \<Longrightarrow> keeps_rule n a (a_d_PRMODE v s)"
  "keeps_rule n a s \<Longrightarrow> keeps_rule n a (handle_miptbl_gen cfg i s)"
  "keeps_rule n a s \<Longrightarrow> keeps_rule n a (drawing_kick_invalid s)"
  "keeps_rule n a s \<Longrightarrow> keeps_rule n a (packed_RGBAQ w s)"
  "keeps_rule n a s \<Longrightarrow> keeps_rule n a (packed_ST w s)"
  "keeps_rule n a s \<Longrightarrow> keeps_rule n a (packed_UV w s)"
  "keeps_rule n a s \<Longrightarrow> keeps_rule n a (packed_FOG w s)"
  "keeps_rule n a s \<Longrightarrow> keeps_rule n a (path_upd j h s)"
  "keeps_rule n a s \<Longrightarrow> keeps_rule n a (update_optimized_gif_handler j s)"
  by (erule keeps_same;
      simp add: mark_texture_state_dirty_def get_and_clear_dirty_flag_def draw_is_degenerate_def
        set_dirty_def update_internal_register_def update_ctx_register_def set_reg_def
        vertex_kick_xyz_def vertex_kick_xyzf_def a_d_PRIM_def a_d_PRMODE_def write_prim_mode_def
        update_draw_handler_def reset_vertex_queue_def handle_miptbl_gen_def
        drawing_kick_invalid_def packed_RGBAQ_def packed_ST_def packed_UV_def packed_FOG_def
        path_upd_def update_optimized_gif_handler_def Let_def case_prod_beta)+

lemma keeps_update_state_vector [kr]:
  "keeps_rule n a s \<Longrightarrow> keeps_rule n a (snd (drawing_kick_update_state_vector s))"
  by (erule keeps_same;
      simp add: drawing_kick_update_state_vector_def find_or_place_unique_state_vector_def
        get_and_clear_dirty_flag_def Let_def case_prod_beta split: option.splits)

lemma keeps_run_callback [kr]: "keeps_rule n a s \<Longrightarrow> keeps_rule n a (run_callback cb s)"
  by (cases cb)
     (simp_all add: run_callback_def sync_host_vram_page_def sync_vram_host_page_def
        invalidate_texture_hash_def forget_in_render_pass_memoization_def
        keeps_flush keeps_upd keeps_simple keeps_render_pass_upd split: option.splits)

lemma keeps_run_callbacks [kr]: "keeps_rule n a s \<Longrightarrow> keeps_rule n a (run_callbacks cbs s)"
  unfolding run_callbacks_def
  by (induction cbs arbitrary: s) (simp_all add: keeps_run_callback)

lemma keeps_tracker_call [kr]:
  "keeps_rule n a s \<Longrightarrow> no_pass c \<Longrightarrow> keeps_rule n a (tracker_call cfg c s)"
  unfolding tracker_call_def by (intro keeps_run_callbacks keeps_emit)

lemma keeps_tracker_flush_render_pass [kr]:
  "keeps_rule n a s \<Longrightarrow> keeps_rule n a (tracker_flush_render_pass reason s)"
  unfolding tracker_flush_render_pass_def
  by (intro keeps_flush keeps_emit no_pass_call)

lemma keeps_flush_pending_transfer [kr]:
  "keeps_rule n a s \<Longrightarrow> keeps_rule n a (flush_pending_transfer cfg keep_alive s)"
  unfolding flush_pending_transfer_def Let_def
  by (intro kr; assumption)

lemma keeps_check_pending_transfer [kr]:
  "keeps_rule n a s \<Longrightarrow> keeps_rule n a (check_pending_transfer cfg s)"
  unfolding check_pending_transfer_def Let_def
  by (intro kr; assumption)

lemma keeps_init_transfer [kr]: "keeps_rule n a s \<Longrightarrow> keeps_rule n a (init_transfer cfg s)"
  unfolding init_transfer_def Let_def
  by (intro kr; assumption)

lemma keeps_handle_clut_upload [kr]:
  "keeps_rule n a s \<Longrightarrow> keeps_rule n a (handle_clut_upload cfg i s)"
  unfolding handle_clut_upload_def Let_def
  by (intro kr; (assumption | simp))

lemma keeps_a_d_TEX0 [kr]: "keeps_rule n a s \<Longrightarrow> keeps_rule n a (a_d_TEX0 cfg i v s)"
  unfolding a_d_TEX0_def by (intro kr; assumption)

lemma keeps_a_d_TEX2 [kr]: "keeps_rule n a s \<Longrightarrow> keeps_rule n a (a_d_TEX2 cfg i v s)"
  unfolding a_d_TEX2_def Let_def by (rule keeps_a_d_TEX0)

lemma keeps_a_d_HWREG_multi [kr]:
  "keeps_rule n a s \<Longrightarrow> keeps_rule n a (a_d_HWREG_multi cfg v s)"
  unfolding a_d_HWREG_multi_def by (intro kr; assumption)

lemma keeps_a_d_HWREG [kr]: "keeps_rule n a s \<Longrightarrow> keeps_rule n a (a_d_HWREG cfg v s)"
  unfolding a_d_HWREG_def by (rule keeps_a_d_HWREG_multi)

lemma keeps_hooks [kr]:
  assumes "texturing_keeps_accumulator cfg" and "keeps_rule n a s"
  shows "keeps_rule n a (textured_feedback_state cfg s)"
    and "keeps_rule n a (textured_page_rects_read cfg s)"
    and "keeps_rule n a (snd (textured_update_texture cfg m uvb bb s))"
  using assms unfolding texturing_keeps_accumulator_def by blast+

lemma keeps_update_color_feedback_state [kr]:
  "texturing_keeps_accumulator cfg \<Longrightarrow> keeps_rule n a s \<Longrightarrow>
   keeps_rule n a (update_color_feedback_state cfg s)"
  unfolding update_color_feedback_state_def Let_def case_prod_beta
  by (intro kr; (assumption | simp))

lemma bind_frame_buffer_acc [simp]:
  "primitive_count (bind_frame_buffer cfg c f z rp) = primitive_count rp"
  "rp_prim (bind_frame_buffer cfg c f z rp) = rp_prim rp"
  "rp_bb (bind_frame_buffer cfg c f z rp) = rp_bb rp"
  by (simp_all add: bind_frame_buffer_def Let_def)

lemma keeps_check_frame_buffer_state [kr]:
  "keeps_rule n a s \<Longrightarrow> keeps_rule n a (check_frame_buffer_state cfg s)"
  unfolding check_frame_buffer_state_def Let_def case_prod_beta
  by (intro kr; (assumption | simp))

lemma keeps_drawing_kick_update_state [kr]:
  "texturing_keeps_accumulator cfg \<Longrightarrow> keeps_rule n a s \<Longrightarrow>
   keeps_rule n a (drawing_kick_update_state cfg fm uvb bb s)"
  unfolding drawing_kick_update_state_def Let_def case_prod_beta
  by (intro kr; (assumption | simp))

lemma uint_get_field_11: "uint (get_field off 11 (r :: u64)) \<le> 2047"
proof -
  have "take_bit 11 (uint (drop_bit off r)) < 2 ^ 11" by (rule take_bit_int_less_exp)
  then show ?thesis by (simp add: get_field_def unsigned_take_bit_eq)
qed

lemma kick_bb_bounded:
  assumes "\<not> bb_empty (kick_bb quad nv s)"
  shows "box_bounded (kick_bb quad nv s)"
proof -
  let ?c = "cur_ctx s"
  let ?k = "kick_bb quad nv s"
  have x: "0 \<le> bb_x ?k"
    unfolding kick_bb_def primitive_bb_def Let_def bb_x_def fst_conv
    by (rule max.coboundedI2) simp
  have y: "0 \<le> bb_y ?k"
    unfolding kick_bb_def primitive_bb_def Let_def bb_y_def fst_conv snd_conv
    by (rule max.coboundedI2) simp
  have z: "bb_z ?k \<le> 2047"
    unfolding kick_bb_def primitive_bb_def Let_def bb_z_def fst_conv snd_conv SCISSOR_SCAX1_def
    by (rule min.coboundedI1, rule min.coboundedI2) (rule uint_get_field_11)
  have w: "bb_w ?k \<le> 2047"
    unfolding kick_bb_def primitive_bb_def Let_def bb_w_def fst_conv snd_conv SCISSOR_SCAY1_def
    by (rule min.coboundedI2) (rule uint_get_field_11)
  from assms have "bb_x ?k \<le> bb_z ?k" "bb_y ?k \<le> bb_w ?k"
    by (simp_all add: bb_empty_def)
  with x y z w show ?thesis by (simp add: box_bounded_def)
qed

lemma keeps_weaken: "keeps_rule n a s \<Longrightarrow> n < 65536 \<Longrightarrow> keeps_rule (Suc n) a s"
  by (simp add: keeps_rule_def accumulator_ok_def Let_def)

lemma pending_start:
  "keeps_rule n a s \<Longrightarrow> box_bounded bb \<Longrightarrow>
   calls s' = calls s \<Longrightarrow>
   primitive_count (render_pass s') = primitive_count (render_pass s) \<Longrightarrow>
   rp_prim (render_pass s') = rp_prim (render_pass s) \<Longrightarrow>
   rp_bb (render_pass s') = union_box bb (rp_bb (render_pass s)) \<Longrightarrow>
   pending_box n bb a s'"
  by (auto simp add: keeps_rule_def accumulator_ok_def pending_box_def Let_def
      intro: flushes_by_rule_same)

lemma pending_run_callback:
  "pending_box n bb a s \<Longrightarrow> \<not> flushes_pass cb \<Longrightarrow> pending_box n bb a (run_callback cb s)"
  by (cases cb)
     (simp_all add: run_callback_def sync_host_vram_page_def sync_vram_host_page_def
        invalidate_texture_hash_def forget_in_render_pass_memoization_def
        mark_texture_state_dirty_def flushes_pass_def
        pending_flush pending_upd pending_render_pass_upd split: option.splits)

lemma pending_run_callbacks:
  "pending_box n bb a s \<Longrightarrow> list_all (\<lambda>cb. \<not> flushes_pass cb) cbs \<Longrightarrow>
   pending_box n bb a (run_callbacks cbs s)"
  unfolding run_callbacks_def
  by (induction cbs arbitrary: s) (simp_all add: pending_run_callback)

lemma pending_fb_mark:
  assumes "fb_marks_keep_pass cfg" and "pending_box n bb a s"
  shows "pending_box n bb a (tracker_call cfg (Mark_fb_write r) s)"
    and "pending_box n bb a (tracker_call cfg (Mark_fb_read r) s)"
  unfolding tracker_call_def
  using assms
  by (auto intro!: pending_run_callbacks pending_emit no_pass_call simp add: fb_marks_keep_pass_def)

lemma pending_expand_render_pass:
  assumes "fb_marks_keep_pass cfg" and "keeps_rule n a s" and "box_bounded bb"
  shows "pending_box n bb a (expand_render_pass cfg bb s)"
proof -
  have u: "\<And>r. (min (bb_x bb) (bb_x r), min (bb_y bb) (bb_y r), max (bb_z bb) (bb_z r),
                max (bb_w bb) (bb_w r)) = union_box bb r"
    by (simp add: union_box_def)
  show ?thesis
    unfolding expand_render_pass_def Let_def u
    by (intro pending_if pending_fb_mark assms(1);
        (rule pending_start [OF assms(2,3)]; simp add: set_dirty_def))
qed

lemma keeps_append_primitive:
  assumes "texturing_keeps_accumulator cfg" and "fb_marks_keep_pass cfg"
      and "keeps_rule n a s" and "n < 65536" and "box_bounded bb"
  shows "keeps_rule (Suc n) a (append_primitive cfg quad nv pos attr bb s)"
proof -
  let ?s1 = "update_color_feedback_state cfg s"
  let ?fm = "(if is_color_feedback (render_pass ?s1) then textured_feedback_mode cfg pos attr bb ?s1
                else (FeedbackNone, (0, 0, 0, 0)))"
  let ?s2 = "(if PRIM_TME (prim (registers s)) \<noteq> 0 \<and> host_to_local_active (transfer_state ?s1) \<and>
                   length (host_to_local_payload (transfer_state ?s1)) >
                     last_flushed_qwords (transfer_state ?s1)
                then flush_pending_transfer cfg True ?s1 else ?s1)"
  let ?s3 = "check_frame_buffer_state cfg ?s2"
  let ?s4 = "(if PRIM_TME (prim (registers s)) \<noteq> 0 \<and> dirty_flags (state_tracker ?s3) AND STATE_DIRTY_TEX_BIT = 0
                then textured_page_rects_read cfg ?s3 else ?s3)"
  let ?s5 = "drawing_kick_update_state cfg (fst ?fm) (snd ?fm) bb ?s4"
  let ?s6 = "expand_render_pass cfg bb ?s5"
  have 5: "keeps_rule n a ?s5"
    by (intro kr assms(1,3); assumption)
  with assms(2) have 6: "pending_box n bb a ?s6"
    using assms(5) by (rule pending_expand_render_pass)
  then show ?thesis
    using assms(4)
    unfolding append_primitive_def Let_def
    by (auto simp add: pending_box_def keeps_rule_def accumulator_ok_def Let_def
        boxes_hull_snoc intro: flushes_by_rule_same)
qed

lemma keeps_strengthen:
  "keeps_rule (Suc m) a s \<Longrightarrow> primitive_count (render_pass s) < m \<Longrightarrow> keeps_rule m a s"
  by (simp add: keeps_rule_def accumulator_ok_def Let_def)

lemma keeps_positive: "keeps_rule n a s \<Longrightarrow> 0 < n"
  by (auto simp add: keeps_rule_def accumulator_ok_def Let_def)

lemma primitive_count_tracker_flush_render_pass:
  "primitive_count (render_pass (tracker_flush_render_pass reason s)) = 0"
  by (simp add: tracker_flush_render_pass_def flush_def Let_def PAGE_TRACKER_FLUSH_FB_ALL_def
      PAGE_TRACKER_FLUSH_HOST_VRAM_SYNC_BIT_def PAGE_TRACKER_FLUSH_CACHE_BIT_def
      PAGE_TRACKER_FLUSH_COPY_BIT_def PAGE_TRACKER_FLUSH_FB_BIT_def
      PAGE_TRACKER_FLUSH_WRITE_BACK_BIT_def flush_render_pass_def)

lemma keeps_drawing_kick_append:
  assumes "texturing_keeps_accumulator cfg" and "fb_marks_keep_pass cfg"
      and "keeps_rule n a s" and "n < 65536"
  shows "keeps_rule (Suc n) a (drawing_kick_append cfg quad nv s)"
proof (cases "bb_empty (kick_bb quad nv s)")
  case True
  with assms(3,4) show ?thesis by (simp add: drawing_kick_append_def keeps_weaken)
next
  case False
  then have "box_bounded (kick_bb quad nv s)" by (rule kick_bb_bounded)
  with assms have "keeps_rule (Suc n) a
      (append_primitive cfg quad nv (fst (kick_vertices nv s)) (snd (kick_vertices nv s)) (kick_bb quad nv s) s)"
    by (rule keeps_append_primitive)
  with False show ?thesis by (simp add: drawing_kick_append_def)
qed

lemma keeps_drawing_kick_primitive:
  assumes t: "texturing_keeps_accumulator cfg" and m: "fb_marks_keep_pass cfg"
      and k: "keeps_rule n a s" and n: "n < 65536"
  shows "keeps_rule (Suc n) a (drawing_kick_primitive cfg l f quad nv adc s)"
proof -
  have d: "keeps_rule n a (snd (draw_is_degenerate s))" using k by (rule keeps_simple)
  have 1: "keeps_rule (Suc n) a (drawing_kick_append cfg quad nv (snd (draw_is_degenerate s)))"
    using t m d n by (rule keeps_drawing_kick_append)
  have 2: "keeps_rule (Suc n) a (snd (draw_is_degenerate s))" using d n by (rule keeps_weaken)
  have 3: "keeps_rule (Suc n) a s" using k n by (rule keeps_weaken)
  show ?thesis
    unfolding drawing_kick_primitive_def Let_def case_prod_beta
    by (intro kr; (rule 1 2 3))
qed

lemma keeps_post_draw_kick_handler:
  assumes "keeps_rule (Suc (MaxPrimitivesPerFlush cfg)) a s" and "0 < MaxPrimitivesPerFlush cfg"
  shows "keeps_rule (MaxPrimitivesPerFlush cfg) a (post_draw_kick_handler cfg s)"
proof -
  let ?f = "tracker_flush_render_pass Overflow (flush_pending_transfer cfg True s)"
  have "keeps_rule (Suc (MaxPrimitivesPerFlush cfg)) a ?f"
    by (intro kr assms(1))
  then have f: "keeps_rule (MaxPrimitivesPerFlush cfg) a ?f"
    by (rule keeps_strengthen) (simp add: primitive_count_tracker_flush_render_pass assms(2))
  show ?thesis
    unfolding post_draw_kick_handler_def Let_def
    using f assms(1) by (auto intro: keeps_strengthen)
qed

lemma keeps_run_draw_handler:
  assumes "texturing_keeps_accumulator cfg" and "fb_marks_keep_pass cfg"
      and "keeps_rule n a s" and "n < 65536"
  shows "keeps_rule (Suc n) a (run_draw_handler cfg h adc s)"
proof (cases h)
  case (Drawing_kick_primitive l f q nv)
  then show ?thesis
    using keeps_drawing_kick_primitive [OF assms] by (simp add: run_draw_handler_def)
next
  case Drawing_kick_invalid
  then show ?thesis
    using keeps_weaken [OF keeps_simple(13) [OF assms(3)] assms(4)] by (simp add: run_draw_handler_def)
qed

lemma keeps_drawing_kick [kr]:
  assumes "pass_limits cfg" and "kept cfg a s"
  shows "kept cfg a (drawing_kick cfg adc s)"
  unfolding drawing_kick_def
  using assms
  by (intro keeps_post_draw_kick_handler keeps_run_draw_handler keeps_positive [of _ a s])
     (simp_all add: pass_limits_def)

lemma keeps_drawing_kick_PRIM [kr]:
  assumes "pass_limits cfg" and "kept cfg a s"
  shows "kept cfg a (drawing_kick_PRIM cfg P adc s)"
proof -
  have p: "0 < MaxPrimitivesPerFlush cfg" using assms(2) by (rule keeps_positive)
  have k: "\<And>l f q nv. keeps_rule (Suc (MaxPrimitivesPerFlush cfg)) a (drawing_kick_primitive cfg l f q nv adc s)"
    using assms by (intro keeps_drawing_kick_primitive) (simp_all add: pass_limits_def)
  have w: "keeps_rule (Suc (MaxPrimitivesPerFlush cfg)) a s"
    using assms by (intro keeps_weaken) (simp_all add: pass_limits_def)
  show ?thesis
    unfolding drawing_kick_PRIM_def
    by (cases P) (simp_all add: keeps_post_draw_kick_handler k w p)
qed

lemma keeps_a_d_XYZ [kr]:
  "pass_limits cfg \<Longrightarrow> kept cfg a s \<Longrightarrow> kept cfg a (a_d_XYZ2 cfg v s)"
  "pass_limits cfg \<Longrightarrow> kept cfg a s \<Longrightarrow> kept cfg a (a_d_XYZF2 cfg v s)"
  unfolding a_d_XYZ2_def a_d_XYZF2_def by (intro kr; assumption)+

lemma keeps_write_register:
  "pass_limits cfg \<Longrightarrow> kept cfg a s \<Longrightarrow> kept cfg a (write_register cfg addr payload s)"
  unfolding write_register_def Let_def a_d_TEXFLUSH_def
  by (intro kr; assumption)

lemma keeps_packed_XYZ [kr]:
  "pass_limits cfg \<Longrightarrow> kept cfg a s \<Longrightarrow> kept cfg a (packed_XYZF cfg ADC w s)"
  "pass_limits cfg \<Longrightarrow> kept cfg a s \<Longrightarrow> kept cfg a (packed_XYZ cfg ADC w s)"
  "pass_limits cfg \<Longrightarrow> kept cfg a s \<Longrightarrow> kept cfg a (packed_XYZ_PRIM cfg ADC FOG PRIM w s)"
  unfolding packed_XYZF_def packed_XYZ_def packed_XYZ_PRIM_def
  by (intro kr; assumption)+

lemma keeps_packed_A_D [kr]:
  "pass_limits cfg \<Longrightarrow> kept cfg a s \<Longrightarrow> kept cfg a (packed_A_D cfg w s)"
  unfolding packed_A_D_def by (rule keeps_write_register)

lemma keeps_packed_handler [kr]:
  "pass_limits cfg \<Longrightarrow> kept cfg a s \<Longrightarrow> kept cfg a (packed_handler cfg addr w s)"
  unfolding packed_handler_def by (intro kr keeps_write_register; assumption)

lemma keeps_reglist_handler [kr]:
  "pass_limits cfg \<Longrightarrow> kept cfg a s \<Longrightarrow> kept cfg a (reglist_handler cfg addr v s)"
  unfolding reglist_handler_def by (intro kr keeps_write_register; assumption)

lemma keeps_packed_vertices [kr]:
  "pass_limits cfg \<Longrightarrow> kept cfg a s \<Longrightarrow> kept cfg a (packed_STQRGBAXYZ cfg FOG PRIM ws s)"
  "pass_limits cfg \<Longrightarrow> kept cfg a s \<Longrightarrow> kept cfg a (packed_UVRGBAXYZ cfg FOG PRIM ws s)"
  "pass_limits cfg \<Longrightarrow> kept cfg a s \<Longrightarrow> kept cfg a (packed_STXYZSTRGBAXYZ_sprite cfg FOG ws s)"
  unfolding packed_STQRGBAXYZ_def packed_UVRGBAXYZ_def packed_STXYZSTRGBAXYZ_sprite_def
  by (intro kr; assumption)+

lemma keeps_packed_ADONLY [kr]:
  "pass_limits cfg \<Longrightarrow> kept cfg a s \<Longrightarrow> kept cfg a (packed_ADONLY cfg ws s)"
  unfolding packed_ADONLY_def
  by (induction ws arbitrary: s) (simp_all add: keeps_packed_A_D)

lemma keeps_packed_groups:
  assumes body: "\<And>ws s. keeps_rule n a s \<Longrightarrow> keeps_rule n a (body ws s)"
  shows "keeps_rule n a s \<Longrightarrow> packed_groups stride body qs i k s = Inr s' \<Longrightarrow> keeps_rule n a s'"
proof (induction k arbitrary: i s)
  case 0
  then show ?case by simp
next
  case (Suc k)
  from Suc.prems(2) have
    r: "packed_groups stride body qs (i + stride) k (body (take stride (drop i qs)) s) = Inr s'"
    by (simp split: if_splits)
  from Suc.prems(1) have "keeps_rule n a (body (take stride (drop i qs)) s)" by (rule body)
  then show ?case using r by (rule Suc.IH)
qed

lemma keeps_run_optimized_handler:
  assumes t: "pass_limits cfg" and f: "kept cfg a s"
      and r: "run_optimized_handler cfg h qs i k s = Inr s'"
  shows "kept cfg a s'"
proof (cases h)
  case (Packed_STQRGBAXYZ FOG PRIM factor)
  with r have "packed_groups 3 (packed_STQRGBAXYZ cfg FOG PRIM) qs i (k * factor) s = Inr s'"
    by (simp add: run_optimized_handler_def)
  with keeps_packed_vertices(1) [OF t] f show ?thesis by (rule keeps_packed_groups)
next
  case (Packed_UVRGBAXYZ FOG PRIM factor)
  with r have "packed_groups 3 (packed_UVRGBAXYZ cfg FOG PRIM) qs i (k * factor) s = Inr s'"
    by (simp add: run_optimized_handler_def)
  with keeps_packed_vertices(2) [OF t] f show ?thesis by (rule keeps_packed_groups)
next
  case (Packed_STXYZSTRGBAXYZ_sprite FOG)
  with r have "packed_groups 5 (packed_STXYZSTRGBAXYZ_sprite cfg FOG) qs i k s = Inr s'"
    by (simp add: run_optimized_handler_def)
  with keeps_packed_vertices(3) [OF t] f show ?thesis by (rule keeps_packed_groups)
next
  case (Packed_ADONLY count)
  with r have "packed_groups count (packed_ADONLY cfg) qs i k s = Inr s'"
    by (simp add: run_optimized_handler_def)
  with keeps_packed_ADONLY [OF t] f show ?thesis by (rule keeps_packed_groups)
qed

lemma keeps_gif_new_tag [kr]: "keeps_rule n a s \<Longrightarrow> keeps_rule n a (gif_new_tag i t s)"
  unfolding gif_new_tag_def Let_def by (intro kr; assumption)

lemma keeps_gif_packed [kr]:
  "pass_limits cfg \<Longrightarrow> kept cfg a s \<Longrightarrow> kept cfg a (gif_packed cfg i nreg w s)"
  unfolding gif_packed_def Let_def by (intro kr; assumption)

lemma keeps_gif_reglist [kr]:
  "pass_limits cfg \<Longrightarrow> kept cfg a s \<Longrightarrow> kept cfg a (gif_reglist cfg i nreg w s)"
  unfolding gif_reglist_def gif_reglist_half_def Let_def by (intro kr; assumption)

lemma keeps_gif_image [kr]:
  "keeps_rule n a s \<Longrightarrow> keeps_rule n a (snd (gif_image cfg i qs j s))"
  unfolding gif_image_def Let_def snd_conv by (intro kr; assumption)

lemma keeps_gif_step:
  assumes t: "pass_limits cfg" and f: "kept cfg a s"
      and r: "gif_step cfg opt pi qs nreg i s = Inr x"
  shows "kept cfg a (snd (snd x))"
proof -
  let ?path = "paths s ! pi"
  consider (tag) "loop ?path = tag_NLOOP (tag ?path)"
    | (fast) "loop ?path \<noteq> tag_NLOOP (tag ?path)" "reg ?path = 0 \<and> opt \<and> optimized_draw_handler s ! pi \<noteq> None"
    | (packed) "loop ?path \<noteq> tag_NLOOP (tag ?path)" "\<not> (reg ?path = 0 \<and> opt \<and> optimized_draw_handler s ! pi \<noteq> None)"
        "tag_FLG (tag ?path) = PACKED"
    | (reglist) "loop ?path \<noteq> tag_NLOOP (tag ?path)" "\<not> (reg ?path = 0 \<and> opt \<and> optimized_draw_handler s ! pi \<noteq> None)"
        "tag_FLG (tag ?path) \<noteq> PACKED" "tag_FLG (tag ?path) = REGLIST"
    | (image) "loop ?path \<noteq> tag_NLOOP (tag ?path)" "\<not> (reg ?path = 0 \<and> opt \<and> optimized_draw_handler s ! pi \<noteq> None)"
        "tag_FLG (tag ?path) \<noteq> PACKED" "tag_FLG (tag ?path) \<noteq> REGLIST"
    by blast
  then show ?thesis
  proof cases
    case tag
    with r have "snd (snd x) = gif_new_tag pi (qs ! i) s"
      by (auto simp add: gif_step_def Let_def)
    then show ?thesis using f by (simp add: keeps_gif_new_tag)
  next
    case fast
    let ?n = "min ((length qs div nreg) mod 2 ^ 32) (loops_left ?path)"
    from r fast obtain s1 where
      h: "run_optimized_handler cfg (the (optimized_draw_handler s ! pi)) qs i ?n s = Inr s1"
      and x: "snd (snd x) = path_upd pi (\<lambda>p. p\<lparr>loop := loop p + ?n\<rparr>) s1"
      by (auto simp add: gif_step_def Let_def split: sum.splits)
    from t f h have "kept cfg a s1" by (rule keeps_run_optimized_handler)
    then show ?thesis unfolding x by (rule keeps_simple)
  next
    case packed
    with r have "snd (snd x) = gif_packed cfg pi nreg (qs ! i) s"
      by (auto simp add: gif_step_def Let_def)
    then show ?thesis using t f by (simp add: keeps_gif_packed)
  next
    case reglist
    with r have "snd (snd x) = gif_reglist cfg pi nreg (qs ! i) s"
      by (auto simp add: gif_step_def Let_def)
    then show ?thesis using t f by (simp add: keeps_gif_reglist)
  next
    case image
    with r have "snd (snd x) = snd (gif_image cfg pi qs i s)"
      by (auto simp add: gif_step_def Let_def split: prod.splits)
    then show ?thesis using f by (simp add: keeps_gif_image)
  qed
qed

lemma keeps_gif_loop_aux:
  assumes "gif_loop cfg opt pi qs nreg i s = Some y"
  shows "pass_limits cfg \<longrightarrow> (\<forall>s'. y = Inr s' \<longrightarrow> kept cfg a s \<longrightarrow> kept cfg a s')"
proof (induction cfg opt pi qs nreg i s y rule: gif_loop.raw_induct)
  case (1 rec cfg opt pi qs nreg i s y)
  show ?case
  proof (intro allI impI)
    fix s'
    assume t: "pass_limits cfg" and y: "y = Inr s'" and f: "kept cfg a s"
    show "kept cfg a s'"
    proof (cases "i < length qs")
      case False
      with 1(2) y have "s' = s" by simp
      then show ?thesis using f by simp
    next
      case True
      show ?thesis
      proof (cases "gif_step cfg opt pi qs nreg i s")
        case (Inl e)
        with 1(2) True y show ?thesis by simp
      next
        case (Inr x)
        with 1(2) True have l: "rec cfg opt pi qs (fst x) (fst (snd x)) (snd (snd x)) = Some y"
          by simp
        from t f Inr have "kept cfg a (snd (snd x))" by (rule keeps_gif_step)
        with 1(1) [OF l] t y show ?thesis by blast
      qed
    qed
  qed
qed (rule assms)

lemma keeps_gif_transfer:
  assumes "pass_limits cfg" and "kept cfg a s"
      and "gif_transfer cfg path_index qs s = Some (Inr s')"
  shows "kept cfg a s'"
proof (cases "qs = []")
  case True
  with assms(2,3) show ?thesis
    by (simp add: gif_transfer_def gif_transfer_with_def)
next
  case False
  with assms(3) have
    "gif_loop cfg True path_index qs (effective_nreg (tag (paths s ! path_index))) 0 s = Some (Inr s')"
    by (simp add: gif_transfer_def gif_transfer_with_def)
  from keeps_gif_loop_aux [OF this] assms(1,2) show ?thesis by blast
qed

lemma kept_start:
  "accumulator_ok (MaxPrimitivesPerFlush cfg) s \<Longrightarrow> pass_limits cfg \<Longrightarrow> kept cfg s s"
  by (simp add: keeps_rule_def pass_limits_def flushes_by_rule_refl)

lemma accumulator_ok_new_interface:
  "0 < n \<Longrightarrow> accumulator_ok n (new_interface vram ss_x ss_y)"
  by (simp add: accumulator_ok_def new_interface_def empty_render_pass_def boxes_hull_def
      empty_box_def)

text \<open>
  C8.  Every render pass handed to the back-end has at least one primitive, and its coarse
  tile size is the one of the spec: 3, 4, 5 or 6 as the cost (tiles of 8 by 8 pixels of the
  bounding box of the pass, times the number of primitives) is below \<open>10\<^sup>4\<close>, \<open>10\<^sup>7\<close>,
  \<open>10\<^sup>8\<close> or not, less one under vertical super-sampling when above 3.  This holds of every
  pass flushed by a flush callback, by a register write and by a GIF transfer, from any
  state whose accumulator is as the operations leave it, and these leave it so again; the
  accumulator starts out so.  The code multiplies in 32 bits: the conditions of
  \<open>pass_limits\<close> keep the product below \<open>2\<^sup>3\<^sup>2\<close>.
\<close>

theorem coarse_tile_size_log2_of_pass:
  assumes "pass_limits cfg" and "accumulator_ok (MaxPrimitivesPerFlush cfg) s"
  shows "accumulator_ok (MaxPrimitivesPerFlush cfg) (new_interface vram ss_x ss_y) \<and>
         flushes_by_rule s (flush flags reason s) \<and>
         accumulator_ok (MaxPrimitivesPerFlush cfg) (flush flags reason s) \<and>
         flushes_by_rule s (write_register cfg addr v s) \<and>
         accumulator_ok (MaxPrimitivesPerFlush cfg) (write_register cfg addr v s) \<and>
         (\<forall>s'. gif_transfer cfg path_index qs s = Some (Inr s') \<longrightarrow>
               flushes_by_rule s s' \<and> accumulator_ok (MaxPrimitivesPerFlush cfg) s')"
proof -
  from assms(2,1) have k: "kept cfg s s" by (rule kept_start)
  then have p: "0 < MaxPrimitivesPerFlush cfg" by (rule keeps_positive)
  from k have f: "kept cfg s (flush flags reason s)" by (rule keeps_flush)
  from assms(1) k have w: "kept cfg s (write_register cfg addr v s)" by (rule keeps_write_register)
  have g: "kept cfg s s'" if "gif_transfer cfg path_index qs s = Some (Inr s')" for s'
    using assms(1) k that by (rule keeps_gif_transfer)
  show ?thesis
    using p f w g by (simp add: keeps_rule_def accumulator_ok_new_interface)
qed

subsection \<open>An untextured sprite\<close>

lemmas write_simps = write_register_def update_ctx_register_def update_internal_register_def
  set_dirty_def ctx_of_def ctx_upd_def set_reg_def
  D_FB_def D_TEX_def D_STATE_def D_PRIM_def D_FEEDBACK_def D_DEGENERATE_def
  STATE_DIRTY_FB_BIT_def STATE_DIRTY_TEX_BIT_def STATE_DIRTY_STATE_BIT_def
  STATE_DIRTY_PRIM_TEMPLATE_BIT_def STATE_DIRTY_FEEDBACK_BIT_def STATE_DIRTY_DEGENERATE_BIT_def
  STATE_DIRTY_ALL_BITS_def

lemma new_interface_sel [simp]:
  "registers (new_interface v sx sy) = zero_registers"
  "dirty_flags (state_tracker (new_interface v sx sy)) = STATE_DIRTY_ALL_BITS"
  "degenerate_draw (state_tracker (new_interface v sx sy)) = False"
  "vertex_queue (new_interface v sx sy) =
     \<lparr> vq_pos = [zero_pos, zero_pos, zero_pos], vq_attr = [zero_attr, zero_attr, zero_attr], vq_count = 0 \<rparr>"
  "render_pass (new_interface v sx sy) = empty_render_pass"
  "draw_handler (new_interface v sx sy) = Drawing_kick_invalid"
  "calls (new_interface v sx sy) = []"
  "sampling_rate_y_log2 (new_interface v sx sy) = sy"
  "host_to_local_active (transfer_state (new_interface v sx sy)) = False"
  by (simp_all add: new_interface_def)

lemma post_draw_kick_handler_below:
  "below_limits cfg (render_pass s) \<Longrightarrow> post_draw_kick_handler cfg s = s"
  by (auto simp add: post_draw_kick_handler_def below_limits_def Let_def)

lemma write_XYZ2: "write_register cfg RA_XYZ2 v s = drawing_kick cfg False (vertex_kick_xyz v s)"
  by (simp add: write_register_def RA_XYZ2_def a_d_XYZ2_def)

lemma push_vertex_at:
  "vq_count q < 3 \<Longrightarrow>
   push_vertex p a q = q\<lparr>vq_pos := (vq_pos q)[vq_count q := p], vq_attr := (vq_attr q)[vq_count q := a],
                         vq_count := vq_count q + 1\<rparr>"
  by (simp add: push_vertex_def shift_vertex_queue_def Let_def)

lemma first_vertex:
  assumes "draw_handler s = sprite_handler" "vq_count (vertex_queue s) = 0"
    "below_limits cfg (render_pass s)"
  shows "write_register cfg RA_XYZ2 v s = vertex_kick_xyz v s"
  using assms
  by (simp add: write_XYZ2 drawing_kick_def run_draw_handler_def sprite_handler_def
      vertex_kick_xyz_def drawing_kick_primitive_def push_vertex_at
      post_draw_kick_handler_below)

lemma sprite_regs_sel [simp]:
  "prim (sprite_registers sc) = 6" "ctx0 (sprite_registers sc) = zero_context\<lparr>scissor := sc, frame := 0xA0000, zbuf := 0x100000000\<rparr>"
  "st (sprite_registers sc) = 0" "rgbaq (sprite_registers sc) = 0" "uv (sprite_registers sc) = 0" "fog (sprite_registers sc) = 0"
  "fogcol (sprite_registers sc) = 0" "scanmsk (sprite_registers sc) = 0" "dthe (sprite_registers sc) = 0"
  "pabe (sprite_registers sc) = 0" "colclamp (sprite_registers sc) = 0" "dimx (sprite_registers sc) = 0"
  by (simp_all add: sprite_registers_def zero_registers_def)

lemma cur_ctx_sprite [simp]:
  "registers s = sprite_registers sc \<Longrightarrow>
   cur_ctx s = zero_context\<lparr>scissor := sc, frame := 0xA0000, zbuf := 0x100000000\<rparr>"
  by (simp add: cur_ctx_def ctx_of_def PRIM_CTXT_def get_field_def)

lemma latch_sprite: "latch_attributes (sprite_registers sc) 0 = zero_attr"
  by (simp add: latch_attributes_def zero_attr_def ST_S_def ST_T_def RGBAQ_Q_def UV_U_def UV_V_def get_field_def)

lemma vertex_kick_sprite:
  assumes "registers s = sprite_registers sc"
  shows "vertex_kick_xyz (xyz2 100 100) s =
         s\<lparr>vertex_queue := push_vertex (vertex_at 100 100) zero_attr (vertex_queue s)\<rparr>"
    and "vertex_kick_xyz (xyz2 500 500) s =
         s\<lparr>vertex_queue := push_vertex (vertex_at 500 500) zero_attr (vertex_queue s)\<rparr>"
  using assms
  by (simp_all add: vertex_kick_xyz_def xyz2_def vertex_at_def XYZ_X_def XYZ_Y_def XYZ_Z_def
      FOG_FOG_def get_field_def latch_sprite [unfolded FOG_FOG_def get_field_def, simplified] latch_sprite)

lemmas dirty_defs = STATE_DIRTY_FB_BIT_def STATE_DIRTY_TEX_BIT_def STATE_DIRTY_STATE_BIT_def
  STATE_DIRTY_PRIM_TEMPLATE_BIT_def STATE_DIRTY_FEEDBACK_BIT_def STATE_DIRTY_DEGENERATE_BIT_def
  STATE_DIRTY_ALL_BITS_def

lemmas sprite_field_defs = PRIM_TME_def PRIM_AA1_def PRIM_ABE_def PRIM_FGE_def PRIM_FST_def PRIM_IIP_def
  PRIM_FIX_def PRIM_CTXT_def FRAME_FBP_def FRAME_FBW_def FRAME_PSM_def FRAME_FBMSK_def ZBUF_ZBP_def
  ZBUF_PSM_def ZBUF_ZMSK_def TEST_ATE_def TEST_ATST_def TEST_AREF_def TEST_AFAIL_def TEST_DATE_def
  TEST_DATM_def TEST_ZTE_def TEST_ZTST_def SCISSOR_SCAX0_def SCISSOR_SCAX1_def SCISSOR_SCAY0_def
  SCISSOR_SCAY1_def XYOFFSET_OFX_def XYOFFSET_OFY_def ALPHA_A_def ALPHA_B_def ALPHA_C_def ALPHA_D_def
  ALPHA_FIX_def DTHE_DTHE_def PABE_PABE_def COLCLAMP_CLAMP_def FBA_FBA_def SCANMSK_MSK_def
  TEX0_TCC_def TEX0_TFX_def get_field_def zero_context_def scissor_640_448_def
  ZTE_ENABLED_def ZTE_UNDEFINED_def ZTST_NEVER_def ZTST_ALWAYS_def ZTST_GREATER_def ATST_NEVER_def
  ATST_ALWAYS_def AFAIL_KEEP_def BLEND_RGB_DEST_def BLEND_ALPHA_DEST_def MSK_SKIP_EVEN_def

lemma get_and_clear_clean:
  "dirty_flags (state_tracker s) = 0 \<Longrightarrow> get_and_clear_dirty_flag f s = (False, s)"
  by (simp add: get_and_clear_dirty_flag_def)

lemma update_color_feedback_state_clean:
  "dirty_flags (state_tracker s) = 0 \<Longrightarrow> \<not> is_color_feedback (render_pass s) \<Longrightarrow>
   update_color_feedback_state cfg s = s"
  by (simp add: update_color_feedback_state_def get_and_clear_clean)

lemma check_frame_buffer_state_clean:
  "dirty_flags (state_tracker s) = 0 \<Longrightarrow> check_frame_buffer_state cfg s = s"
  by (simp add: check_frame_buffer_state_def get_and_clear_clean)

lemma drawing_kick_update_state_clean:
  "dirty_flags (state_tracker s) = 0 \<Longrightarrow> drawing_kick_update_state cfg fm uvb bb s = s"
  by (simp add: drawing_kick_update_state_def get_and_clear_clean)

lemma sprite_ctx_fields:
  "registers s = sprite_registers sc \<Longrightarrow> state_is_z_sensitive s = False"
  "registers s = sprite_registers sc \<Longrightarrow> FRAME_FBMSK (frame (cur_ctx s)) = 0"
  "registers s = sprite_registers sc \<Longrightarrow> PRIM_TME (prim (registers s)) = 0"
  "registers s = sprite_registers sc \<Longrightarrow> ALPHA_FIX (alpha (cur_ctx s)) = 0"
  "registers s = sprite_registers sc \<Longrightarrow> TEST_AREF (test (cur_ctx s)) = 0"
  by (simp_all add: state_is_z_sensitive_def sprite_field_defs)

lemma expand_render_pass_clean:
  assumes "registers s = sprite_registers sc"
      and "rp_bb (render_pass s) = (a, b, c, d)"
      and "color_write_mask (render_pass s) = - 1"
  shows "expand_render_pass cfg (a, b, c, d) s = s"
  using assms
  by (simp add: expand_render_pass_def Let_def sprite_ctx_fields bb_x_def bb_y_def bb_z_def bb_w_def)

lemma append_clean:
  assumes "registers s = sprite_registers sc"
      and "dirty_flags (state_tracker s) = 0"
      and "\<not> is_color_feedback (render_pass s)"
      and "rp_bb (render_pass s) = (a, b, c, d)"
      and "color_write_mask (render_pass s) = - 1"
  shows "append_primitive cfg True 2 pos attr (a, b, c, d) s =
         s\<lparr>render_pass := (render_pass s)
              \<lparr>rp_prim := rp_prim (render_pass s) @
                  [sprite_attr (prim_template_tex (state_tracker s)) (prim_template_state (state_tracker s)) (a, b, c, d)],
               rp_positions := rp_positions (render_pass s) @ [pos],
               rp_attributes := rp_attributes (render_pass s) @ [attr],
               primitive_count := primitive_count (render_pass s) + 1\<rparr>\<rparr>"
proof -
  have 1: "update_color_feedback_state cfg s = s"
    using assms by (simp add: update_color_feedback_state_clean)
  have 3: "check_frame_buffer_state cfg s = s"
    using assms by (simp add: check_frame_buffer_state_clean)
  have 5: "\<And>fm uvb. drawing_kick_update_state cfg fm uvb (a, b, c, d) s = s"
    using assms by (simp add: drawing_kick_update_state_clean)
  have 6: "expand_render_pass cfg (a, b, c, d) s = s"
    using assms(1,4,5) by (rule expand_render_pass_clean)
  have st: "(state_tracker s)\<lparr>dirty_flags := 0\<rparr> = state_tracker s"
    using assms(2) by (cases "state_tracker s") simp
  show ?thesis
    unfolding append_primitive_def
    using assms(1,3)
    by (simp add: Let_def 1 3 5 6 st sprite_attr_def sprite_field_defs)
qed

lemma get_and_clear_set:
  "dirty_flags (state_tracker s) AND f \<noteq> 0 \<Longrightarrow>
   get_and_clear_dirty_flag f s =
     (True, s\<lparr>state_tracker := (state_tracker s)\<lparr>dirty_flags := dirty_flags (state_tracker s) AND NOT f\<rparr>\<rparr>)"
  by (simp add: get_and_clear_dirty_flag_def)

lemma update_color_feedback_state_start:
  assumes "registers s = sprite_registers sc"
      and "dirty_flags (state_tracker s) AND STATE_DIRTY_FEEDBACK_BIT \<noteq> 0"
  shows "update_color_feedback_state cfg s =
         s\<lparr>state_tracker := (state_tracker s)
              \<lparr>dirty_flags := dirty_flags (state_tracker s) AND NOT STATE_DIRTY_FEEDBACK_BIT\<rparr>,
           render_pass := (render_pass s)
              \<lparr>is_color_feedback := False, is_potential_color_feedback := False,
               is_potential_depth_feedback := False\<rparr>\<rparr>"
  using assms
  by (simp add: update_color_feedback_state_def get_and_clear_set Let_def PRIM_TME_def get_field_def)

lemma check_frame_buffer_state_start:
  assumes "dirty_flags (state_tracker s) AND STATE_DIRTY_FB_BIT \<noteq> 0"
      and "primitive_count (render_pass s) = 0"
  shows "check_frame_buffer_state cfg s =
         s\<lparr>state_tracker := (state_tracker s)
              \<lparr>dirty_flags := dirty_flags (state_tracker s) AND NOT STATE_DIRTY_FB_BIT\<rparr>,
           render_pass := bind_frame_buffer cfg (cur_ctx s)
              (get_field 0 32 (rp_frame (render_pass s)) \<noteq> get_field 0 32 (frame (cur_ctx s)))
              (ZBUF_PSM (rp_zbuf (render_pass s)) \<noteq> ZBUF_PSM (zbuf (cur_ctx s)) \<or>
               ZBUF_ZBP (rp_zbuf (render_pass s)) \<noteq> ZBUF_ZBP (zbuf (cur_ctx s)))
              (render_pass s)\<rparr>"
  using assms
  by (simp add: check_frame_buffer_state_def get_and_clear_set Let_def cur_ctx_def)

lemma make_state_vector_sprite:
  "registers s = sprite_registers sc \<Longrightarrow> make_state_vector (registers s) (cur_ctx s) = zero_state_vector"
  by (simp add: make_state_vector_def zero_state_vector_def Let_def sprite_field_defs)

lemma make_state_word_sprite:
  "registers s = sprite_registers sc \<Longrightarrow> \<not> is_color_feedback (render_pass s) \<Longrightarrow>
   make_state_word 0 s = sprite_state_word"
  by (simp add: make_state_word_def sprite_state_word_def zero_state_word_def Let_def sprite_field_defs
      has_z_test_def has_mask_def)

lemma drawing_kick_update_state_vector_start:
  assumes "registers s = sprite_registers sc"
      and "dirty_flags (state_tracker s) AND STATE_DIRTY_STATE_BIT \<noteq> 0"
      and "state_vectors (render_pass s) = []" "state_vector_map (render_pass s) = []"
  shows "drawing_kick_update_state_vector s =
         (0, s\<lparr>state_tracker := (state_tracker s)
                 \<lparr>dirty_flags := dirty_flags (state_tracker s) AND NOT STATE_DIRTY_STATE_BIT,
                  last_state_vector := zero_state_vector, last_state_index := 0\<rparr>,
               render_pass := (render_pass s)
                 \<lparr>state_vectors := [zero_state_vector], state_vector_map := [(zero_state_vector, 0)]\<rparr>\<rparr>)"
proof -
  have c: "cur_ctx (s\<lparr>state_tracker := (state_tracker s)
      \<lparr>dirty_flags := dirty_flags (state_tracker s) AND NOT STATE_DIRTY_STATE_BIT\<rparr>\<rparr>) = cur_ctx s"
    by (simp add: cur_ctx_def)
  have sv: "make_state_vector (registers s) (cur_ctx s) = zero_state_vector"
    using assms(1) by (rule make_state_vector_sprite)
  show ?thesis
    using assms(2-4)
    by (simp add: drawing_kick_update_state_vector_def get_and_clear_set c sv
        find_or_place_unique_state_vector_def Let_def)
qed

lemma drawing_kick_update_state_start:
  assumes "registers s = sprite_registers sc"
      and "dirty_flags (state_tracker s) AND STATE_DIRTY_PRIM_TEMPLATE_BIT \<noteq> 0"
      and "(dirty_flags (state_tracker s) AND NOT STATE_DIRTY_PRIM_TEMPLATE_BIT) AND STATE_DIRTY_STATE_BIT \<noteq> 0"
      and "state_vectors (render_pass s) = []" "state_vector_map (render_pass s) = []"
      and "\<not> is_color_feedback (render_pass s)"
  shows "drawing_kick_update_state cfg fm uvb bb s =
         s\<lparr>state_tracker := (state_tracker s)
              \<lparr>dirty_flags := (dirty_flags (state_tracker s) AND NOT STATE_DIRTY_PRIM_TEMPLATE_BIT)
                               AND NOT STATE_DIRTY_STATE_BIT,
               last_state_vector := zero_state_vector, last_state_index := 0,
               prim_template_tex := zero_tex_word, prim_template_state := sprite_state_word\<rparr>,
           render_pass := (render_pass s)
              \<lparr>state_vectors := [zero_state_vector], state_vector_map := [(zero_state_vector, 0)],
               has_aa1 := has_aa1 (render_pass s), has_scanmsk := has_scanmsk (render_pass s)\<rparr>\<rparr>"
proof -
  let ?s1 = "s\<lparr>state_tracker := (state_tracker s)
      \<lparr>dirty_flags := dirty_flags (state_tracker s) AND NOT STATE_DIRTY_PRIM_TEMPLATE_BIT\<rparr>\<rparr>"
  have a: "get_and_clear_dirty_flag STATE_DIRTY_PRIM_TEMPLATE_BIT s = (True, ?s1)"
    using assms(2) by (rule get_and_clear_set)
  have r1: "registers ?s1 = sprite_registers sc" using assms(1) by simp
  have b: "drawing_kick_update_state_vector ?s1 =
         (0, ?s1\<lparr>state_tracker := (state_tracker ?s1)
                 \<lparr>dirty_flags := dirty_flags (state_tracker ?s1) AND NOT STATE_DIRTY_STATE_BIT,
                  last_state_vector := zero_state_vector, last_state_index := 0\<rparr>,
               render_pass := (render_pass ?s1)
                 \<lparr>state_vectors := [zero_state_vector], state_vector_map := [(zero_state_vector, 0)]\<rparr>\<rparr>)"
    using r1 by (rule drawing_kick_update_state_vector_start) (use assms in simp_all)
  let ?s2 = "?s1\<lparr>state_tracker := (state_tracker ?s1)
                 \<lparr>dirty_flags := dirty_flags (state_tracker ?s1) AND NOT STATE_DIRTY_STATE_BIT,
                  last_state_vector := zero_state_vector, last_state_index := 0\<rparr>,
               render_pass := (render_pass ?s1)
                 \<lparr>state_vectors := [zero_state_vector], state_vector_map := [(zero_state_vector, 0)]\<rparr>\<rparr>"
  have w: "make_state_word 0 ?s2 = sprite_state_word"
    by (rule make_state_word_sprite) (use assms in simp_all)
  have t: "(PRIM_TME (prim (registers ?s1)) \<noteq> 0) = False" "(PRIM_AA1 (prim (registers ?s2)) \<noteq> 0) = False"
    "has_mask (scanmsk (registers ?s2)) = False"
    using assms(1) by (simp_all add: sprite_field_defs has_mask_def)
  show ?thesis
    unfolding drawing_kick_update_state_def a
    apply (simp only: Let_def prod.case if_True if_False not_True_eq_False not_False_eq_True t b w)
    apply simp
    done
qed

lemma bind_frame_buffer_sel [simp]:
  "primitive_count (bind_frame_buffer cfg c f z rp) = primitive_count rp"
  "state_vectors (bind_frame_buffer cfg c f z rp) = state_vectors rp"
  "state_vector_map (bind_frame_buffer cfg c f z rp) = state_vector_map rp"
  "tex_infos (bind_frame_buffer cfg c f z rp) = tex_infos rp"
  "pending_palette_updates (bind_frame_buffer cfg c f z rp) = pending_palette_updates rp"
  "rp_bb (bind_frame_buffer cfg c f z rp) = rp_bb rp"
  "color_write_mask (bind_frame_buffer cfg c f z rp) = color_write_mask rp"
  "z_sensitive (bind_frame_buffer cfg c f z rp) = z_sensitive rp"
  "z_write (bind_frame_buffer cfg c f z rp) = z_write rp"
  "is_color_feedback (bind_frame_buffer cfg c f z rp) = is_color_feedback rp"
  "rp_prim (bind_frame_buffer cfg c f z rp) = rp_prim rp"
  "rp_positions (bind_frame_buffer cfg c f z rp) = rp_positions rp"
  "rp_attributes (bind_frame_buffer cfg c f z rp) = rp_attributes rp"
  "has_aa1 (bind_frame_buffer cfg c f z rp) = has_aa1 rp"
  "has_scanmsk (bind_frame_buffer cfg c f z rp) = has_scanmsk rp"
  "has_color_feedback (bind_frame_buffer cfg c f z rp) = has_color_feedback rp"
  "label_key (bind_frame_buffer cfg c f z rp) = label_key rp"
  "memoized_palettes (bind_frame_buffer cfg c f z rp) = memoized_palettes rp"
  "clut_instance (bind_frame_buffer cfg c f z rp) = clut_instance rp"
  by (simp_all add: bind_frame_buffer_def)

lemma tracker_call_quiet:
  "fb_marks_quiet cfg \<Longrightarrow> tracker_call cfg (Mark_fb_write r) s = emit (Mark_fb_write r) s"
  by (simp add: fb_marks_quiet_def tracker_call_def run_callbacks_def)

lemma expand_render_pass_start:
  assumes "registers s = sprite_registers sc"
      and q: "fb_marks_quiet cfg"
      and "\<not> z_sensitive (render_pass s)"
      and "color_write_mask (render_pass s) = 0"
      and "rp_bb (render_pass s) = (INT32_MAX, INT32_MAX, INT32_MIN, INT32_MIN)"
      and "a \<le> INT32_MAX" "b \<le> INT32_MAX" "INT32_MIN \<le> c" "INT32_MIN \<le> d"
  shows "expand_render_pass cfg (a, b, c, d) s =
         s\<lparr>render_pass := (render_pass s)\<lparr>color_write_mask := - 1, rp_bb := (a, b, c, d)\<rparr>,
           calls := calls s @
             [Mark_fb_write ((compute_fb_rect cfg ((render_pass s)\<lparr>color_write_mask := - 1, rp_bb := (a, b, c, d)\<rparr>) (a, b, c, d))
                \<lparr>write_mask := write_mask (compute_fb_rect cfg ((render_pass s)\<lparr>color_write_mask := - 1, rp_bb := (a, b, c, d)\<rparr>) (a, b, c, d))\<rparr>)]\<rparr>"
proof -
  have z: "state_is_z_sensitive s = False" "FRAME_FBMSK (frame (cur_ctx s)) = 0"
    using assms(1) sprite_ctx_fields(1,2) [of s sc] by blast+
  have m: "min a INT32_MAX = a" "min b INT32_MAX = b" "max c INT32_MIN = c" "max d INT32_MIN = d"
    using assms(6-9) by simp_all
  have w: "(ucast (- 1 :: u64) :: u32) = - 1"
    by (rule bit_word_eqI) (simp add: bit_ucast_iff)
  show ?thesis
    unfolding expand_render_pass_def
    using assms(3-5)
    by (simp add: Let_def z m w bb_x_def bb_y_def bb_z_def bb_w_def tracker_call_quiet [OF q] emit_def)
qed

lemma and_not_disjoint: "a AND b = 0 \<Longrightarrow> (d AND NOT a) AND b = d AND (b :: u32)"
proof (rule bit_word_eqI)
  fix n
  assume h: "a AND b = 0"
  have "bit (a AND b) n = bit (0 :: u32) n" using h by simp
  then have "\<not> (bit a n \<and> bit b n)" by (simp add: bit_and_iff)
  then show "bit ((d AND NOT a) AND b) n = bit (d AND b) n"
    by (auto simp add: bit_and_iff bit_not_iff dest: bit_imp_le_length)
qed

lemma dirty_disjoint:
  "STATE_DIRTY_FEEDBACK_BIT AND STATE_DIRTY_FB_BIT = 0"
  "STATE_DIRTY_FEEDBACK_BIT AND STATE_DIRTY_PRIM_TEMPLATE_BIT = 0"
  "STATE_DIRTY_FEEDBACK_BIT AND STATE_DIRTY_STATE_BIT = 0"
  "STATE_DIRTY_FB_BIT AND STATE_DIRTY_PRIM_TEMPLATE_BIT = 0"
  "STATE_DIRTY_FB_BIT AND STATE_DIRTY_STATE_BIT = 0"
  "STATE_DIRTY_PRIM_TEMPLATE_BIT AND STATE_DIRTY_STATE_BIT = 0"
  "STATE_DIRTY_DEGENERATE_BIT AND STATE_DIRTY_FEEDBACK_BIT = 0"
  "STATE_DIRTY_DEGENERATE_BIT AND STATE_DIRTY_FB_BIT = 0"
  "STATE_DIRTY_DEGENERATE_BIT AND STATE_DIRTY_PRIM_TEMPLATE_BIT = 0"
  "STATE_DIRTY_DEGENERATE_BIT AND STATE_DIRTY_STATE_BIT = 0"
  by (simp_all add: dirty_defs)

lemma append_start:
  assumes q: "fb_marks_quiet cfg"
      and r: "registers s = sprite_registers sc"
      and d: "start_dirty (dirty_flags (state_tracker s))"
      and p: "primitive_count (render_pass s) = 0"
      and v: "state_vectors (render_pass s) = []" "state_vector_map (render_pass s) = []"
      and z: "\<not> z_sensitive (render_pass s)"
      and m: "color_write_mask (render_pass s) = 0"
      and b: "rp_bb (render_pass s) = (INT32_MAX, INT32_MAX, INT32_MIN, INT32_MIN)"
      and i: "a \<le> INT32_MAX" "b \<le> INT32_MAX" "INT32_MIN \<le> c" "INT32_MIN \<le> d'"
  shows "append_primitive cfg True 2 pos attr (a, b, c, d') s =
    (let rp3 = bind_frame_buffer cfg (cur_ctx s)
                 (get_field 0 32 (rp_frame (render_pass s)) \<noteq> get_field 0 32 (frame (cur_ctx s)))
                 (ZBUF_PSM (rp_zbuf (render_pass s)) \<noteq> ZBUF_PSM (zbuf (cur_ctx s)) \<or>
                  ZBUF_ZBP (rp_zbuf (render_pass s)) \<noteq> ZBUF_ZBP (zbuf (cur_ctx s)))
                 ((render_pass s)\<lparr>is_color_feedback := False, is_potential_color_feedback := False,
                                    is_potential_depth_feedback := False\<rparr>);
         rp6 = rp3\<lparr>state_vectors := [zero_state_vector], state_vector_map := [(zero_state_vector, 0)],
                   has_aa1 := has_aa1 (render_pass s), has_scanmsk := has_scanmsk (render_pass s),
                   color_write_mask := - 1, rp_bb := (a, b, c, d')\<rparr>
     in s\<lparr>state_tracker := (state_tracker s)
             \<lparr>dirty_flags := 0, last_state_vector := zero_state_vector, last_state_index := 0,
              prim_template_tex := zero_tex_word, prim_template_state := sprite_state_word\<rparr>,
          render_pass := rp6
             \<lparr>rp_prim := rp_prim (render_pass s) @ [sprite_attr zero_tex_word sprite_state_word (a, b, c, d')],
              rp_positions := rp_positions (render_pass s) @ [pos],
              rp_attributes := rp_attributes (render_pass s) @ [attr],
              primitive_count := 1\<rparr>,
          calls := calls s @ [Mark_fb_write (compute_fb_rect cfg rp6 (a, b, c, d'))]\<rparr>)"
proof -
  let ?d = "dirty_flags (state_tracker s)"
  let ?s1 = "s\<lparr>state_tracker := (state_tracker s)\<lparr>dirty_flags := ?d AND NOT STATE_DIRTY_FEEDBACK_BIT\<rparr>,
           render_pass := (render_pass s)
              \<lparr>is_color_feedback := False, is_potential_color_feedback := False,
               is_potential_depth_feedback := False\<rparr>\<rparr>"
  have 1: "update_color_feedback_state cfg s = ?s1"
    using r d by (simp add: update_color_feedback_state_start start_dirty_def)
  have t: "(PRIM_TME (prim (registers s)) \<noteq> 0) = False"
    using r by (simp add: sprite_field_defs)
  let ?s3 = "?s1\<lparr>state_tracker := (state_tracker ?s1)
              \<lparr>dirty_flags := dirty_flags (state_tracker ?s1) AND NOT STATE_DIRTY_FB_BIT\<rparr>,
           render_pass := bind_frame_buffer cfg (cur_ctx ?s1)
              (get_field 0 32 (rp_frame (render_pass ?s1)) \<noteq> get_field 0 32 (frame (cur_ctx ?s1)))
              (ZBUF_PSM (rp_zbuf (render_pass ?s1)) \<noteq> ZBUF_PSM (zbuf (cur_ctx ?s1)) \<or>
               ZBUF_ZBP (rp_zbuf (render_pass ?s1)) \<noteq> ZBUF_ZBP (zbuf (cur_ctx ?s1)))
              (render_pass ?s1)\<rparr>"
  have 3: "check_frame_buffer_state cfg ?s1 = ?s3"
    apply (rule check_frame_buffer_state_start)
    using d p by (simp_all add: start_dirty_def and_not_disjoint dirty_disjoint)
  let ?s5 = "?s3\<lparr>state_tracker := (state_tracker ?s3)
              \<lparr>dirty_flags := (dirty_flags (state_tracker ?s3) AND NOT STATE_DIRTY_PRIM_TEMPLATE_BIT)
                               AND NOT STATE_DIRTY_STATE_BIT,
               last_state_vector := zero_state_vector, last_state_index := 0,
               prim_template_tex := zero_tex_word, prim_template_state := sprite_state_word\<rparr>,
           render_pass := (render_pass ?s3)
              \<lparr>state_vectors := [zero_state_vector], state_vector_map := [(zero_state_vector, 0)],
               has_aa1 := has_aa1 (render_pass ?s3), has_scanmsk := has_scanmsk (render_pass ?s3)\<rparr>\<rparr>"
  have 5: "\<And>fm uvb. drawing_kick_update_state cfg fm uvb (a, b, c, d') ?s3 = ?s5"
    apply (rule drawing_kick_update_state_start [where sc = sc])
    using r d v by (simp_all add: start_dirty_def and_not_disjoint dirty_disjoint)
  let ?rp6 = "(render_pass ?s5)\<lparr>color_write_mask := - 1, rp_bb := (a, b, c, d')\<rparr>"
  let ?s6 = "?s5\<lparr>render_pass := ?rp6,
           calls := calls ?s5 @
             [Mark_fb_write ((compute_fb_rect cfg ?rp6 (a, b, c, d'))
                \<lparr>write_mask := write_mask (compute_fb_rect cfg ?rp6 (a, b, c, d'))\<rparr>)]\<rparr>"
  have 6: "expand_render_pass cfg (a, b, c, d') ?s5 = ?s6"
    apply (rule expand_render_pass_start [where sc = sc])
    using r q z m b i by simp_all
  have f: "is_color_feedback (render_pass ?s1) = False" by simp
  show ?thesis
    unfolding append_primitive_def
    apply (simp only: Let_def 1 t f simp_thms if_False 3 5 6 fst_conv snd_conv)
    using r p apply (simp add: sprite_attr_def sprite_field_defs Let_def)
    done
qed

end
